theory Spec2Isabelle
  imports Main "HOL-Library.Word"
begin

unbundle bit_operations_syntax

section \<open>Machine types and the outcome of a call\<close>

type_synonym uint8_t = "8 word"
type_synonym uint16_t = "16 word"
type_synonym uint32_t = "32 word"

text \<open>The target is a 32-bit Cortex-M: \<open>size_t\<close> and data pointers are 32 bits wide.\<close>

type_synonym size_t = "32 word"
type_synonym ltdc_color_t = "32 word"

text \<open>
  Modelled from the spec: the scalar types of stm32_ltdc.h, which is not under src/.
  A pixel format is a small unsigned id (0..7), enable flags and blending factors are
  register bit sets.
\<close>

type_synonym ltdc_pixfmt_t = "8 word"
type_synonym ltdc_flags_t = "32 word"
type_synonym ltdc_blendf_t = "32 word"

text \<open>
  With the checks compiled in, a failing \<open>chDbgCheck\<close>, \<open>chDbgAssert\<close> or
  \<open>chDbgPanic\<close> halts the system. A call therefore either returns (\<open>Done\<close>), halts
  at a check with the state reached so far (\<open>Halted\<close>), or is still polling the
  hardware when the fuel of a busy-wait loop is spent (\<open>Timeout\<close>). Reading through
  a null pointer or past the end of an array, which C leaves undefined, halts as well
  (\<open>NullDeref\<close>, \<open>OutOfBounds\<close>).
\<close>

datatype halt =
    CheckFailed string
  | AssertFailed string
  | Panic string
  | NullDeref
  | OutOfBounds

datatype 's outcome = Done 's | Halted halt 's | Timeout

type_synonym 's stmt = "'s \<Rightarrow> 's outcome"

definition chDbgCheck :: "('s \<Rightarrow> bool) \<Rightarrow> string \<Rightarrow> 's stmt" where
  "chDbgCheck c func s = (if c s then Done s else Halted (CheckFailed func) s)"

definition chDbgAssert :: "('s \<Rightarrow> bool) \<Rightarrow> string \<Rightarrow> 's stmt" where
  "chDbgAssert c m s = (if c s then Done s else Halted (AssertFailed m) s)"

text \<open>A statement that only writes: it always returns.\<close>

definition exec :: "('s \<Rightarrow> 's) \<Rightarrow> 's stmt" where
  "exec f s = Done (f s)"

text \<open>Statements in sequence; the first one that does not return ends the block.\<close>

fun block :: "'s stmt list \<Rightarrow> 's stmt" where
  "block [] s = Done s"
| "block (c # cs) s =
     (case c s of
        Done s' \<Rightarrow> block cs s'
      | Halted h s' \<Rightarrow> Halted h s'
      | Timeout \<Rightarrow> Timeout)"

section \<open>LTDC helper functions\<close>

text \<open>
  Modelled from the spec: the pixel format ids of stm32_ltdc.h (not under src/), in the
  order of the comments of the \<open>ltdc_bpp\<close> table, and the bounds 0..7 of the ids.
\<close>

definition LTDC_FMT_ARGB8888 :: ltdc_pixfmt_t where "LTDC_FMT_ARGB8888 = 0"
definition LTDC_FMT_RGB888 :: ltdc_pixfmt_t where "LTDC_FMT_RGB888 = 1"
definition LTDC_FMT_RGB565 :: ltdc_pixfmt_t where "LTDC_FMT_RGB565 = 2"
definition LTDC_FMT_ARGB1555 :: ltdc_pixfmt_t where "LTDC_FMT_ARGB1555 = 3"
definition LTDC_FMT_ARGB4444 :: ltdc_pixfmt_t where "LTDC_FMT_ARGB4444 = 4"
definition LTDC_FMT_L8 :: ltdc_pixfmt_t where "LTDC_FMT_L8 = 5"
definition LTDC_FMT_AL44 :: ltdc_pixfmt_t where "LTDC_FMT_AL44 = 6"
definition LTDC_FMT_AL88 :: ltdc_pixfmt_t where "LTDC_FMT_AL88 = 7"

definition LTDC_MIN_PIXFMT_ID :: ltdc_pixfmt_t where "LTDC_MIN_PIXFMT_ID = 0"
definition LTDC_MAX_PIXFMT_ID :: ltdc_pixfmt_t where "LTDC_MAX_PIXFMT_ID = 7"

lemmas LTDC_FMT_defs =
  LTDC_FMT_ARGB8888_def LTDC_FMT_RGB888_def LTDC_FMT_RGB565_def LTDC_FMT_ARGB1555_def
  LTDC_FMT_ARGB4444_def LTDC_FMT_L8_def LTDC_FMT_AL44_def LTDC_FMT_AL88_def
  LTDC_MIN_PIXFMT_ID_def LTDC_MAX_PIXFMT_ID_def

text \<open>Bits per pixel lookup table, \<open>LTDC_MAX_PIXFMT_ID + 1\<close> entries.\<close>

definition ltdc_bpp :: "uint8_t list" where
  "ltdc_bpp = [32, 24, 16, 16, 16, 8, 8, 16]"

text \<open>
  \<open>ltdcBitsPerPixel\<close>: the assertion compares with \<open><\<close>, then the table is read at
  the format id.
\<close>

definition ltdcBitsPerPixel :: "ltdc_pixfmt_t \<Rightarrow> halt + size_t" where
  "ltdcBitsPerPixel fmt =
     (if fmt < LTDC_MAX_PIXFMT_ID then Inr (ucast (ltdc_bpp ! unat fmt))
      else Inl (AssertFailed ''ltdcBitsPerPixel(), #1''))"

text \<open>
  Modelled from the spec: the macro \<open>ltdcBytesPerPixel\<close> of stm32_ltdc.h (not under
  src/): the bytes per pixel of a format, its bits per pixel rounded up to whole bytes.
\<close>

definition ltdcBytesPerPixel :: "ltdc_pixfmt_t \<Rightarrow> halt + size_t" where
  "ltdcBytesPerPixel fmt =
     (case ltdcBitsPerPixel fmt of
        Inl h \<Rightarrow> Inl h
      | Inr bits \<Rightarrow> Inr (drop_bit 3 (bits + 7)))"

text \<open>\<open>ltdcFromARGB8888\<close>: one lane shift per channel, the low bits are dropped.\<close>

definition ltdcFromARGB8888 :: "ltdc_color_t \<Rightarrow> ltdc_pixfmt_t \<Rightarrow> halt + ltdc_color_t" where
  "ltdcFromARGB8888 c fmt =
     (if fmt = LTDC_FMT_ARGB8888 then Inr c
      else if fmt = LTDC_FMT_RGB888 then Inr (c AND 0x00FFFFFF)
      else if fmt = LTDC_FMT_RGB565 then
        Inr (drop_bit (8 - 5) (c AND 0x000000F8) OR
             drop_bit (16 - 11) (c AND 0x0000FC00) OR
             drop_bit (24 - 16) (c AND 0x00F80000))
      else if fmt = LTDC_FMT_ARGB1555 then
        Inr (drop_bit (8 - 5) (c AND 0x000000F8) OR
             drop_bit (16 - 10) (c AND 0x0000F800) OR
             drop_bit (24 - 15) (c AND 0x00F80000) OR
             drop_bit (32 - 16) (c AND 0x80000000))
      else if fmt = LTDC_FMT_ARGB4444 then
        Inr (drop_bit (8 - 4) (c AND 0x000000F0) OR
             drop_bit (16 - 8) (c AND 0x0000F000) OR
             drop_bit (24 - 12) (c AND 0x00F00000) OR
             drop_bit (32 - 16) (c AND 0xF0000000))
      else if fmt = LTDC_FMT_L8 then Inr (c AND 0x000000FF)
      else if fmt = LTDC_FMT_AL44 then
        Inr (drop_bit (8 - 4) (c AND 0x000000F0) OR
             drop_bit (32 - 8) (c AND 0xF0000000))
      else if fmt = LTDC_FMT_AL88 then
        Inr (drop_bit (8 - 8) (c AND 0x000000FF) OR
             drop_bit (32 - 16) (c AND 0xFF000000))
      else Inl (Panic ''invalid format''))"

text \<open>
  \<open>ltdcToARGB8888\<close>: each channel that is not zero is shifted to its lane and its
  missing low bits are set to ones; a channel that is zero contributes nothing.
\<close>

definition expand :: "ltdc_color_t \<Rightarrow> ltdc_color_t \<Rightarrow> nat \<Rightarrow> ltdc_color_t \<Rightarrow> ltdc_color_t \<Rightarrow> ltdc_color_t"
  where
  "expand c msk sh fill output =
     (if c AND msk \<noteq> 0 then output OR (push_bit sh (c AND msk) OR fill) else output)"

definition ltdcToARGB8888 :: "ltdc_color_t \<Rightarrow> ltdc_pixfmt_t \<Rightarrow> halt + ltdc_color_t" where
  "ltdcToARGB8888 c fmt =
     (if fmt = LTDC_FMT_ARGB8888 then Inr c
      else if fmt = LTDC_FMT_RGB888 then Inr ((c AND 0x00FFFFFF) OR 0xFF000000)
      else if fmt = LTDC_FMT_RGB565 then
        Inr (expand c 0xF800 (24 - 16) 0x00070000
            (expand c 0x07E0 (16 - 11) 0x00000300
            (expand c 0x001F (8 - 5) 0x00000007 0xFF000000)))
      else if fmt = LTDC_FMT_ARGB1555 then
        Inr (let output = expand c 0x7C00 (24 - 15) 0x00070000
                         (expand c 0x03E0 (16 - 10) 0x00000700
                         (expand c 0x001F (8 - 5) 0x00000007 0x00000000))
             in if c AND 0x8000 \<noteq> 0 then output OR 0xFF000000 else output)
      else if fmt = LTDC_FMT_ARGB4444 then
        Inr (expand c 0xF000 (32 - 16) 0x0F000000
            (expand c 0x0F00 (24 - 12) 0x000F0000
            (expand c 0x00F0 (16 - 8) 0x00000F00
            (expand c 0x000F (8 - 4) 0x0000000F 0x00000000))))
      else if fmt = LTDC_FMT_L8 then Inr ((c AND 0xFF) OR 0xFF000000)
      else if fmt = LTDC_FMT_AL44 then
        Inr (expand c 0xF0 (32 - 8) 0x0F000000
            (expand c 0x0F (8 - 4) 0x0000000F 0x00000000))
      else if fmt = LTDC_FMT_AL88 then
        Inr (push_bit (8 - 8) (c AND 0x00FF) OR
             push_bit (32 - 16) (c AND 0xFF00))
      else Inl (AssertFailed ''(), #1''))"

section \<open>LTDC: registers and data model\<close>

text \<open>
  Modelled from the spec: the register blocks of the device header, which is not under
  src/. A register is a 32-bit cell that reads back the value written last, that is, the
  register file as it stands once the shadow reload has committed the writes.
  \<open>CLUTWR\<close> is a write-only port: the model keeps the words written to it, oldest
  first. \<open>ICR\<close> is a write-one-to-clear port over \<open>ISR\<close> and reads as zero.
\<close>

record LTDC_TypeDef =
  SSCR :: uint32_t
  BPCR :: uint32_t
  AWCR :: uint32_t
  TWCR :: uint32_t
  GCR :: uint32_t
  SRCR :: uint32_t
  BCCR :: uint32_t
  IER :: uint32_t
  ISR :: uint32_t

record LTDC_Layer_TypeDef =
  CR :: uint32_t
  WHPCR :: uint32_t
  WVPCR :: uint32_t
  CKCR :: uint32_t
  PFCR :: uint32_t
  CACR :: uint32_t
  DCCR :: uint32_t
  BFCR :: uint32_t
  CFBAR :: uint32_t
  CFBLR :: uint32_t
  CFBLNR :: uint32_t
  CLUTWR :: "uint32_t list"

text \<open>
  Modelled from the spec: the bit-field masks of the device header (not under src/),
  with the layouts of the target silicon, and the flag groups of stm32_ltdc.h built from
  them.
\<close>

definition LTDC_SSCR_VSH :: uint32_t where "LTDC_SSCR_VSH = 0x000007FF"
definition LTDC_SSCR_HSW :: uint32_t where "LTDC_SSCR_HSW = 0x0FFF0000"
definition LTDC_BPCR_AVBP :: uint32_t where "LTDC_BPCR_AVBP = 0x000007FF"
definition LTDC_BPCR_AHBP :: uint32_t where "LTDC_BPCR_AHBP = 0x0FFF0000"
definition LTDC_AWCR_AAH :: uint32_t where "LTDC_AWCR_AAH = 0x000007FF"
definition LTDC_AWCR_AAW :: uint32_t where "LTDC_AWCR_AAW = 0x0FFF0000"
definition LTDC_TWCR_TOTALH :: uint32_t where "LTDC_TWCR_TOTALH = 0x000007FF"
definition LTDC_TWCR_TOTALW :: uint32_t where "LTDC_TWCR_TOTALW = 0x0FFF0000"

definition LTDC_GCR_LTDCEN :: uint32_t where "LTDC_GCR_LTDCEN = 0x00000001"
definition LTDC_GCR_DTEN :: uint32_t where "LTDC_GCR_DTEN = 0x00010000"
definition LTDC_GCR_PCPOL :: uint32_t where "LTDC_GCR_PCPOL = 0x10000000"
definition LTDC_GCR_DEPOL :: uint32_t where "LTDC_GCR_DEPOL = 0x20000000"
definition LTDC_GCR_VSPOL :: uint32_t where "LTDC_GCR_VSPOL = 0x40000000"
definition LTDC_GCR_HSPOL :: uint32_t where "LTDC_GCR_HSPOL = 0x80000000"

definition LTDC_SRCR_IMR :: uint32_t where "LTDC_SRCR_IMR = 0x00000001"
definition LTDC_SRCR_VBR :: uint32_t where "LTDC_SRCR_VBR = 0x00000002"

definition LTDC_IER_LIE :: uint32_t where "LTDC_IER_LIE = 0x00000001"
definition LTDC_IER_FUIE :: uint32_t where "LTDC_IER_FUIE = 0x00000002"
definition LTDC_IER_TERRIE :: uint32_t where "LTDC_IER_TERRIE = 0x00000004"
definition LTDC_IER_RRIE :: uint32_t where "LTDC_IER_RRIE = 0x00000008"

definition LTDC_ISR_LIF :: uint32_t where "LTDC_ISR_LIF = 0x00000001"
definition LTDC_ISR_FUIF :: uint32_t where "LTDC_ISR_FUIF = 0x00000002"
definition LTDC_ISR_TERRIF :: uint32_t where "LTDC_ISR_TERRIF = 0x00000004"
definition LTDC_ISR_RRIF :: uint32_t where "LTDC_ISR_RRIF = 0x00000008"

definition LTDC_ICR_CLIF :: uint32_t where "LTDC_ICR_CLIF = 0x00000001"
definition LTDC_ICR_CFUIF :: uint32_t where "LTDC_ICR_CFUIF = 0x00000002"
definition LTDC_ICR_CTERRIF :: uint32_t where "LTDC_ICR_CTERRIF = 0x00000004"
definition LTDC_ICR_CRRIF :: uint32_t where "LTDC_ICR_CRRIF = 0x00000008"

definition LTDC_LxCR_LEN :: uint32_t where "LTDC_LxCR_LEN = 0x00000001"
definition LTDC_LxCR_COLKEN :: uint32_t where "LTDC_LxCR_COLKEN = 0x00000002"
definition LTDC_LxCR_CLUTEN :: uint32_t where "LTDC_LxCR_CLUTEN = 0x00000010"

definition LTDC_LxWHPCR_WHSTPOS :: uint32_t where "LTDC_LxWHPCR_WHSTPOS = 0x00000FFF"
definition LTDC_LxWHPCR_WHSPPOS :: uint32_t where "LTDC_LxWHPCR_WHSPPOS = 0xFFFF0000"
definition LTDC_LxWVPCR_WVSTPOS :: uint32_t where "LTDC_LxWVPCR_WVSTPOS = 0x00000FFF"
definition LTDC_LxWVPCR_WVSPPOS :: uint32_t where "LTDC_LxWVPCR_WVSPPOS = 0xFFFF0000"

definition LTDC_LxPFCR_PF :: uint32_t where "LTDC_LxPFCR_PF = 0x00000007"
definition LTDC_LxCACR_CONSTA :: uint32_t where "LTDC_LxCACR_CONSTA = 0x000000FF"
definition LTDC_LxBFCR_BF2 :: uint32_t where "LTDC_LxBFCR_BF2 = 0x00000007"
definition LTDC_LxBFCR_BF1 :: uint32_t where "LTDC_LxBFCR_BF1 = 0x00000700"
definition LTDC_LxCFBAR_CFBADD :: uint32_t where "LTDC_LxCFBAR_CFBADD = 0xFFFFFFFF"
definition LTDC_LxCFBLR_CFBLL :: uint32_t where "LTDC_LxCFBLR_CFBLL = 0x00001FFF"
definition LTDC_LxCFBLR_CFBP :: uint32_t where "LTDC_LxCFBLR_CFBP = 0x1FFF0000"
definition LTDC_LxCFBLNR_CFBLNBR :: uint32_t where "LTDC_LxCFBLNR_CFBLNBR = 0x000007FF"

definition LTDC_EF_ENABLE :: ltdc_flags_t where "LTDC_EF_ENABLE = LTDC_GCR_LTDCEN"

definition LTDC_EF_MASK :: ltdc_flags_t where
  "LTDC_EF_MASK = LTDC_GCR_LTDCEN OR LTDC_GCR_DTEN OR LTDC_GCR_PCPOL OR LTDC_GCR_DEPOL OR
     LTDC_GCR_VSPOL OR LTDC_GCR_HSPOL"

definition LTDC_LEF_MASK :: ltdc_flags_t where
  "LTDC_LEF_MASK = LTDC_LxCR_LEN OR LTDC_LxCR_COLKEN OR LTDC_LxCR_CLUTEN"

text \<open>The fallback of stm32_ltdc.c for a device header without \<open>LTDC_LxBFCR_BF\<close>.\<close>

definition LTDC_LxBFCR_BF :: uint32_t where
  "LTDC_LxBFCR_BF = LTDC_LxBFCR_BF1 OR LTDC_LxBFCR_BF2"

text \<open>Modelled from the spec: the maximum palette length (256) of stm32_ltdc.h.\<close>

definition LTDC_MAX_PALETTE_LENGTH :: uint16_t where "LTDC_MAX_PALETTE_LENGTH = 256"

lemmas LTDC_mask_defs =
  LTDC_SSCR_VSH_def LTDC_SSCR_HSW_def LTDC_BPCR_AVBP_def LTDC_BPCR_AHBP_def
  LTDC_AWCR_AAH_def LTDC_AWCR_AAW_def LTDC_TWCR_TOTALH_def LTDC_TWCR_TOTALW_def
  LTDC_GCR_LTDCEN_def LTDC_GCR_DTEN_def LTDC_GCR_PCPOL_def LTDC_GCR_DEPOL_def
  LTDC_GCR_VSPOL_def LTDC_GCR_HSPOL_def LTDC_SRCR_IMR_def LTDC_SRCR_VBR_def
  LTDC_IER_LIE_def LTDC_IER_FUIE_def LTDC_IER_TERRIE_def LTDC_IER_RRIE_def
  LTDC_ISR_LIF_def LTDC_ISR_FUIF_def LTDC_ISR_TERRIF_def LTDC_ISR_RRIF_def
  LTDC_ICR_CLIF_def LTDC_ICR_CFUIF_def LTDC_ICR_CTERRIF_def LTDC_ICR_CRRIF_def
  LTDC_LxCR_LEN_def LTDC_LxCR_COLKEN_def LTDC_LxCR_CLUTEN_def
  LTDC_LxWHPCR_WHSTPOS_def LTDC_LxWHPCR_WHSPPOS_def LTDC_LxWVPCR_WVSTPOS_def
  LTDC_LxWVPCR_WVSPPOS_def LTDC_LxPFCR_PF_def LTDC_LxCACR_CONSTA_def
  LTDC_LxBFCR_BF2_def LTDC_LxBFCR_BF1_def LTDC_LxCFBAR_CFBADD_def LTDC_LxCFBLR_CFBLL_def
  LTDC_LxCFBLR_CFBP_def LTDC_LxCFBLNR_CFBLNBR_def LTDC_EF_ENABLE_def LTDC_EF_MASK_def
  LTDC_LEF_MASK_def LTDC_LxBFCR_BF_def LTDC_MAX_PALETTE_LENGTH_def

text \<open>
  The constants of stm32_ltdc.h (not under src/) whose values the spec leaves open: the
  bounds of the timing and frame parameters, the colour black and the default blending
  factors. Every function that uses one takes the header as a parameter.
\<close>

record ltdc_header =
  LTDC_MIN_HSYNC_WIDTH :: uint32_t
  LTDC_MAX_HSYNC_WIDTH :: uint32_t
  LTDC_MIN_VSYNC_HEIGHT :: uint32_t
  LTDC_MAX_VSYNC_HEIGHT :: uint32_t
  LTDC_MIN_HBP_WIDTH :: uint32_t
  LTDC_MAX_HBP_WIDTH :: uint32_t
  LTDC_MIN_VBP_HEIGHT :: uint32_t
  LTDC_MAX_VBP_HEIGHT :: uint32_t
  LTDC_MIN_ACC_HBP_WIDTH :: uint32_t
  LTDC_MAX_ACC_HBP_WIDTH :: uint32_t
  LTDC_MIN_ACC_VBP_HEIGHT :: uint32_t
  LTDC_MAX_ACC_VBP_HEIGHT :: uint32_t
  LTDC_MIN_SCREEN_WIDTH :: uint32_t
  LTDC_MAX_SCREEN_WIDTH :: uint32_t
  LTDC_MIN_SCREEN_HEIGHT :: uint32_t
  LTDC_MAX_SCREEN_HEIGHT :: uint32_t
  LTDC_MIN_ACC_ACTIVE_WIDTH :: uint32_t
  LTDC_MAX_ACC_ACTIVE_WIDTH :: uint32_t
  LTDC_MIN_ACC_ACTIVE_HEIGHT :: uint32_t
  LTDC_MAX_ACC_ACTIVE_HEIGHT :: uint32_t
  LTDC_MIN_HFP_WIDTH :: uint32_t
  LTDC_MAX_HFP_WIDTH :: uint32_t
  LTDC_MIN_VFP_HEIGHT :: uint32_t
  LTDC_MAX_VFP_HEIGHT :: uint32_t
  LTDC_MIN_ACC_TOTAL_WIDTH :: uint32_t
  LTDC_MAX_ACC_TOTAL_WIDTH :: uint32_t
  LTDC_MIN_ACC_TOTAL_HEIGHT :: uint32_t
  LTDC_MAX_ACC_TOTAL_HEIGHT :: uint32_t
  LTDC_MIN_FRAME_WIDTH_BYTES :: uint32_t
  LTDC_MAX_FRAME_WIDTH_BYTES :: uint32_t
  LTDC_MIN_FRAME_HEIGHT_LINES :: uint32_t
  LTDC_MAX_FRAME_HEIGHT_LINES :: uint32_t
  LTDC_COLOR_BLACK :: ltdc_color_t
  LTDC_BLEND_FIX1_FIX2 :: ltdc_blendf_t

text \<open>
  Modelled from the spec: the structures of stm32_ltdc.h (not under src/). A pointer
  that may be null is an \<open>option\<close>; a frame buffer pointer is its 32-bit address; an
  ISR callback is the address of its code.
\<close>

record ltdc_window_t =
  hstart :: uint16_t
  hstop :: uint16_t
  vstart :: uint16_t
  vstop :: uint16_t

record ltdc_frame_t =
  bufferp :: uint32_t
  pitch :: size_t
  width :: uint16_t
  height :: uint16_t
  fmt :: ltdc_pixfmt_t

record ltdc_laycfg_t =
  frame :: "ltdc_frame_t option"
  window :: "ltdc_window_t option"
  def_color :: ltdc_color_t
  const_alpha :: uint8_t
  key_color :: ltdc_color_t
  pal_colors :: "ltdc_color_t list option"
  pal_length :: uint16_t
  blending :: ltdc_blendf_t
  lay_flags :: ltdc_flags_t

type_synonym ltdc_isrcb_t = nat

record LTDCConfig =
  screen_width :: uint16_t
  screen_height :: uint16_t
  hsync_width :: uint16_t
  vsync_height :: uint16_t
  hbp_width :: uint16_t
  vbp_height :: uint16_t
  hfp_width :: uint16_t
  vfp_height :: uint16_t
  flags :: ltdc_flags_t
  clear_color :: ltdc_color_t
  bg_laycfg :: "ltdc_laycfg_t option"
  fg_laycfg :: "ltdc_laycfg_t option"
  line_isr :: "ltdc_isrcb_t option"
  rr_isr :: "ltdc_isrcb_t option"
  fuerr_isr :: "ltdc_isrcb_t option"
  terr_isr :: "ltdc_isrcb_t option"

datatype ltdc_state_t = LTDC_UNINIT | LTDC_STOP | LTDC_READY | LTDC_ACTIVE

text \<open>A kernel thread is known by its number; \<open>msg_t\<close> holds the wake-up messages.\<close>

type_synonym Thread = nat

datatype msg_t = RDY_OK | RDY_TIMEOUT | RDY_RESET

text \<open>
  The driver object, built with \<open>LTDC_USE_WAIT\<close>. The field \<open>state\<close> of the source is
  \<open>ltdc_state\<close> here and \<open>flags\<close> of a layer configuration is \<open>lay_flags\<close>, since
  field names are global.
\<close>

record LTDCDriver =
  ltdc_state :: ltdc_state_t
  config :: "LTDCConfig option"
  active_window :: ltdc_window_t
  thread :: "Thread option"

text \<open>
  What a call can be seen to do to its environment, in program order: the invocation of
  a callback, a thread made ready with its message, a write of the driver state.
\<close>

datatype event =
    Invoke ltdc_isrcb_t
  | Ready Thread msg_t
  | StateSet ltdc_state_t

datatype irq = STM32_LTDC_EV_NUMBER | STM32_LTDC_ER_NUMBER

text \<open>
  The system: the controller and its two layers, the singleton driver \<open>LTDCD1\<close>, the
  NVIC vectors enabled so far, the log of events, and \<open>reload_latency\<close>, the number
  of yields that pass before the controller commits a requested reload.
  The driver pointer of every call is \<open>&LTDCD1\<close>: a null or foreign driver pointer is
  not representable, so the checks \<open>ltdcp == &LTDCD1\<close> hold by construction. The
  critical sections (\<open>chSysLock\<close>, \<open>chSysUnlock\<close>) are not modelled: calls run one
  after the other.
\<close>

record ltdc_sys =
  LTDC :: LTDC_TypeDef
  LTDC_Layer1 :: LTDC_Layer_TypeDef
  LTDC_Layer2 :: LTDC_Layer_TypeDef
  LTDCD1 :: LTDCDriver
  nvic :: "irq list"
  trace :: "event list"
  reload_latency :: nat

section \<open>LTDC: driver-level operations\<close>

text \<open>Invalid frame, invalid window and default layer specifications.\<close>

definition ltdc_invalid_frame :: ltdc_frame_t where
  "ltdc_invalid_frame =
     \<lparr>bufferp = 0, pitch = 1, width = 1, height = 1, fmt = LTDC_FMT_L8\<rparr>"

definition ltdc_invalid_window :: ltdc_window_t where
  "ltdc_invalid_window = \<lparr>hstart = 0, hstop = 1, vstart = 0, vstop = 1\<rparr>"

definition ltdc_default_laycfg :: "ltdc_header \<Rightarrow> ltdc_laycfg_t" where
  "ltdc_default_laycfg H =
     \<lparr>frame = Some ltdc_invalid_frame,
      window = Some ltdc_invalid_window,
      def_color = LTDC_COLOR_BLACK H,
      const_alpha = 0x00,
      key_color = LTDC_COLOR_BLACK H,
      pal_colors = None,
      pal_length = 0,
      blending = LTDC_BLEND_FIX1_FIX2 H,
      lay_flags = 0\<rparr>"

text \<open>A write of \<open>ltdcp->state\<close>, logged.\<close>

definition set_state :: "ltdc_state_t \<Rightarrow> ltdc_sys \<Rightarrow> ltdc_sys" where
  "set_state st s =
     s\<lparr>LTDCD1 := (LTDCD1 s)\<lparr>ltdc_state := st\<rparr>, trace := trace s @ [StateSet st]\<rparr>"

text \<open>
  Modelled from the spec: the controller clears the reload request bits when the commit
  completes. While the caller yields, the controller moves on: after \<open>reload_latency\<close>
  yields both request bits of \<open>SRCR\<close> read as zero.
\<close>

definition chSchDoYieldS :: "ltdc_sys \<Rightarrow> ltdc_sys" where
  "chSchDoYieldS s =
     (case reload_latency s of
        0 \<Rightarrow> s\<lparr>LTDC := (LTDC s)\<lparr>SRCR := SRCR (LTDC s) AND NOT (LTDC_SRCR_IMR OR LTDC_SRCR_VBR)\<rparr>\<rparr>
      | Suc n \<Rightarrow> s\<lparr>reload_latency := n\<rparr>)"

text \<open>
  The loop \<open>while (LTDC->SRCR & bits) chSchDoYieldS();\<close> with fuel: the number of
  yields it may take.
\<close>

fun ltdc_wait_reload :: "nat \<Rightarrow> uint32_t \<Rightarrow> ltdc_sys stmt" where
  "ltdc_wait_reload 0 bits s =
     (if SRCR (LTDC s) AND bits \<noteq> 0 then Timeout else Done s)"
| "ltdc_wait_reload (Suc n) bits s =
     (if SRCR (LTDC s) AND bits \<noteq> 0 then ltdc_wait_reload n bits (chSchDoYieldS s)
      else Done s)"

definition ltdc_force_reload_s :: "nat \<Rightarrow> ltdc_sys stmt" where
  "ltdc_force_reload_s fuel =
     block [
       exec (\<lambda>s. s\<lparr>LTDC := (LTDC s)\<lparr>SRCR := SRCR (LTDC s) OR LTDC_SRCR_IMR\<rparr>\<rparr>),
       ltdc_wait_reload fuel (LTDC_SRCR_IMR OR LTDC_SRCR_VBR)]"

definition ltdcObjectInit :: "ltdc_sys \<Rightarrow> ltdc_sys" where
  "ltdcObjectInit s =
     (set_state LTDC_UNINIT s)\<lparr>LTDCD1 :=
        (LTDCD1 (set_state LTDC_UNINIT s))\<lparr>config := None,
           active_window := ltdc_invalid_window, thread := None\<rparr>\<rparr>"

text \<open>
  \<open>ltdcInit\<close>: the reset of the peripheral and its clock set-up act on the RCC, which
  is outside the modelled state.
\<close>

definition ltdcInit :: "ltdc_sys \<Rightarrow> ltdc_sys" where
  "ltdcInit s = set_state LTDC_STOP (ltdcObjectInit s)"

definition ltdcGetStateI :: "ltdc_sys \<Rightarrow> ltdc_state_t" where
  "ltdcGetStateI s = ltdc_state (LTDCD1 s)"

definition ltdcSetEnableFlagsI :: "ltdc_flags_t \<Rightarrow> ltdc_sys stmt" where
  "ltdcSetEnableFlagsI flgs =
     exec (\<lambda>s. s\<lparr>LTDC := (LTDC s)\<lparr>GCR := flgs AND LTDC_EF_MASK\<rparr>\<rparr>)"

definition ltdcSetClearColorI :: "ltdc_color_t \<Rightarrow> ltdc_sys stmt" where
  "ltdcSetClearColorI c =
     exec (\<lambda>s. s\<lparr>LTDC := (LTDC s)\<lparr>BCCR :=
       (BCCR (LTDC s) AND NOT 0x00FFFFFF) OR (c AND 0x00FFFFFF)\<rparr>\<rparr>)"

definition ltdcIsReloadingI :: "ltdc_sys \<Rightarrow> bool" where
  "ltdcIsReloadingI s \<longleftrightarrow> SRCR (LTDC s) AND (LTDC_SRCR_IMR OR LTDC_SRCR_VBR) \<noteq> 0"

definition ltdcStartReloadI :: "bool \<Rightarrow> ltdc_sys stmt" where
  "ltdcStartReloadI immediately =
     block [
       chDbgAssert (\<lambda>s. ltdc_state (LTDCD1 s) = LTDC_READY) ''ltdcStartReloadI(), #1'',
       exec (set_state LTDC_ACTIVE),
       exec (\<lambda>s. if immediately
                 then s\<lparr>LTDC := (LTDC s)\<lparr>SRCR := SRCR (LTDC s) OR LTDC_SRCR_IMR\<rparr>\<rparr>
                 else s\<lparr>LTDC := (LTDC s)\<lparr>SRCR := SRCR (LTDC s) OR LTDC_SRCR_VBR\<rparr>\<rparr>)]"

section \<open>LTDC: background layer (layer 1)\<close>

definition ltdcBgGetEnableFlagsI :: "ltdc_sys \<Rightarrow> ltdc_flags_t" where
  "ltdcBgGetEnableFlagsI s = CR (LTDC_Layer1 s) AND LTDC_LEF_MASK"

definition ltdcBgSetEnableFlagsI :: "ltdc_flags_t \<Rightarrow> ltdc_sys stmt" where
  "ltdcBgSetEnableFlagsI flgs =
     exec (\<lambda>s. s\<lparr>LTDC_Layer1 := (LTDC_Layer1 s)\<lparr>CR :=
       (CR (LTDC_Layer1 s) AND NOT LTDC_LEF_MASK) OR (flgs AND LTDC_LEF_MASK)\<rparr>\<rparr>)"

definition ltdcBgIsEnabledI :: "ltdc_sys \<Rightarrow> bool" where
  "ltdcBgIsEnabledI s \<longleftrightarrow> CR (LTDC_Layer1 s) AND NOT LTDC_LxCR_LEN \<noteq> 0"

definition ltdcBgEnableI :: "ltdc_sys stmt" where
  "ltdcBgEnableI =
     exec (\<lambda>s. s\<lparr>LTDC_Layer1 := (LTDC_Layer1 s)\<lparr>CR :=
       CR (LTDC_Layer1 s) OR LTDC_LxCR_LEN\<rparr>\<rparr>)"

definition ltdcBgDisableI :: "ltdc_sys stmt" where
  "ltdcBgDisableI =
     exec (\<lambda>s. s\<lparr>LTDC_Layer1 := (LTDC_Layer1 s)\<lparr>CR :=
       CR (LTDC_Layer1 s) AND NOT LTDC_LxCR_LEN\<rparr>\<rparr>)"

definition ltdcBgIsPaletteEnabledI :: "ltdc_sys \<Rightarrow> bool" where
  "ltdcBgIsPaletteEnabledI s \<longleftrightarrow> CR (LTDC_Layer1 s) AND NOT LTDC_LxCR_CLUTEN \<noteq> 0"

definition ltdcBgEnablePaletteI :: "ltdc_sys stmt" where
  "ltdcBgEnablePaletteI =
     exec (\<lambda>s. s\<lparr>LTDC_Layer1 := (LTDC_Layer1 s)\<lparr>CR :=
       CR (LTDC_Layer1 s) OR LTDC_LxCR_CLUTEN\<rparr>\<rparr>)"

definition ltdcBgDisablePaletteI :: "ltdc_sys stmt" where
  "ltdcBgDisablePaletteI =
     exec (\<lambda>s. s\<lparr>LTDC_Layer1 := (LTDC_Layer1 s)\<lparr>CR :=
       CR (LTDC_Layer1 s) AND NOT LTDC_LxCR_CLUTEN\<rparr>\<rparr>)"

definition ltdcBgSetPaletteColorI :: "uint8_t \<Rightarrow> ltdc_color_t \<Rightarrow> ltdc_sys stmt" where
  "ltdcBgSetPaletteColorI slot c =
     block [
       chDbgAssert (\<lambda>s. \<not> ltdcBgIsEnabledI s) ''ltdcBgSetPaletteColorI(), #1'',
       exec (\<lambda>s. s\<lparr>LTDC_Layer1 := (LTDC_Layer1 s)\<lparr>CLUTWR := CLUTWR (LTDC_Layer1 s) @
         [push_bit 24 (ucast slot) OR (c AND 0x00FFFFFF)]\<rparr>\<rparr>)]"

text \<open>
  The loop \<open>for (i = 0; i < length; ++i)\<close> of \<open>ltdcBgSetPaletteI\<close>, entered at
  \<open>i\<close>. The array \<open>colors\<close> is the list of its elements.
\<close>

function ltdcBgSetPaletteI_loop :: "ltdc_color_t list \<Rightarrow> uint16_t \<Rightarrow> uint16_t \<Rightarrow> ltdc_sys stmt"
  where
  "ltdcBgSetPaletteI_loop colors len i s =
     (if i < len then
        (if unat i < length colors then
           ltdcBgSetPaletteI_loop colors len (i + 1)
             (s\<lparr>LTDC_Layer1 := (LTDC_Layer1 s)\<lparr>CLUTWR := CLUTWR (LTDC_Layer1 s) @
                [push_bit 24 (ucast i) OR (colors ! unat i AND 0x00FFFFFF)]\<rparr>\<rparr>)
         else Halted OutOfBounds s)
      else Done s)"
  by pat_completeness auto
termination
proof (relation "measure (\<lambda>(colors, len, i, s). unat len - unat i)")
  show "wf (measure (\<lambda>(colors, len, i, s). unat len - unat i))" by simp
next
  fix colors :: "ltdc_color_t list" and len i :: uint16_t and s :: ltdc_sys
  assume lt: "i < len"
  then have "unat i < unat len" by (simp add: word_less_nat_alt)
  moreover have "unat len < 2 ^ LENGTH(16)" by (rule unsigned_less)
  ultimately have "unat i + unat (1 :: uint16_t) < 2 ^ LENGTH(16)" by simp
  then have "unat (i + 1) = unat i + unat (1 :: uint16_t)" by (simp only: unat_add_lem)
  with \<open>unat i < unat len\<close> show
    "((colors, len, i + 1,
       s\<lparr>LTDC_Layer1 := (LTDC_Layer1 s)\<lparr>CLUTWR := CLUTWR (LTDC_Layer1 s) @
          [push_bit 24 (ucast i) OR (colors ! unat i AND 0x00FFFFFF)]\<rparr>\<rparr>),
      (colors, len, i, s)) \<in> measure (\<lambda>(colors, len, i, s). unat len - unat i)"
    by simp
qed

declare ltdcBgSetPaletteI_loop.simps [simp del]

definition ltdcBgSetPaletteI :: "ltdc_color_t list option \<Rightarrow> uint16_t \<Rightarrow> ltdc_sys stmt" where
  "ltdcBgSetPaletteI colors len =
     block [
       chDbgCheck (\<lambda>s. (colors = None) = (len = 0)) ''ltdcBgSetPaletteI'',
       chDbgAssert (\<lambda>s. len \<le> LTDC_MAX_PALETTE_LENGTH) ''ltdcBgSetPaletteI(), #1'',
       chDbgAssert (\<lambda>s. \<not> ltdcBgIsEnabledI s) ''ltdcBgSetPaletteI(), #2'',
       (\<lambda>s. case colors of
              None \<Rightarrow> if 0 < len then Halted NullDeref s else Done s
            | Some cs \<Rightarrow> ltdcBgSetPaletteI_loop cs len 0 s)]"

definition ltdcBgGetPixelFormatI :: "ltdc_sys \<Rightarrow> ltdc_pixfmt_t" where
  "ltdcBgGetPixelFormatI s = ucast (PFCR (LTDC_Layer1 s) AND LTDC_LxPFCR_PF)"

definition ltdcBgSetPixelFormatI :: "ltdc_pixfmt_t \<Rightarrow> ltdc_sys stmt" where
  "ltdcBgSetPixelFormatI fm =
     block [
       chDbgAssert (\<lambda>s. fm \<ge> LTDC_MIN_PIXFMT_ID) ''ltdcBgSetPixelFormatI(), #2'',
       chDbgAssert (\<lambda>s. fm \<le> LTDC_MAX_PIXFMT_ID) ''ltdcBgSetPixelFormatI(), #3'',
       exec (\<lambda>s. s\<lparr>LTDC_Layer1 := (LTDC_Layer1 s)\<lparr>PFCR :=
         (PFCR (LTDC_Layer1 s) AND NOT LTDC_LxPFCR_PF) OR (ucast fm AND LTDC_LxPFCR_PF)\<rparr>\<rparr>)]"

definition ltdcBgIsKeyingEnabledI :: "ltdc_sys \<Rightarrow> bool" where
  "ltdcBgIsKeyingEnabledI s \<longleftrightarrow> CR (LTDC_Layer1 s) AND NOT LTDC_LxCR_COLKEN \<noteq> 0"

definition ltdcBgEnableKeyingI :: "ltdc_sys stmt" where
  "ltdcBgEnableKeyingI =
     exec (\<lambda>s. s\<lparr>LTDC_Layer1 := (LTDC_Layer1 s)\<lparr>CR :=
       CR (LTDC_Layer1 s) OR LTDC_LxCR_COLKEN\<rparr>\<rparr>)"

definition ltdcBgDisableKeyingI :: "ltdc_sys stmt" where
  "ltdcBgDisableKeyingI =
     exec (\<lambda>s. s\<lparr>LTDC_Layer1 := (LTDC_Layer1 s)\<lparr>CR :=
       CR (LTDC_Layer1 s) AND NOT LTDC_LxCR_COLKEN\<rparr>\<rparr>)"

definition ltdcBgSetKeyingColorI :: "ltdc_color_t \<Rightarrow> ltdc_sys stmt" where
  "ltdcBgSetKeyingColorI c =
     exec (\<lambda>s. s\<lparr>LTDC_Layer1 := (LTDC_Layer1 s)\<lparr>CKCR :=
       (CKCR (LTDC_Layer1 s) AND NOT 0x00FFFFFF) OR (c AND 0x00FFFFFF)\<rparr>\<rparr>)"

definition ltdcBgSetConstantAlphaI :: "uint8_t \<Rightarrow> ltdc_sys stmt" where
  "ltdcBgSetConstantAlphaI a =
     exec (\<lambda>s. s\<lparr>LTDC_Layer1 := (LTDC_Layer1 s)\<lparr>CACR :=
       (CACR (LTDC_Layer1 s) AND NOT LTDC_LxCACR_CONSTA) OR
       (ucast a AND LTDC_LxCACR_CONSTA)\<rparr>\<rparr>)"

definition ltdcBgSetDefaultColorI :: "ltdc_color_t \<Rightarrow> ltdc_sys stmt" where
  "ltdcBgSetDefaultColorI c =
     exec (\<lambda>s. s\<lparr>LTDC_Layer1 := (LTDC_Layer1 s)\<lparr>DCCR := c\<rparr>\<rparr>)"

definition ltdcBgSetBlendingFactorsI :: "ltdc_blendf_t \<Rightarrow> ltdc_sys stmt" where
  "ltdcBgSetBlendingFactorsI bf =
     exec (\<lambda>s. s\<lparr>LTDC_Layer1 := (LTDC_Layer1 s)\<lparr>BFCR :=
       (BFCR (LTDC_Layer1 s) AND NOT LTDC_LxBFCR_BF) OR (bf AND LTDC_LxBFCR_BF)\<rparr>\<rparr>)"

text \<open>
  \<open>ltdcBgGetWindowI\<close> writes the four fields of the window it is given; the result is
  the window after the call.
\<close>

definition ltdcBgGetWindowI :: "ltdc_window_t option \<Rightarrow> ltdc_sys \<Rightarrow> ltdc_window_t outcome" where
  "ltdcBgGetWindowI windowp s =
     (case windowp of
        None \<Rightarrow> Halted (CheckFailed ''ltdcBgGetWindowI'') ltdc_invalid_window
      | Some w \<Rightarrow>
          Done (w\<lparr>hstart := ucast (drop_bit 0 (WHPCR (LTDC_Layer1 s) AND LTDC_LxWHPCR_WHSTPOS)),
                  hstop := ucast (drop_bit 16 (WHPCR (LTDC_Layer1 s) AND LTDC_LxWHPCR_WHSPPOS)),
                  vstart := ucast (drop_bit 0 (WVPCR (LTDC_Layer1 s) AND LTDC_LxWVPCR_WVSTPOS)),
                  vstop := ucast (drop_bit 16 (WVPCR (LTDC_Layer1 s) AND LTDC_LxWVPCR_WVSPPOS))\<rparr>))"

text \<open>
  \<open>ltdcBgSetWindowI\<close>. The locals \<open>start\<close> and \<open>stop\<close> are computed in 32 bits
  from the window and the cached active window, which the function does not write.
\<close>

definition ltdcBgSetWindowI :: "ltdc_window_t option \<Rightarrow> ltdc_sys stmt" where
  "ltdcBgSetWindowI windowp s =
     (case windowp of
        None \<Rightarrow> Halted (CheckFailed ''ltdcBgSetWindowI'') s
      | Some w \<Rightarrow>
     (case config (LTDCD1 s) of
        None \<Rightarrow> Halted NullDeref s
      | Some cfg \<Rightarrow>
          (let aw = active_window (LTDCD1 s);
               hstart32 = (ucast (hstart w) :: uint32_t) + ucast (hstart aw);
               hstop32 = (ucast (hstop w) :: uint32_t) + ucast (hstart aw);
               vstart32 = (ucast (vstart w) :: uint32_t) + ucast (vstart aw);
               vstop32 = (ucast (vstop w) :: uint32_t) + ucast (vstart aw)
           in block [
             chDbgAssert (\<lambda>s. hstop w < screen_width cfg) ''ltdcBgSetWindowI(), #11'',
             chDbgAssert (\<lambda>s. vstop w < screen_height cfg) ''ltdcBgSetWindowI(), #12'',
             chDbgAssert (\<lambda>s. hstart32 \<ge> ucast (hstart aw)) ''ltdcBgSetWindowI(), #21'',
             chDbgAssert (\<lambda>s. hstop32 \<le> ucast (hstop aw)) ''ltdcBgSetWindowI(), #22'',
             exec (\<lambda>s. s\<lparr>LTDC_Layer1 := (LTDC_Layer1 s)\<lparr>WHPCR :=
               (push_bit 0 hstart32 AND LTDC_LxWHPCR_WHSTPOS) OR
               (push_bit 16 hstop32 AND LTDC_LxWHPCR_WHSPPOS)\<rparr>\<rparr>),
             chDbgAssert (\<lambda>s. vstart32 \<ge> ucast (vstart aw)) ''ltdcBgSetWindowI(), #31'',
             chDbgAssert (\<lambda>s. vstop32 \<le> ucast (vstop aw)) ''ltdcBgSetWindowI(), #32'',
             exec (\<lambda>s. s\<lparr>LTDC_Layer1 := (LTDC_Layer1 s)\<lparr>WVPCR :=
               (push_bit 0 vstart32 AND LTDC_LxWVPCR_WVSTPOS) OR
               (push_bit 16 vstop32 AND LTDC_LxWVPCR_WVSPPOS)\<rparr>\<rparr>)] s)))"

definition ltdcBgSetInvalidWindowI :: "ltdc_sys stmt" where
  "ltdcBgSetInvalidWindowI = ltdcBgSetWindowI (Some ltdc_invalid_window)"

text \<open>
  \<open>ltdcBgGetFrameI\<close> writes the buffer address, the pitch, the width and the height of
  the frame it is given, in this order, and no other field; the result is the frame
  after the call, or the frame as far as it was written when a check fails.
\<close>

definition ltdcBgGetFrameI :: "ltdc_frame_t option \<Rightarrow> ltdc_sys \<Rightarrow> ltdc_frame_t outcome" where
  "ltdcBgGetFrameI framep s =
     (case framep of
        None \<Rightarrow> Halted (CheckFailed ''ltdcBgGetFrameI'') ltdc_invalid_frame
      | Some f \<Rightarrow>
          (let f1 = f\<lparr>bufferp := CFBAR (LTDC_Layer1 s) AND LTDC_LxCFBAR_CFBADD\<rparr>;
               f2 = f1\<lparr>pitch := drop_bit 16 (CFBLR (LTDC_Layer1 s) AND LTDC_LxCFBLR_CFBP)\<rparr>
           in case ltdcBytesPerPixel (ltdcBgGetPixelFormatI s) of
                Inl h \<Rightarrow> Halted h f2
              | Inr bytes \<Rightarrow>
                  Done (f2\<lparr>width := ucast (((CFBLR (LTDC_Layer1 s) AND LTDC_LxCFBLR_CFBLL) - 3)
                                       div bytes),
                          height := ucast (CFBLNR (LTDC_Layer1 s) AND LTDC_LxCFBLNR_CFBLNBR)\<rparr>)))"

definition ltdcBgSetFrameI :: "ltdc_header \<Rightarrow> ltdc_frame_t option \<Rightarrow> ltdc_sys stmt" where
  "ltdcBgSetFrameI H framep s =
     (case framep of
        None \<Rightarrow> Halted (CheckFailed ''ltdcBgSetFrameI'') s
      | Some f \<Rightarrow>
          block [
            ltdcBgSetPixelFormatI (fmt f),
            (\<lambda>s. case ltdcBytesPerPixel (fmt f) of
                   Inl h \<Rightarrow> Halted h s
                 | Inr bytes \<Rightarrow>
                (case config (LTDCD1 s) of
                   None \<Rightarrow> Halted NullDeref s
                 | Some cfg \<Rightarrow>
                     (let linesize = bytes * ucast (width f) in
                      block [
                        chDbgAssert (\<lambda>s. width f \<le> screen_width cfg)
                          ''ltdcBgSetFrameI(), #1'',
                        chDbgAssert (\<lambda>s. height f \<le> screen_height cfg)
                          ''ltdcBgSetFrameI(), #2'',
                        chDbgAssert (\<lambda>s. linesize \<ge> LTDC_MIN_FRAME_WIDTH_BYTES H)
                          ''ltdcBgSetFrameI(), #3'',
                        chDbgAssert (\<lambda>s. linesize \<le> LTDC_MAX_FRAME_WIDTH_BYTES H)
                          ''ltdcBgSetFrameI(), #4'',
                        chDbgAssert (\<lambda>s. ucast (height f) \<ge> LTDC_MIN_FRAME_HEIGHT_LINES H)
                          ''ltdcBgSetFrameI(), #5'',
                        chDbgAssert (\<lambda>s. ucast (height f) \<le> LTDC_MAX_FRAME_HEIGHT_LINES H)
                          ''ltdcBgSetFrameI(), #6'',
                        chDbgAssert (\<lambda>s. pitch f \<ge> linesize)
                          ''ltdcBgSetFrameI(), #7'',
                        exec (\<lambda>s. s\<lparr>LTDC_Layer1 := (LTDC_Layer1 s)\<lparr>CFBAR :=
                          bufferp f AND LTDC_LxCFBAR_CFBADD\<rparr>\<rparr>),
                        exec (\<lambda>s. s\<lparr>LTDC_Layer1 := (LTDC_Layer1 s)\<lparr>CFBLR :=
                          (push_bit 16 (pitch f) AND LTDC_LxCFBLR_CFBP) OR
                          ((linesize + 3) AND LTDC_LxCFBLR_CFBLL)\<rparr>\<rparr>),
                        exec (\<lambda>s. s\<lparr>LTDC_Layer1 := (LTDC_Layer1 s)\<lparr>CFBLNR :=
                          ucast (height f) AND LTDC_LxCFBLNR_CFBLNBR\<rparr>\<rparr>)] s)))] s)"

definition ltdcBgSetConfigI :: "ltdc_header \<Rightarrow> ltdc_laycfg_t option \<Rightarrow> ltdc_sys stmt" where
  "ltdcBgSetConfigI H cfgp0 =
     (let cfgp = (case cfgp0 of None \<Rightarrow> ltdc_default_laycfg H | Some c \<Rightarrow> c) in
      block [
        chDbgCheck (\<lambda>s. (pal_colors cfgp = None) = (pal_length cfgp = 0)) ''ltdcBgSetConfigI'',
        ltdcBgSetFrameI H (frame cfgp),
        ltdcBgSetWindowI (window cfgp),
        ltdcBgSetDefaultColorI (def_color cfgp),
        ltdcBgSetKeyingColorI (key_color cfgp),
        ltdcBgSetConstantAlphaI (const_alpha cfgp),
        ltdcBgSetBlendingFactorsI (blending cfgp),
        (\<lambda>s. if pal_length cfgp > 0
              then ltdcBgSetPaletteI (pal_colors cfgp) (pal_length cfgp) s
              else Done s),
        ltdcBgSetEnableFlagsI (lay_flags cfgp)])"

section \<open>LTDC: foreground layer (layer 2)\<close>

definition ltdcFgGetEnableFlagsI :: "ltdc_sys \<Rightarrow> ltdc_flags_t" where
  "ltdcFgGetEnableFlagsI s = CR (LTDC_Layer2 s) AND LTDC_LEF_MASK"

definition ltdcFgSetEnableFlagsI :: "ltdc_flags_t \<Rightarrow> ltdc_sys stmt" where
  "ltdcFgSetEnableFlagsI flgs =
     exec (\<lambda>s. s\<lparr>LTDC_Layer2 := (LTDC_Layer2 s)\<lparr>CR :=
       (CR (LTDC_Layer2 s) AND NOT LTDC_LEF_MASK) OR (flgs AND LTDC_LEF_MASK)\<rparr>\<rparr>)"

definition ltdcFgIsEnabledI :: "ltdc_sys \<Rightarrow> bool" where
  "ltdcFgIsEnabledI s \<longleftrightarrow> CR (LTDC_Layer2 s) AND NOT LTDC_LxCR_LEN \<noteq> 0"

definition ltdcFgEnableI :: "ltdc_sys stmt" where
  "ltdcFgEnableI =
     exec (\<lambda>s. s\<lparr>LTDC_Layer2 := (LTDC_Layer2 s)\<lparr>CR :=
       CR (LTDC_Layer2 s) OR LTDC_LxCR_LEN\<rparr>\<rparr>)"

definition ltdcFgDisableI :: "ltdc_sys stmt" where
  "ltdcFgDisableI =
     exec (\<lambda>s. s\<lparr>LTDC_Layer2 := (LTDC_Layer2 s)\<lparr>CR :=
       CR (LTDC_Layer2 s) AND NOT LTDC_LxCR_LEN\<rparr>\<rparr>)"

definition ltdcFgIsPaletteEnabledI :: "ltdc_sys \<Rightarrow> bool" where
  "ltdcFgIsPaletteEnabledI s \<longleftrightarrow> CR (LTDC_Layer2 s) AND NOT LTDC_LxCR_CLUTEN \<noteq> 0"

definition ltdcFgEnablePaletteI :: "ltdc_sys stmt" where
  "ltdcFgEnablePaletteI =
     exec (\<lambda>s. s\<lparr>LTDC_Layer2 := (LTDC_Layer2 s)\<lparr>CR :=
       CR (LTDC_Layer2 s) OR LTDC_LxCR_CLUTEN\<rparr>\<rparr>)"

definition ltdcFgDisablePaletteI :: "ltdc_sys stmt" where
  "ltdcFgDisablePaletteI =
     exec (\<lambda>s. s\<lparr>LTDC_Layer2 := (LTDC_Layer2 s)\<lparr>CR :=
       CR (LTDC_Layer2 s) AND NOT LTDC_LxCR_CLUTEN\<rparr>\<rparr>)"

definition ltdcFgSetPaletteColorI :: "uint8_t \<Rightarrow> ltdc_color_t \<Rightarrow> ltdc_sys stmt" where
  "ltdcFgSetPaletteColorI slot c =
     block [
       chDbgAssert (\<lambda>s. \<not> ltdcFgIsEnabledI s) ''ltdcFgSetPaletteColorI(), #1'',
       exec (\<lambda>s. s\<lparr>LTDC_Layer2 := (LTDC_Layer2 s)\<lparr>CLUTWR := CLUTWR (LTDC_Layer2 s) @
         [push_bit 24 (ucast slot) OR (c AND 0x00FFFFFF)]\<rparr>\<rparr>)]"

text \<open>
  The loop \<open>for (i = 0; i < length; ++i)\<close> of \<open>ltdcFgSetPaletteI\<close>, entered at
  \<open>i\<close>. The array \<open>colors\<close> is the list of its elements.
\<close>

function ltdcFgSetPaletteI_loop :: "ltdc_color_t list \<Rightarrow> uint16_t \<Rightarrow> uint16_t \<Rightarrow> ltdc_sys stmt"
  where
  "ltdcFgSetPaletteI_loop colors len i s =
     (if i < len then
        (if unat i < length colors then
           ltdcFgSetPaletteI_loop colors len (i + 1)
             (s\<lparr>LTDC_Layer2 := (LTDC_Layer2 s)\<lparr>CLUTWR := CLUTWR (LTDC_Layer2 s) @
                [push_bit 24 (ucast i) OR (colors ! unat i AND 0x00FFFFFF)]\<rparr>\<rparr>)
         else Halted OutOfBounds s)
      else Done s)"
  by pat_completeness auto
termination
proof (relation "measure (\<lambda>(colors, len, i, s). unat len - unat i)")
  show "wf (measure (\<lambda>(colors, len, i, s). unat len - unat i))" by simp
next
  fix colors :: "ltdc_color_t list" and len i :: uint16_t and s :: ltdc_sys
  assume lt: "i < len"
  then have "unat i < unat len" by (simp add: word_less_nat_alt)
  moreover have "unat len < 2 ^ LENGTH(16)" by (rule unsigned_less)
  ultimately have "unat i + unat (1 :: uint16_t) < 2 ^ LENGTH(16)" by simp
  then have "unat (i + 1) = unat i + unat (1 :: uint16_t)" by (simp only: unat_add_lem)
  with \<open>unat i < unat len\<close> show
    "((colors, len, i + 1,
       s\<lparr>LTDC_Layer2 := (LTDC_Layer2 s)\<lparr>CLUTWR := CLUTWR (LTDC_Layer2 s) @
          [push_bit 24 (ucast i) OR (colors ! unat i AND 0x00FFFFFF)]\<rparr>\<rparr>),
      (colors, len, i, s)) \<in> measure (\<lambda>(colors, len, i, s). unat len - unat i)"
    by simp
qed

declare ltdcFgSetPaletteI_loop.simps [simp del]

definition ltdcFgSetPaletteI :: "ltdc_color_t list option \<Rightarrow> uint16_t \<Rightarrow> ltdc_sys stmt" where
  "ltdcFgSetPaletteI colors len =
     block [
       chDbgCheck (\<lambda>s. (colors = None) = (len = 0)) ''ltdcFgSetPaletteI'',
       chDbgAssert (\<lambda>s. len \<le> LTDC_MAX_PALETTE_LENGTH) ''ltdcFgSetPaletteI(), #1'',
       chDbgAssert (\<lambda>s. \<not> ltdcFgIsEnabledI s) ''ltdcFgSetPaletteI(), #2'',
       (\<lambda>s. case colors of
              None \<Rightarrow> if 0 < len then Halted NullDeref s else Done s
            | Some cs \<Rightarrow> ltdcFgSetPaletteI_loop cs len 0 s)]"

definition ltdcFgGetPixelFormatI :: "ltdc_sys \<Rightarrow> ltdc_pixfmt_t" where
  "ltdcFgGetPixelFormatI s = ucast (PFCR (LTDC_Layer2 s) AND LTDC_LxPFCR_PF)"

definition ltdcFgSetPixelFormatI :: "ltdc_pixfmt_t \<Rightarrow> ltdc_sys stmt" where
  "ltdcFgSetPixelFormatI fm =
     block [
       chDbgAssert (\<lambda>s. fm \<ge> LTDC_MIN_PIXFMT_ID) ''ltdcFgSetPixelFormatI(), #2'',
       chDbgAssert (\<lambda>s. fm \<le> LTDC_MAX_PIXFMT_ID) ''ltdcFgSetPixelFormatI(), #3'',
       exec (\<lambda>s. s\<lparr>LTDC_Layer2 := (LTDC_Layer2 s)\<lparr>PFCR :=
         (PFCR (LTDC_Layer2 s) AND NOT LTDC_LxPFCR_PF) OR (ucast fm AND LTDC_LxPFCR_PF)\<rparr>\<rparr>)]"

definition ltdcFgIsKeyingEnabledI :: "ltdc_sys \<Rightarrow> bool" where
  "ltdcFgIsKeyingEnabledI s \<longleftrightarrow> CR (LTDC_Layer2 s) AND NOT LTDC_LxCR_COLKEN \<noteq> 0"

definition ltdcFgEnableKeyingI :: "ltdc_sys stmt" where
  "ltdcFgEnableKeyingI =
     exec (\<lambda>s. s\<lparr>LTDC_Layer2 := (LTDC_Layer2 s)\<lparr>CR :=
       CR (LTDC_Layer2 s) OR LTDC_LxCR_COLKEN\<rparr>\<rparr>)"

definition ltdcFgDisableKeyingI :: "ltdc_sys stmt" where
  "ltdcFgDisableKeyingI =
     exec (\<lambda>s. s\<lparr>LTDC_Layer2 := (LTDC_Layer2 s)\<lparr>CR :=
       CR (LTDC_Layer2 s) AND NOT LTDC_LxCR_COLKEN\<rparr>\<rparr>)"

definition ltdcFgSetKeyingColorI :: "ltdc_color_t \<Rightarrow> ltdc_sys stmt" where
  "ltdcFgSetKeyingColorI c =
     exec (\<lambda>s. s\<lparr>LTDC_Layer2 := (LTDC_Layer2 s)\<lparr>CKCR :=
       (CKCR (LTDC_Layer2 s) AND NOT 0x00FFFFFF) OR (c AND 0x00FFFFFF)\<rparr>\<rparr>)"

definition ltdcFgSetConstantAlphaI :: "uint8_t \<Rightarrow> ltdc_sys stmt" where
  "ltdcFgSetConstantAlphaI a =
     exec (\<lambda>s. s\<lparr>LTDC_Layer2 := (LTDC_Layer2 s)\<lparr>CACR :=
       (CACR (LTDC_Layer2 s) AND NOT LTDC_LxCACR_CONSTA) OR
       (ucast a AND LTDC_LxCACR_CONSTA)\<rparr>\<rparr>)"

definition ltdcFgSetDefaultColorI :: "ltdc_color_t \<Rightarrow> ltdc_sys stmt" where
  "ltdcFgSetDefaultColorI c =
     exec (\<lambda>s. s\<lparr>LTDC_Layer2 := (LTDC_Layer2 s)\<lparr>DCCR := c\<rparr>\<rparr>)"

definition ltdcFgSetBlendingFactorsI :: "ltdc_blendf_t \<Rightarrow> ltdc_sys stmt" where
  "ltdcFgSetBlendingFactorsI bf =
     exec (\<lambda>s. s\<lparr>LTDC_Layer2 := (LTDC_Layer2 s)\<lparr>BFCR :=
       (BFCR (LTDC_Layer2 s) AND NOT LTDC_LxBFCR_BF) OR (bf AND LTDC_LxBFCR_BF)\<rparr>\<rparr>)"

text \<open>
  \<open>ltdcFgGetWindowI\<close> writes the four fields of the window it is given; the result is
  the window after the call.
\<close>

definition ltdcFgGetWindowI :: "ltdc_window_t option \<Rightarrow> ltdc_sys \<Rightarrow> ltdc_window_t outcome" where
  "ltdcFgGetWindowI windowp s =
     (case windowp of
        None \<Rightarrow> Halted (CheckFailed ''ltdcFgGetWindowI'') ltdc_invalid_window
      | Some w \<Rightarrow>
          Done (w\<lparr>hstart := ucast (drop_bit 0 (WHPCR (LTDC_Layer2 s) AND LTDC_LxWHPCR_WHSTPOS)),
                  hstop := ucast (drop_bit 16 (WHPCR (LTDC_Layer2 s) AND LTDC_LxWHPCR_WHSPPOS)),
                  vstart := ucast (drop_bit 0 (WVPCR (LTDC_Layer2 s) AND LTDC_LxWVPCR_WVSTPOS)),
                  vstop := ucast (drop_bit 16 (WVPCR (LTDC_Layer2 s) AND LTDC_LxWVPCR_WVSPPOS))\<rparr>))"

text \<open>
  \<open>ltdcFgSetWindowI\<close>. The locals \<open>start\<close> and \<open>stop\<close> are computed in 32 bits
  from the window and the cached active window, which the function does not write.
\<close>

definition ltdcFgSetWindowI :: "ltdc_window_t option \<Rightarrow> ltdc_sys stmt" where
  "ltdcFgSetWindowI windowp s =
     (case windowp of
        None \<Rightarrow> Halted (CheckFailed ''ltdcFgSetWindowI'') s
      | Some w \<Rightarrow>
     (case config (LTDCD1 s) of
        None \<Rightarrow> Halted NullDeref s
      | Some cfg \<Rightarrow>
          (let aw = active_window (LTDCD1 s);
               hstart32 = (ucast (hstart w) :: uint32_t) + ucast (hstart aw);
               hstop32 = (ucast (hstop w) :: uint32_t) + ucast (hstart aw);
               vstart32 = (ucast (vstart w) :: uint32_t) + ucast (vstart aw);
               vstop32 = (ucast (vstop w) :: uint32_t) + ucast (vstart aw)
           in block [
             chDbgAssert (\<lambda>s. hstop w < screen_width cfg) ''ltdcFgSetWindowI(), #11'',
             chDbgAssert (\<lambda>s. vstop w < screen_height cfg) ''ltdcFgSetWindowI(), #12'',
             chDbgAssert (\<lambda>s. hstart32 \<ge> ucast (hstart aw)) ''ltdcFgSetWindowI(), #21'',
             chDbgAssert (\<lambda>s. hstop32 \<le> ucast (hstop aw)) ''ltdcFgSetWindowI(), #22'',
             exec (\<lambda>s. s\<lparr>LTDC_Layer2 := (LTDC_Layer2 s)\<lparr>WHPCR :=
               (push_bit 0 hstart32 AND LTDC_LxWHPCR_WHSTPOS) OR
               (push_bit 16 hstop32 AND LTDC_LxWHPCR_WHSPPOS)\<rparr>\<rparr>),
             chDbgAssert (\<lambda>s. vstart32 \<ge> ucast (vstart aw)) ''ltdcFgSetWindowI(), #31'',
             chDbgAssert (\<lambda>s. vstop32 \<le> ucast (vstop aw)) ''ltdcFgSetWindowI(), #32'',
             exec (\<lambda>s. s\<lparr>LTDC_Layer2 := (LTDC_Layer2 s)\<lparr>WVPCR :=
               (push_bit 0 vstart32 AND LTDC_LxWVPCR_WVSTPOS) OR
               (push_bit 16 vstop32 AND LTDC_LxWVPCR_WVSPPOS)\<rparr>\<rparr>)] s)))"

definition ltdcFgSetInvalidWindowI :: "ltdc_sys stmt" where
  "ltdcFgSetInvalidWindowI = ltdcFgSetWindowI (Some ltdc_invalid_window)"

text \<open>
  \<open>ltdcFgGetFrameI\<close> writes the buffer address, the pitch, the width and the height of
  the frame it is given, in this order, and no other field; the result is the frame
  after the call, or the frame as far as it was written when a check fails.
\<close>

definition ltdcFgGetFrameI :: "ltdc_frame_t option \<Rightarrow> ltdc_sys \<Rightarrow> ltdc_frame_t outcome" where
  "ltdcFgGetFrameI framep s =
     (case framep of
        None \<Rightarrow> Halted (CheckFailed ''ltdcFgGetFrameI'') ltdc_invalid_frame
      | Some f \<Rightarrow>
          (let f1 = f\<lparr>bufferp := CFBAR (LTDC_Layer2 s) AND LTDC_LxCFBAR_CFBADD\<rparr>;
               f2 = f1\<lparr>pitch := drop_bit 16 (CFBLR (LTDC_Layer2 s) AND LTDC_LxCFBLR_CFBP)\<rparr>
           in case ltdcBytesPerPixel (ltdcFgGetPixelFormatI s) of
                Inl h \<Rightarrow> Halted h f2
              | Inr bytes \<Rightarrow>
                  Done (f2\<lparr>width := ucast (((CFBLR (LTDC_Layer2 s) AND LTDC_LxCFBLR_CFBLL) - 3)
                                       div bytes),
                          height := ucast (CFBLNR (LTDC_Layer2 s) AND LTDC_LxCFBLNR_CFBLNBR)\<rparr>)))"

definition ltdcFgSetFrameI :: "ltdc_header \<Rightarrow> ltdc_frame_t option \<Rightarrow> ltdc_sys stmt" where
  "ltdcFgSetFrameI H framep s =
     (case framep of
        None \<Rightarrow> Halted (CheckFailed ''ltdcFgSetFrameI'') s
      | Some f \<Rightarrow>
          block [
            ltdcFgSetPixelFormatI (fmt f),
            (\<lambda>s. case ltdcBytesPerPixel (fmt f) of
                   Inl h \<Rightarrow> Halted h s
                 | Inr bytes \<Rightarrow>
                (case config (LTDCD1 s) of
                   None \<Rightarrow> Halted NullDeref s
                 | Some cfg \<Rightarrow>
                     (let linesize = bytes * ucast (width f) in
                      block [
                        chDbgAssert (\<lambda>s. width f \<le> screen_width cfg)
                          ''ltdcFgSetFrameI(), #1'',
                        chDbgAssert (\<lambda>s. height f \<le> screen_height cfg)
                          ''ltdcFgSetFrameI(), #2'',
                        chDbgAssert (\<lambda>s. linesize \<ge> LTDC_MIN_FRAME_WIDTH_BYTES H)
                          ''ltdcFgSetFrameI(), #3'',
                        chDbgAssert (\<lambda>s. linesize \<le> LTDC_MAX_FRAME_WIDTH_BYTES H)
                          ''ltdcFgSetFrameI(), #4'',
                        chDbgAssert (\<lambda>s. ucast (height f) \<ge> LTDC_MIN_FRAME_HEIGHT_LINES H)
                          ''ltdcFgSetFrameI(), #5'',
                        chDbgAssert (\<lambda>s. ucast (height f) \<le> LTDC_MAX_FRAME_HEIGHT_LINES H)
                          ''ltdcFgSetFrameI(), #6'',
                        chDbgAssert (\<lambda>s. pitch f \<ge> linesize)
                          ''ltdcFgSetFrameI(), #7'',
                        exec (\<lambda>s. s\<lparr>LTDC_Layer2 := (LTDC_Layer2 s)\<lparr>CFBAR :=
                          bufferp f AND LTDC_LxCFBAR_CFBADD\<rparr>\<rparr>),
                        exec (\<lambda>s. s\<lparr>LTDC_Layer2 := (LTDC_Layer2 s)\<lparr>CFBLR :=
                          (push_bit 16 (pitch f) AND LTDC_LxCFBLR_CFBP) OR
                          ((linesize + 3) AND LTDC_LxCFBLR_CFBLL)\<rparr>\<rparr>),
                        exec (\<lambda>s. s\<lparr>LTDC_Layer2 := (LTDC_Layer2 s)\<lparr>CFBLNR :=
                          ucast (height f) AND LTDC_LxCFBLNR_CFBLNBR\<rparr>\<rparr>)] s)))] s)"

definition ltdcFgSetConfigI :: "ltdc_header \<Rightarrow> ltdc_laycfg_t option \<Rightarrow> ltdc_sys stmt" where
  "ltdcFgSetConfigI H cfgp0 =
     (let cfgp = (case cfgp0 of None \<Rightarrow> ltdc_default_laycfg H | Some c \<Rightarrow> c) in
      block [
        chDbgCheck (\<lambda>s. (pal_colors cfgp = None) = (pal_length cfgp = 0)) ''ltdcFgSetConfigI'',
        ltdcFgSetFrameI H (frame cfgp),
        ltdcFgSetWindowI (window cfgp),
        ltdcFgSetDefaultColorI (def_color cfgp),
        ltdcFgSetKeyingColorI (key_color cfgp),
        ltdcFgSetConstantAlphaI (const_alpha cfgp),
        ltdcFgSetBlendingFactorsI (blending cfgp),
        (\<lambda>s. if pal_length cfgp > 0
              then ltdcFgSetPaletteI (pal_colors cfgp) (pal_length cfgp) s
              else Done s),
        ltdcFgSetEnableFlagsI (lay_flags cfgp)])"

section \<open>LTDC: start and the event interrupt\<close>

text \<open>
  \<open>ltdcStart\<close>. The accumulators \<open>hacc\<close> and \<open>vacc\<close> are 32 bits wide and depend on
  the configuration only; their four successive values are named here. \<open>fuel\<close> bounds
  the yields of each forced reload.
\<close>

definition ltdcStart :: "nat \<Rightarrow> ltdc_header \<Rightarrow> LTDCConfig option \<Rightarrow> ltdc_sys stmt" where
  "ltdcStart fuel H configp s =
     (case configp of
        None \<Rightarrow> Halted (CheckFailed ''ltdcStart'') s
      | Some cfg \<Rightarrow>
          (let hacc1 = (ucast (hsync_width cfg) :: uint32_t) - 1;
               vacc1 = (ucast (vsync_height cfg) :: uint32_t) - 1;
               hacc2 = hacc1 + ucast (hbp_width cfg);
               vacc2 = vacc1 + ucast (vbp_height cfg);
               hacc3 = hacc2 + ucast (screen_width cfg);
               vacc3 = vacc2 + ucast (screen_height cfg);
               hacc4 = hacc3 + ucast (hfp_width cfg);
               vacc4 = vacc3 + ucast (vfp_height cfg);
               ier = LTDC_IER_RRIE
                     OR (if line_isr cfg \<noteq> None then LTDC_IER_LIE else 0)
                     OR (if fuerr_isr cfg \<noteq> None then LTDC_IER_FUIE else 0)
                     OR (if terr_isr cfg \<noteq> None then LTDC_IER_TERRIE else 0)
           in block [
             chDbgAssert (\<lambda>s. ltdc_state (LTDCD1 s) = LTDC_STOP) ''ltdcStart(), #1'',
             exec (\<lambda>s. s\<lparr>LTDCD1 := (LTDCD1 s)\<lparr>config := Some cfg\<rparr>\<rparr>),
             exec (\<lambda>s. s\<lparr>LTDC := (LTDC s)\<lparr>GCR := 0\<rparr>\<rparr>),
             exec (\<lambda>s. s\<lparr>LTDC := (LTDC s)\<lparr>IER := 0\<rparr>\<rparr>),
             ltdc_force_reload_s fuel,
             chDbgAssert (\<lambda>s. ucast (hsync_width cfg) \<ge> LTDC_MIN_HSYNC_WIDTH H)
               ''ltdcStart(), #11'',
             chDbgAssert (\<lambda>s. ucast (hsync_width cfg) \<le> LTDC_MAX_HSYNC_WIDTH H)
               ''ltdcStart(), #12'',
             chDbgAssert (\<lambda>s. ucast (vsync_height cfg) \<ge> LTDC_MIN_VSYNC_HEIGHT H)
               ''ltdcStart(), #13'',
             chDbgAssert (\<lambda>s. ucast (vsync_height cfg) \<le> LTDC_MAX_VSYNC_HEIGHT H)
               ''ltdcStart(), #14'',
             exec (\<lambda>s. s\<lparr>LTDC := (LTDC s)\<lparr>SSCR :=
               (push_bit 16 hacc1 AND LTDC_SSCR_HSW) OR
               (push_bit 0 vacc1 AND LTDC_SSCR_VSH)\<rparr>\<rparr>),
             chDbgAssert (\<lambda>s. ucast (hbp_width cfg) \<ge> LTDC_MIN_HBP_WIDTH H)
               ''ltdcStart(), #21'',
             chDbgAssert (\<lambda>s. ucast (hbp_width cfg) \<le> LTDC_MAX_HBP_WIDTH H)
               ''ltdcStart(), #22'',
             chDbgAssert (\<lambda>s. ucast (vbp_height cfg) \<ge> LTDC_MIN_VBP_HEIGHT H)
               ''ltdcStart(), #23'',
             chDbgAssert (\<lambda>s. ucast (vbp_height cfg) \<le> LTDC_MAX_VBP_HEIGHT H)
               ''ltdcStart(), #24'',
             chDbgAssert (\<lambda>s. hacc2 + 1 \<ge> LTDC_MIN_ACC_HBP_WIDTH H) ''ltdcStart(), #31'',
             chDbgAssert (\<lambda>s. hacc2 + 1 \<le> LTDC_MAX_ACC_HBP_WIDTH H) ''ltdcStart(), #32'',
             chDbgAssert (\<lambda>s. vacc2 + 1 \<ge> LTDC_MIN_ACC_VBP_HEIGHT H) ''ltdcStart(), #33'',
             chDbgAssert (\<lambda>s. vacc2 + 1 \<le> LTDC_MAX_ACC_VBP_HEIGHT H) ''ltdcStart(), #34'',
             exec (\<lambda>s. s\<lparr>LTDC := (LTDC s)\<lparr>BPCR :=
               (push_bit 16 hacc2 AND LTDC_BPCR_AHBP) OR
               (push_bit 0 vacc2 AND LTDC_BPCR_AVBP)\<rparr>\<rparr>),
             exec (\<lambda>s. s\<lparr>LTDCD1 := (LTDCD1 s)\<lparr>active_window :=
               (active_window (LTDCD1 s))\<lparr>hstart := ucast (hacc2 + 1)\<rparr>\<rparr>\<rparr>),
             exec (\<lambda>s. s\<lparr>LTDCD1 := (LTDCD1 s)\<lparr>active_window :=
               (active_window (LTDCD1 s))\<lparr>vstart := ucast (vacc2 + 1)\<rparr>\<rparr>\<rparr>),
             chDbgAssert (\<lambda>s. ucast (screen_width cfg) \<ge> LTDC_MIN_SCREEN_WIDTH H)
               ''ltdcStart(), #41'',
             chDbgAssert (\<lambda>s. ucast (screen_width cfg) \<le> LTDC_MAX_SCREEN_WIDTH H)
               ''ltdcStart(), #42'',
             chDbgAssert (\<lambda>s. ucast (screen_height cfg) \<ge> LTDC_MIN_SCREEN_HEIGHT H)
               ''ltdcStart(), #43'',
             chDbgAssert (\<lambda>s. ucast (screen_height cfg) \<le> LTDC_MAX_SCREEN_HEIGHT H)
               ''ltdcStart(), #44'',
             chDbgAssert (\<lambda>s. hacc3 + 1 \<ge> LTDC_MIN_ACC_ACTIVE_WIDTH H) ''ltdcStart(), #51'',
             chDbgAssert (\<lambda>s. hacc3 + 1 \<le> LTDC_MAX_ACC_ACTIVE_WIDTH H) ''ltdcStart(), #52'',
             chDbgAssert (\<lambda>s. vacc3 + 1 \<ge> LTDC_MIN_ACC_ACTIVE_HEIGHT H) ''ltdcStart(), #53'',
             chDbgAssert (\<lambda>s. vacc3 + 1 \<le> LTDC_MAX_ACC_ACTIVE_HEIGHT H) ''ltdcStart(), #54'',
             exec (\<lambda>s. s\<lparr>LTDC := (LTDC s)\<lparr>AWCR :=
               (push_bit 16 hacc3 AND LTDC_AWCR_AAW) OR
               (push_bit 0 vacc3 AND LTDC_AWCR_AAH)\<rparr>\<rparr>),
             exec (\<lambda>s. s\<lparr>LTDCD1 := (LTDCD1 s)\<lparr>active_window :=
               (active_window (LTDCD1 s))\<lparr>hstop := ucast hacc3\<rparr>\<rparr>\<rparr>),
             exec (\<lambda>s. s\<lparr>LTDCD1 := (LTDCD1 s)\<lparr>active_window :=
               (active_window (LTDCD1 s))\<lparr>vstop := ucast vacc3\<rparr>\<rparr>\<rparr>),
             chDbgAssert (\<lambda>s. ucast (hfp_width cfg) \<ge> LTDC_MIN_HFP_WIDTH H)
               ''ltdcStart(), #61'',
             chDbgAssert (\<lambda>s. ucast (hfp_width cfg) \<le> LTDC_MAX_HFP_WIDTH H)
               ''ltdcStart(), #62'',
             chDbgAssert (\<lambda>s. ucast (vfp_height cfg) \<ge> LTDC_MIN_VFP_HEIGHT H)
               ''ltdcStart(), #63'',
             chDbgAssert (\<lambda>s. ucast (vfp_height cfg) \<le> LTDC_MAX_VFP_HEIGHT H)
               ''ltdcStart(), #64'',
             chDbgAssert (\<lambda>s. hacc4 + 1 \<ge> LTDC_MIN_ACC_TOTAL_WIDTH H) ''ltdcStart(), #71'',
             chDbgAssert (\<lambda>s. hacc4 + 1 \<le> LTDC_MAX_ACC_TOTAL_WIDTH H) ''ltdcStart(), #72'',
             chDbgAssert (\<lambda>s. vacc4 + 1 \<ge> LTDC_MIN_ACC_TOTAL_HEIGHT H) ''ltdcStart(), #73'',
             chDbgAssert (\<lambda>s. vacc4 + 1 \<le> LTDC_MAX_ACC_TOTAL_HEIGHT H) ''ltdcStart(), #74'',
             exec (\<lambda>s. s\<lparr>LTDC := (LTDC s)\<lparr>TWCR :=
               (push_bit 16 hacc4 AND LTDC_TWCR_TOTALW) OR
               (push_bit 0 vacc4 AND LTDC_TWCR_TOTALH)\<rparr>\<rparr>),
             ltdcSetEnableFlagsI (flags cfg AND NOT LTDC_EF_ENABLE),
             ltdcSetClearColorI (clear_color cfg),
             ltdcBgSetConfigI H (bg_laycfg cfg),
             ltdcFgSetConfigI H (fg_laycfg cfg),
             exec (\<lambda>s. s\<lparr>nvic := nvic s @ [STM32_LTDC_EV_NUMBER]\<rparr>),
             exec (\<lambda>s. s\<lparr>nvic := nvic s @ [STM32_LTDC_ER_NUMBER]\<rparr>),
             exec (\<lambda>s. s\<lparr>LTDC := (LTDC s)\<lparr>IER := ier\<rparr>\<rparr>),
             ltdc_force_reload_s fuel,
             exec (\<lambda>s. s\<lparr>LTDC := (LTDC s)\<lparr>GCR := GCR (LTDC s) OR LTDC_GCR_LTDCEN\<rparr>\<rparr>),
             ltdc_force_reload_s fuel,
             exec (set_state LTDC_READY)] s))"

text \<open>
  A callback is code outside the driver: \<open>call f\<close> is what the code at address \<open>f\<close>
  does to the system when it is called with the driver. The call is logged before the
  callback runs.
\<close>

definition invoke :: "(ltdc_isrcb_t \<Rightarrow> ltdc_sys stmt) \<Rightarrow> ltdc_isrcb_t \<Rightarrow> ltdc_sys stmt" where
  "invoke call f s = call f (s\<lparr>trace := trace s @ [Invoke f]\<rparr>)"

text \<open>\<open>tp->p_u.rdymsg = msg; chSchReadyI(tp);\<close>\<close>

definition chSchReadyI :: "Thread \<Rightarrow> msg_t \<Rightarrow> ltdc_sys \<Rightarrow> ltdc_sys" where
  "chSchReadyI tp msg s = s\<lparr>trace := trace s @ [Ready tp msg]\<rparr>"

text \<open>\<open>LTDC->ICR |= bits\<close>: the flags \<open>bits\<close> of \<open>ISR\<close> are cleared.\<close>

definition write_ICR :: "uint32_t \<Rightarrow> ltdc_sys \<Rightarrow> ltdc_sys" where
  "write_ICR bits s = s\<lparr>LTDC := (LTDC s)\<lparr>ISR := ISR (LTDC s) AND NOT bits\<rparr>\<rparr>"

definition LTDC_EV_IRQHandler :: "(ltdc_isrcb_t \<Rightarrow> ltdc_sys stmt) \<Rightarrow> ltdc_sys stmt" where
  "LTDC_EV_IRQHandler call =
     block [
       (\<lambda>s. if ISR (LTDC s) AND LTDC_ISR_LIF \<noteq> 0 \<and> IER (LTDC s) AND LTDC_IER_LIE \<noteq> 0 then
               (case config (LTDCD1 s) of
                  None \<Rightarrow> Halted NullDeref s
                | Some cfg \<Rightarrow>
                    (case line_isr cfg of
                       None \<Rightarrow> Halted (AssertFailed ''LTDC_EV_IRQHandler(), #1'') s
                     | Some f \<Rightarrow>
                         block [invoke call f, exec (write_ICR LTDC_ICR_CLIF)] s))
             else Done s),
       (\<lambda>s. if ISR (LTDC s) AND LTDC_ISR_RRIF \<noteq> 0 \<and> IER (LTDC s) AND LTDC_IER_RRIE \<noteq> 0 then
               (case config (LTDCD1 s) of
                  None \<Rightarrow> Halted NullDeref s
                | Some cfg \<Rightarrow>
                    block [
                      (\<lambda>s. case rr_isr cfg of None \<Rightarrow> Done s | Some f \<Rightarrow> invoke call f s),
                      chDbgAssert (\<lambda>s. ltdc_state (LTDCD1 s) = LTDC_ACTIVE)
                        ''LTDC_EV_IRQHandler(), #2'',
                      (\<lambda>s. case thread (LTDCD1 s) of
                             None \<Rightarrow> Done s
                           | Some tp \<Rightarrow>
                               Done (chSchReadyI tp RDY_OK
                                 (s\<lparr>LTDCD1 := (LTDCD1 s)\<lparr>thread := None\<rparr>\<rparr>))),
                      exec (set_state LTDC_READY),
                      exec (write_ICR LTDC_ICR_CRRIF)] s)
             else Done s)]"

section \<open>ILI9341 panel driver\<close>

text \<open>
  Modelled from the spec: the types of ili9341.h (not under src/). The driver is in one
  of three states; its configuration names the SPI endpoint and the D/CX pad. An SPI
  driver and an I/O port are known by their numbers.
\<close>

datatype ili9341state_t = ILI9341_STOP | ILI9341_READY | ILI9341_ACTIVE

record ILI9341Config =
  spi :: "nat option"
  dcx_port :: nat
  dcx_pad :: nat

text \<open>
  The fields \<open>state\<close> and \<open>config\<close> of the source are \<open>ili9341_state\<close> and
  \<open>ili9341_config\<close> here, since field names are global. \<open>value\<close> is the scratch byte
  of the single-byte transfers.
\<close>

record ILI9341Driver =
  ili9341_state :: ili9341state_t
  ili9341_config :: "ILI9341Config option"
  "value" :: uint8_t

text \<open>
  What the driver does to the pads and to the SPI bus, in program order: the external
  collaborators \<open>palSetPad\<close>, \<open>palClearPad\<close>, \<open>spiSelectI\<close>, \<open>spiUnselectI\<close>,
  \<open>spiSend\<close> (with the bytes sent) and \<open>spiReceive\<close> (with the number of bytes
  clocked in).
\<close>

datatype bus_op =
    PadSet nat nat
  | PadClear nat nat
  | SpiSelect nat
  | SpiUnselect nat
  | SpiSend nat "uint8_t list"
  | SpiReceive nat nat

text \<open>
  The panel system: the driver object \<open>ILI9341D1\<close>, the log of pad and bus operations,
  and the bytes the panel shifts out: \<open>miso k\<close> is the \<open>k\<close>-th byte, \<open>rx_count\<close>
  the number of bytes received so far. The driver pointer of every call is the driver
  object itself, so the checks \<open>driverp != NULL\<close> hold by construction.
\<close>

record ili9341_sys =
  ILI9341D1 :: ILI9341Driver
  bus :: "bus_op list"
  miso :: "nat \<Rightarrow> uint8_t"
  rx_count :: nat

definition log_bus :: "bus_op \<Rightarrow> ili9341_sys \<Rightarrow> ili9341_sys" where
  "log_bus ev s = s\<lparr>bus := bus s @ [ev]\<rparr>"

text \<open>\<open>driverp->config->spi\<close> and the D/CX pad, read through the configuration pointer.\<close>

definition with_config :: "(ILI9341Config \<Rightarrow> nat \<Rightarrow> 's stmt) \<Rightarrow> ('s \<Rightarrow> ili9341_sys) \<Rightarrow> 's stmt"
  where
  "with_config body sys_of s =
     (case ili9341_config (ILI9341D1 (sys_of s)) of
        None \<Rightarrow> Halted NullDeref s
      | Some cfg \<Rightarrow> (case spi cfg of None \<Rightarrow> Halted NullDeref s | Some sp \<Rightarrow> body cfg sp s))"

definition ili9341ObjectInit :: "ili9341_sys \<Rightarrow> ili9341_sys" where
  "ili9341ObjectInit s =
     s\<lparr>ILI9341D1 := (ILI9341D1 s)\<lparr>ili9341_state := ILI9341_STOP, ili9341_config := None\<rparr>\<rparr>"

definition ili9341Start :: "ILI9341Config option \<Rightarrow> ili9341_sys stmt" where
  "ili9341Start configp s =
     (case configp of
        None \<Rightarrow> Halted (CheckFailed ''ili9341Start'') s
      | Some cfg \<Rightarrow>
     (case spi cfg of
        None \<Rightarrow> Halted (CheckFailed ''ili9341Start'') s
      | Some sp \<Rightarrow>
          block [
            chDbgAssert (\<lambda>s. ili9341_state (ILI9341D1 s) = ILI9341_STOP) ''ili9341Start(), #1'',
            exec (log_bus (SpiSelect sp)),
            exec (log_bus (SpiUnselect sp)),
            exec (\<lambda>s. s\<lparr>ILI9341D1 := (ILI9341D1 s)\<lparr>ili9341_config := Some cfg\<rparr>\<rparr>),
            exec (\<lambda>s. s\<lparr>ILI9341D1 := (ILI9341D1 s)\<lparr>ili9341_state := ILI9341_READY\<rparr>\<rparr>)] s))"

definition ili9341Stop :: "ili9341_sys stmt" where
  "ili9341Stop =
     block [
       chDbgAssert (\<lambda>s. ili9341_state (ILI9341D1 s) = ILI9341_READY) ''ili9341Start(), #1'',
       exec (\<lambda>s. s\<lparr>ILI9341D1 := (ILI9341D1 s)\<lparr>ili9341_state := ILI9341_STOP\<rparr>\<rparr>)]"

definition ili9341SelectI :: "ili9341_sys stmt" where
  "ili9341SelectI =
     block [
       chDbgAssert (\<lambda>s. ili9341_state (ILI9341D1 s) = ILI9341_READY) ''ili9341SelectI(), #1'',
       exec (\<lambda>s. s\<lparr>ILI9341D1 := (ILI9341D1 s)\<lparr>ili9341_state := ILI9341_ACTIVE\<rparr>\<rparr>),
       with_config (\<lambda>cfg sp. exec (log_bus (SpiSelect sp))) id]"

definition ili9341UnselectI :: "ili9341_sys stmt" where
  "ili9341UnselectI =
     block [
       chDbgAssert (\<lambda>s. ili9341_state (ILI9341D1 s) = ILI9341_ACTIVE) ''ili9341UnselectI(), #1'',
       with_config (\<lambda>cfg sp. exec (log_bus (SpiUnselect sp))) id,
       exec (\<lambda>s. s\<lparr>ILI9341D1 := (ILI9341D1 s)\<lparr>ili9341_state := ILI9341_READY\<rparr>\<rparr>)]"

definition ili9341WriteCommand :: "uint8_t \<Rightarrow> ili9341_sys stmt" where
  "ili9341WriteCommand cmd =
     block [
       chDbgAssert (\<lambda>s. ili9341_state (ILI9341D1 s) = ILI9341_ACTIVE)
         ''ili9341WriteCommand(), #1'',
       exec (\<lambda>s. s\<lparr>ILI9341D1 := (ILI9341D1 s)\<lparr>value := cmd\<rparr>\<rparr>),
       with_config (\<lambda>cfg sp. block [
         exec (log_bus (PadClear (dcx_port cfg) (dcx_pad cfg))),
         exec (\<lambda>s. log_bus (SpiSend sp [value (ILI9341D1 s)]) s)]) id]"

definition ili9341WriteByte :: "uint8_t \<Rightarrow> ili9341_sys stmt" where
  "ili9341WriteByte v =
     block [
       chDbgAssert (\<lambda>s. ili9341_state (ILI9341D1 s) = ILI9341_ACTIVE)
         ''ili9341WriteByte(), #1'',
       exec (\<lambda>s. s\<lparr>ILI9341D1 := (ILI9341D1 s)\<lparr>value := v\<rparr>\<rparr>),
       with_config (\<lambda>cfg sp. block [
         exec (log_bus (PadSet (dcx_port cfg) (dcx_pad cfg))),
         exec (\<lambda>s. log_bus (SpiSend sp [value (ILI9341D1 s)]) s)]) id]"

text \<open>
  \<open>spiReceive\<close> of \<open>n\<close> bytes: the bytes the panel shifts out next, and the system
  after them.
\<close>

definition spi_received :: "nat \<Rightarrow> ili9341_sys \<Rightarrow> uint8_t list" where
  "spi_received n s = map (miso s) [rx_count s ..< rx_count s + n]"

definition spiReceive :: "nat \<Rightarrow> nat \<Rightarrow> ili9341_sys \<Rightarrow> ili9341_sys" where
  "spiReceive sp n s = (log_bus (SpiReceive sp n) s)\<lparr>rx_count := rx_count s + n\<rparr>"

text \<open>
  \<open>ili9341ReadByte\<close> returns the scratch byte \<open>value\<close> of the driver after the call.
\<close>

definition ili9341ReadByte :: "ili9341_sys stmt" where
  "ili9341ReadByte =
     block [
       chDbgAssert (\<lambda>s. False) ''ili9341ReadByte()'',
       chDbgAssert (\<lambda>s. ili9341_state (ILI9341D1 s) = ILI9341_ACTIVE)
         ''ili9341ReadByte(), #1'',
       with_config (\<lambda>cfg sp. block [
         exec (log_bus (PadSet (dcx_port cfg) (dcx_pad cfg))),
         exec (\<lambda>s. (spiReceive sp 1 s)\<lparr>ILI9341D1 :=
           (ILI9341D1 s)\<lparr>value := miso s (rx_count s)\<rparr>\<rparr>)]) id]"

text \<open>
  \<open>ili9341WriteChunk\<close>: \<open>chunk\<close> is the array behind the pointer (\<open>None\<close> for a null
  pointer), \<open>len\<close> the parameter \<open>length\<close>.
\<close>

definition ili9341WriteChunk :: "uint8_t list option \<Rightarrow> size_t \<Rightarrow> ili9341_sys stmt" where
  "ili9341WriteChunk chunk len s =
     (case chunk of
        None \<Rightarrow> Halted (CheckFailed ''ili9341WriteChunk'') s
      | Some bytes \<Rightarrow>
          block [
            chDbgAssert (\<lambda>s. ili9341_state (ILI9341D1 s) = ILI9341_ACTIVE)
              ''ili9341WriteChunk(), #1'',
            (\<lambda>s. if len = 0 then Done s
                  else with_config (\<lambda>cfg sp. block [
                    exec (log_bus (PadSet (dcx_port cfg) (dcx_pad cfg))),
                    (\<lambda>s. if unat len \<le> length bytes
                          then Done (log_bus (SpiSend sp (take (unat len) bytes)) s)
                          else Halted OutOfBounds s)]) id s)] s)"

text \<open>
  \<open>ili9341ReadChunk\<close> works on the system together with the array behind \<open>chunk\<close>,
  which it fills with the bytes received.
\<close>

definition ili9341ReadChunk :: "size_t \<Rightarrow> (ili9341_sys \<times> uint8_t list option) stmt" where
  "ili9341ReadChunk len =
     block [
       chDbgCheck (\<lambda>(s, chunk). chunk \<noteq> None) ''ili9341ReadChunk'',
       chDbgAssert (\<lambda>(s, chunk). ili9341_state (ILI9341D1 s) = ILI9341_ACTIVE)
         ''ili9341ReadChunk(), #1'',
       (\<lambda>(s, chunk). if len = 0 then Done (s, chunk)
          else with_config (\<lambda>cfg sp. block [
            exec (\<lambda>(s, chunk). (log_bus (PadSet (dcx_port cfg) (dcx_pad cfg)) s, chunk)),
            (\<lambda>(s, chunk). case chunk of
                 None \<Rightarrow> Halted NullDeref (s, chunk)
               | Some bytes \<Rightarrow>
                   if unat len \<le> length bytes
                   then Done (spiReceive sp (unat len) s,
                              Some (spi_received (unat len) s @ drop (unat len) bytes))
                   else Halted OutOfBounds (s, chunk))]) fst (s, chunk))]"

section \<open>Concrete instances\<close>

text \<open>
  An instance of the header constants: every bound is the range of the register field
  that holds the value, the frame line may be 1 to 8188 bytes and 1 to 2047 lines.
\<close>

definition stm32_ltdc_h :: ltdc_header where
  "stm32_ltdc_h =
     \<lparr>LTDC_MIN_HSYNC_WIDTH = 1, LTDC_MAX_HSYNC_WIDTH = 4096,
      LTDC_MIN_VSYNC_HEIGHT = 1, LTDC_MAX_VSYNC_HEIGHT = 2048,
      LTDC_MIN_HBP_WIDTH = 0, LTDC_MAX_HBP_WIDTH = 4096,
      LTDC_MIN_VBP_HEIGHT = 0, LTDC_MAX_VBP_HEIGHT = 2048,
      LTDC_MIN_ACC_HBP_WIDTH = 1, LTDC_MAX_ACC_HBP_WIDTH = 4096,
      LTDC_MIN_ACC_VBP_HEIGHT = 1, LTDC_MAX_ACC_VBP_HEIGHT = 2048,
      LTDC_MIN_SCREEN_WIDTH = 1, LTDC_MAX_SCREEN_WIDTH = 4096,
      LTDC_MIN_SCREEN_HEIGHT = 1, LTDC_MAX_SCREEN_HEIGHT = 2048,
      LTDC_MIN_ACC_ACTIVE_WIDTH = 1, LTDC_MAX_ACC_ACTIVE_WIDTH = 4096,
      LTDC_MIN_ACC_ACTIVE_HEIGHT = 1, LTDC_MAX_ACC_ACTIVE_HEIGHT = 2048,
      LTDC_MIN_HFP_WIDTH = 0, LTDC_MAX_HFP_WIDTH = 4096,
      LTDC_MIN_VFP_HEIGHT = 0, LTDC_MAX_VFP_HEIGHT = 2048,
      LTDC_MIN_ACC_TOTAL_WIDTH = 1, LTDC_MAX_ACC_TOTAL_WIDTH = 4096,
      LTDC_MIN_ACC_TOTAL_HEIGHT = 1, LTDC_MAX_ACC_TOTAL_HEIGHT = 2048,
      LTDC_MIN_FRAME_WIDTH_BYTES = 1, LTDC_MAX_FRAME_WIDTH_BYTES = 8188,
      LTDC_MIN_FRAME_HEIGHT_LINES = 1, LTDC_MAX_FRAME_HEIGHT_LINES = 2047,
      LTDC_COLOR_BLACK = 0xFF000000, LTDC_BLEND_FIX1_FIX2 = 0x0405\<rparr>"

text \<open>The system at power-on: every register zero, nothing logged, a driver not yet set up.\<close>

definition layer_reset :: LTDC_Layer_TypeDef where
  "layer_reset =
     \<lparr>CR = 0, WHPCR = 0, WVPCR = 0, CKCR = 0, PFCR = 0, CACR = 0, DCCR = 0, BFCR = 0,
      CFBAR = 0, CFBLR = 0, CFBLNR = 0, CLUTWR = []\<rparr>"

definition power_on :: ltdc_sys where
  "power_on =
     \<lparr>LTDC = \<lparr>SSCR = 0, BPCR = 0, AWCR = 0, TWCR = 0, GCR = 0, SRCR = 0, BCCR = 0,
              IER = 0, ISR = 0\<rparr>,
      LTDC_Layer1 = layer_reset,
      LTDC_Layer2 = layer_reset,
      LTDCD1 = \<lparr>ltdc_state = LTDC_UNINIT, config = None,
                active_window = ltdc_invalid_window, thread = None\<rparr>,
      nvic = [], trace = [], reload_latency = 2\<rparr>"

text \<open>
  The configuration of the start-stop scenario: 480 by 272 pixels, HSW 41, VSW 10, both
  back and front porches 2, clear colour black, no layer specifications, no callbacks.
\<close>

definition panel_480x272 :: LTDCConfig where
  "panel_480x272 =
     \<lparr>screen_width = 480, screen_height = 272, hsync_width = 41, vsync_height = 10,
      hbp_width = 2, vbp_height = 2, hfp_width = 2, vfp_height = 2,
      flags = 0, clear_color = 0x000000, bg_laycfg = None, fg_laycfg = None,
      line_isr = None, rr_isr = None, fuerr_isr = None, terr_isr = None\<rparr>"

text \<open>The system after \<open>ltdcInit\<close> and \<open>ltdcStart\<close> with this configuration.\<close>

definition started :: ltdc_sys where
  "started =
     \<lparr>LTDC = \<lparr>SSCR = 0x00280009, BPCR = 0x002A000B, AWCR = 0x020A011B, TWCR = 0x020C011D,
              GCR = 0x00000001, SRCR = 0, BCCR = 0, IER = 0x00000008, ISR = 0\<rparr>,
      LTDC_Layer1 = \<lparr>CR = 0, WHPCR = 0x002C002B, WVPCR = 0x000D000C, CKCR = 0, PFCR = 5,
                     CACR = 0, DCCR = 0xFF000000, BFCR = 0x0405,
                     CFBAR = 0, CFBLR = 0x00010004, CFBLNR = 1, CLUTWR = []\<rparr>,
      LTDC_Layer2 = \<lparr>CR = 0, WHPCR = 0x002C002B, WVPCR = 0x000D000C, CKCR = 0, PFCR = 5,
                     CACR = 0, DCCR = 0xFF000000, BFCR = 0x0405,
                     CFBAR = 0, CFBLR = 0x00010004, CFBLNR = 1, CLUTWR = []\<rparr>,
      LTDCD1 = \<lparr>ltdc_state = LTDC_READY, config = Some panel_480x272,
                active_window = \<lparr>hstart = 43, hstop = 522, vstart = 12, vstop = 283\<rparr>,
                thread = None\<rparr>,
      nvic = [STM32_LTDC_EV_NUMBER, STM32_LTDC_ER_NUMBER],
      trace = [StateSet LTDC_UNINIT, StateSet LTDC_STOP, StateSet LTDC_READY],
      reload_latency = 0\<rparr>"

text \<open>
  The started system with the foreground layer enabled and nothing else set in its
  control register, and with the layer disabled but its colour look-up table enabled.
\<close>

definition fg_enabled :: ltdc_sys where
  "fg_enabled = started\<lparr>LTDC_Layer2 := (LTDC_Layer2 started)\<lparr>CR := LTDC_LxCR_LEN\<rparr>\<rparr>"

definition fg_clut_only :: ltdc_sys where
  "fg_clut_only = started\<lparr>LTDC_Layer2 := (LTDC_Layer2 started)\<lparr>CR := LTDC_LxCR_CLUTEN\<rparr>\<rparr>"

text \<open>A palette of sixteen grey levels.\<close>

definition grey16 :: "ltdc_color_t list" where
  "grey16 =
     [0x000000, 0x111111, 0x222222, 0x333333, 0x444444, 0x555555, 0x666666, 0x777777,
      0x888888, 0x999999, 0xAAAAAA, 0xBBBBBB, 0xCCCCCC, 0xDDDDDD, 0xEEEEEE, 0xFFFFFF]"

text \<open>
  A panel on SPI driver 5 with D/CX on pad 13 of port 3: started and ready, and
  selected for a transfer session. The panel shifts out zeros.
\<close>

definition panel_cfg :: ILI9341Config where
  "panel_cfg = \<lparr>spi = Some 5, dcx_port = 3, dcx_pad = 13\<rparr>"

definition panel_ready :: ili9341_sys where
  "panel_ready =
     \<lparr>ILI9341D1 = \<lparr>ili9341_state = ILI9341_READY, ili9341_config = Some panel_cfg, value = 0\<rparr>,
      bus = [SpiSelect 5, SpiUnselect 5], miso = (\<lambda>k. 0), rx_count = 0\<rparr>"

definition panel_active :: ili9341_sys where
  "panel_active =
     \<lparr>ILI9341D1 = \<lparr>ili9341_state = ILI9341_ACTIVE, ili9341_config = Some panel_cfg, value = 0\<rparr>,
      bus = [SpiSelect 5, SpiUnselect 5, SpiSelect 5], miso = (\<lambda>k. 0), rx_count = 0\<rparr>"

text \<open>
  A deferred reload in flight: the started system with a reload callback (at address
  1) configured, the driver active, thread 7 parked on the wait slot and the
  reload-done flag raised. Callbacks that return at once.
\<close>

definition reload_pending :: ltdc_sys where
  "reload_pending =
     started\<lparr>LTDC := (LTDC started)\<lparr>ISR := LTDC_ISR_RRIF\<rparr>,
             LTDCD1 := (LTDCD1 started)\<lparr>ltdc_state := LTDC_ACTIVE,
               config := Some (panel_480x272\<lparr>rr_isr := Some 1\<rparr>), thread := Some 7\<rparr>,
             trace := trace started @ [StateSet LTDC_ACTIVE]\<rparr>"

definition quiet_callback :: "ltdc_isrcb_t \<Rightarrow> ltdc_sys stmt" where
  "quiet_callback f s = Done s"

text \<open>
  Frames for the 480 by 272 screen: a full-screen RGB-565 frame with its natural pitch
  of 960 bytes, the same frame with a pitch of 65536 bytes, the 500 pixels wide frame of
  the geometry rejection scenario, and a one-pixel AL-88 frame.
\<close>

definition frame_480x272 :: ltdc_frame_t where
  "frame_480x272 =
     \<lparr>bufferp = 0xD0000000, pitch = 960, width = 480, height = 272, fmt = LTDC_FMT_RGB565\<rparr>"

definition frame_pitch_65536 :: ltdc_frame_t where
  "frame_pitch_65536 =
     \<lparr>bufferp = 0xD0000000, pitch = 65536, width = 480, height = 272, fmt = LTDC_FMT_RGB565\<rparr>"

definition frame_500x100 :: ltdc_frame_t where
  "frame_500x100 =
     \<lparr>bufferp = 0xD0000000, pitch = 1000, width = 500, height = 100, fmt = LTDC_FMT_RGB565\<rparr>"

definition frame_al88 :: ltdc_frame_t where
  "frame_al88 =
     \<lparr>bufferp = 0xD0000000, pitch = 16, width = 1, height = 1, fmt = LTDC_FMT_AL88\<rparr>"

section \<open>Auxiliary notions for the properties\<close>

text \<open>
  The word of palette entry \<open>k\<close>: the slot index in the high byte (bits 31..24), the
  RGB-888 colour in the low 24 bits.
\<close>

definition clut_word :: "ltdc_color_t list \<Rightarrow> nat \<Rightarrow> uint32_t" where
  "clut_word colors k = push_bit 24 (of_nat k) OR (colors ! k AND 0x00FFFFFF)"

text \<open>A statement keeps an observation \<open>g\<close> of the state when every return leaves it as it was.\<close>

definition keeps :: "('s \<Rightarrow> 'a) \<Rightarrow> 's stmt \<Rightarrow> bool" where
  "keeps g c \<longleftrightarrow> (\<forall>s s'. c s = Done s' \<longrightarrow> g s' = g s)"

text \<open>
  What \<open>ltdcToARGB8888\<close> does to a channel that gains \<open>k\<close> low bits: zero stays
  zero, any other value is shifted up and its \<open>k\<close> missing low bits are set to ones.
\<close>

definition widen :: "nat \<Rightarrow> uint32_t \<Rightarrow> uint32_t" where
  "widen k v = (if v = 0 then 0 else push_bit k v OR mask k)"

text \<open>
  The expansion in the spec's words, for comparison with the code: an \<open>n\<close>-bit
  channel gains \<open>k\<close> low bits, which are a copy of its \<open>k\<close> high bits; and the RGB-565
  colour expanded this way, with alpha 0xFF.
\<close>

definition replicated :: "nat \<Rightarrow> nat \<Rightarrow> uint32_t \<Rightarrow> uint32_t" where
  "replicated n k v = push_bit k v OR drop_bit (n - k) v"

definition rgb565_replicated :: "ltdc_color_t \<Rightarrow> ltdc_color_t" where
  "rgb565_replicated c =
     0xFF000000 OR
     push_bit 16 (replicated 5 3 (drop_bit 11 c AND 0x1F)) OR
     push_bit 8 (replicated 6 2 (drop_bit 5 c AND 0x3F)) OR
     replicated 5 3 (c AND 0x1F)"

lemmas stmt_defs = chDbgAssert_def chDbgCheck_def exec_def

section \<open>Properties of the helpers\<close>

text \<open>
  C7 (as the code has it). The bits-per-pixel lookup returns 32, 24, 16, 16, 16, 8, 8
  for the format ids 0..6. For the id 7 (AL-88), whose table entry is 16, the
  precondition check \<open>fmt < LTDC_MAX_PIXFMT_ID\<close> fails, although 7 is within the
  bounds of the format ids.
\<close>

theorem ltdcBitsPerPixel_table:
  "ltdcBitsPerPixel LTDC_FMT_ARGB8888 = Inr 32 \<and>
   ltdcBitsPerPixel LTDC_FMT_RGB888 = Inr 24 \<and>
   ltdcBitsPerPixel LTDC_FMT_RGB565 = Inr 16 \<and>
   ltdcBitsPerPixel LTDC_FMT_ARGB1555 = Inr 16 \<and>
   ltdcBitsPerPixel LTDC_FMT_ARGB4444 = Inr 16 \<and>
   ltdcBitsPerPixel LTDC_FMT_L8 = Inr 8 \<and>
   ltdcBitsPerPixel LTDC_FMT_AL44 = Inr 8 \<and>
   LTDC_MIN_PIXFMT_ID \<le> LTDC_FMT_AL88 \<and> LTDC_FMT_AL88 \<le> LTDC_MAX_PIXFMT_ID \<and>
   ltdc_bpp ! unat LTDC_FMT_AL88 = 16 \<and>
   ltdcBitsPerPixel LTDC_FMT_AL88 = Inl (AssertFailed ''ltdcBitsPerPixel(), #1'')"
  by (simp add: ltdcBitsPerPixel_def ltdc_bpp_def LTDC_FMT_defs)

text \<open>The masks of the RGB-565 conversions as shifted bit masks.\<close>

lemma masks:
  "(0xF8 :: uint32_t) = push_bit 3 (mask 5)"
  "(0xFC00 :: uint32_t) = push_bit 10 (mask 6)"
  "(0xF80000 :: uint32_t) = push_bit 19 (mask 5)"
  "(0x1F :: uint32_t) = mask 5"
  "(0x3F :: uint32_t) = mask 6"
  "(0x07E0 :: uint32_t) = push_bit 5 (mask 6)"
  "(0xF800 :: uint32_t) = push_bit 11 (mask 5)"
  "(0x7 :: uint32_t) = mask 3"
  "(0x300 :: uint32_t) = push_bit 8 (mask 2)"
  "(0x070000 :: uint32_t) = push_bit 16 (mask 3)"
  "(0xFF000000 :: uint32_t) = push_bit 24 (mask 8)"
  "(0xFFFF :: uint32_t) = mask 16"
  by (simp_all add: mask_eq_exp_minus_1)

lemma from_blue: "drop_bit 3 ((c :: uint32_t) AND push_bit 3 (mask 5)) = drop_bit 3 c AND mask 5"
  by (rule bit_word_eqI) (auto simp: bit_simps)

lemma from_green:
  "drop_bit 5 ((c :: uint32_t) AND push_bit 10 (mask 6)) = push_bit 5 (drop_bit 10 c AND mask 6)"
  by (rule bit_word_eqI) (auto simp: bit_simps)

lemma from_red:
  "drop_bit 8 ((c :: uint32_t) AND push_bit 19 (mask 5)) = push_bit 11 (drop_bit 19 c AND mask 5)"
  by (rule bit_word_eqI) (auto simp: bit_simps)

text \<open>
  \<open>ltdcFromARGB8888\<close> to RGB-565 keeps the five, six and five high bits of the
  blue, green and red lanes.
\<close>

lemma from565:
  "ltdcFromARGB8888 c LTDC_FMT_RGB565 =
     Inr (push_bit 11 (drop_bit 19 c AND 0x1F) OR push_bit 5 (drop_bit 10 c AND 0x3F) OR
          (drop_bit 3 c AND 0x1F))"
proof -
  have "ltdcFromARGB8888 c LTDC_FMT_RGB565 =
     Inr (drop_bit 3 (c AND push_bit 3 (mask 5)) OR drop_bit 5 (c AND push_bit 10 (mask 6)) OR
          drop_bit 8 (c AND push_bit 19 (mask 5)))"
    unfolding masks [symmetric] by (simp add: ltdcFromARGB8888_def LTDC_FMT_defs)
  also have "\<dots> = Inr (push_bit 11 (drop_bit 19 c AND mask 5) OR
       push_bit 5 (drop_bit 10 c AND mask 6) OR (drop_bit 3 c AND mask 5))"
    unfolding from_blue from_green from_red by (simp add: ac_simps)
  finally show ?thesis unfolding masks .
qed


lemma to_blue:
  "expand c (mask 5) 3 (mask 3) output = output OR widen 3 (c AND mask 5)"
  by (simp add: expand_def widen_def)

lemma to_green:
  "expand c (push_bit 5 (mask 6)) 5 (push_bit 8 (mask 2)) output =
     output OR push_bit 8 (widen 2 (drop_bit 5 c AND mask 6))"
proof -
  have z: "c AND push_bit 5 (mask 6) = 0 \<longleftrightarrow> drop_bit 5 c AND mask 6 = 0"
  proof
    assume a: "c AND push_bit 5 (mask 6) = 0"
    have "drop_bit 5 c AND mask 6 = drop_bit 5 (c AND push_bit 5 (mask 6))"
      by (rule bit_word_eqI) (auto simp: bit_simps)
    then show "drop_bit 5 c AND mask 6 = 0" using a by simp
  next
    assume a: "drop_bit 5 c AND mask 6 = 0"
    have "c AND push_bit 5 (mask 6) = push_bit 5 (drop_bit 5 c AND mask 6)"
      by (rule bit_word_eqI) (auto simp: bit_simps)
    then show "c AND push_bit 5 (mask 6) = 0" using a by simp
  qed
  have e: "push_bit 5 (c AND push_bit 5 (mask 6)) OR push_bit 8 (mask 2) =
        push_bit 8 (push_bit 2 (drop_bit 5 c AND mask 6) OR mask 2)"
    by (rule bit_word_eqI) (auto simp: bit_simps)
  show ?thesis
    using z e by (simp add: expand_def widen_def)
qed

lemma to_red:
  "expand c (push_bit 11 (mask 5)) 8 (push_bit 16 (mask 3)) output =
     output OR push_bit 16 (widen 3 (drop_bit 11 c AND mask 5))"
proof -
  have z: "c AND push_bit 11 (mask 5) = 0 \<longleftrightarrow> drop_bit 11 c AND mask 5 = 0"
  proof
    assume a: "c AND push_bit 11 (mask 5) = 0"
    have "drop_bit 11 c AND mask 5 = drop_bit 11 (c AND push_bit 11 (mask 5))"
      by (rule bit_word_eqI) (auto simp: bit_simps)
    then show "drop_bit 11 c AND mask 5 = 0" using a by simp
  next
    assume a: "drop_bit 11 c AND mask 5 = 0"
    have "c AND push_bit 11 (mask 5) = push_bit 11 (drop_bit 11 c AND mask 5)"
      by (rule bit_word_eqI) (auto simp: bit_simps)
    then show "c AND push_bit 11 (mask 5) = 0" using a by simp
  qed
  have e: "push_bit 8 (c AND push_bit 11 (mask 5)) OR push_bit 16 (mask 3) =
        push_bit 16 (push_bit 3 (drop_bit 11 c AND mask 5) OR mask 3)"
    by (rule bit_word_eqI) (auto simp: bit_simps)
  show ?thesis
    using z e by (simp add: expand_def widen_def)
qed

text \<open>
  \<open>ltdcToARGB8888\<close> from RGB-565 widens each channel and sets alpha to 0xFF.
\<close>

lemma to565:
  "ltdcToARGB8888 c LTDC_FMT_RGB565 =
     Inr (0xFF000000 OR widen 3 (c AND 0x1F) OR
          push_bit 8 (widen 2 (drop_bit 5 c AND 0x3F)) OR
          push_bit 16 (widen 3 (drop_bit 11 c AND 0x1F)))"
proof -
  have "ltdcToARGB8888 c LTDC_FMT_RGB565 =
     Inr (expand c (push_bit 11 (mask 5)) 8 (push_bit 16 (mask 3))
         (expand c (push_bit 5 (mask 6)) 5 (push_bit 8 (mask 2))
         (expand c (mask 5) 3 (mask 3) 0xFF000000)))"
    unfolding masks(4,6,7,8,9,10) [symmetric] by (simp add: ltdcToARGB8888_def LTDC_FMT_defs)
  also have "\<dots> = Inr (0xFF000000 OR widen 3 (c AND mask 5) OR
          push_bit 8 (widen 2 (drop_bit 5 c AND mask 6)) OR
          push_bit 16 (widen 3 (drop_bit 11 c AND mask 5)))"
    unfolding to_blue to_green to_red by (simp add: or.assoc)
  finally show ?thesis unfolding masks(4,5) .
qed

lemma widen_sat: "widen 3 0x1F = 0xFF" "widen 2 0x3F = 0xFF" "widen k 0 = 0"
  by (simp_all add: widen_def mask_eq_exp_minus_1)

lemma bit_nonzero: "bit (x :: uint32_t) n \<Longrightarrow> x \<noteq> 0"
  by auto

lemma bit_widen:
  "bit (widen k (x AND mask n)) i \<longleftrightarrow>
     x AND mask n \<noteq> 0 \<and> i < 32 \<and> (i < k \<or> (k \<le> i \<and> i - k < n \<and> bit x (i - k)))"
  unfolding widen_def by (auto simp: bit_simps)

lemma back_blue:
  "drop_bit 3 (push_bit 24 (mask 8) OR widen 3 (c AND mask 5) OR push_bit 8 X OR push_bit 16 Y)
     AND mask 5 = (c AND mask 5 :: uint32_t)"
proof (rule bit_word_eqI)
  fix n assume "n < LENGTH(32)"
  show "bit (drop_bit 3 (push_bit 24 (mask 8) OR widen 3 (c AND mask 5) OR push_bit 8 X OR
           push_bit 16 Y) AND mask 5) n = bit (c AND mask 5) n"
    using bit_nonzero [of "c AND mask 5" n]
    by (auto simp: bit_simps bit_widen)
qed

lemma back_green:
  "drop_bit 10 (push_bit 24 (mask 8) OR widen 3 (b AND mask 5) OR
       push_bit 8 (widen 2 (g AND mask 6)) OR push_bit 16 Y)
     AND mask 6 = (g AND mask 6 :: uint32_t)"
proof (rule bit_word_eqI)
  fix n assume "n < LENGTH(32)"
  show "bit (drop_bit 10 (push_bit 24 (mask 8) OR widen 3 (b AND mask 5) OR
       push_bit 8 (widen 2 (g AND mask 6)) OR push_bit 16 Y) AND mask 6) n =
        bit (g AND mask 6) n"
    using bit_nonzero [of "g AND mask 6" n]
    by (auto simp: bit_simps bit_widen)
qed

lemma back_red:
  "drop_bit 19 (push_bit 24 (mask 8) OR widen 3 (b AND mask 5) OR
       push_bit 8 (widen 2 (g AND mask 6)) OR push_bit 16 (widen 3 (r AND mask 5)))
     AND mask 5 = (r AND mask 5 :: uint32_t)"
proof (rule bit_word_eqI)
  fix n assume "n < LENGTH(32)"
  show "bit (drop_bit 19 (push_bit 24 (mask 8) OR widen 3 (b AND mask 5) OR
       push_bit 8 (widen 2 (g AND mask 6)) OR push_bit 16 (widen 3 (r AND mask 5))) AND mask 5) n =
        bit (r AND mask 5) n"
    using bit_nonzero [of "r AND mask 5" n]
    by (auto simp: bit_simps bit_widen)
qed

lemma reassemble:
  "push_bit 11 (drop_bit 11 c AND mask 5) OR push_bit 5 (drop_bit 5 c AND mask 6) OR (c AND mask 5)
     = (c AND mask 16 :: uint32_t)"
proof (rule bit_word_eqI)
  fix n assume "n < LENGTH(32)"
  consider "n < 5" | "5 \<le> n" "n < 11" | "11 \<le> n" "n < 16" | "16 \<le> n" by linarith
  then show "bit (push_bit 11 (drop_bit 11 c AND mask 5) OR
      push_bit 5 (drop_bit 5 c AND mask 6) OR (c AND mask 5)) n = bit (c AND mask 16) n"
    by cases (auto simp: bit_simps)
qed

text \<open>Expanding an RGB-565 colour and converting it back returns its sixteen bits.\<close>

lemma roundtrip565:
  "\<exists>v. ltdcToARGB8888 c LTDC_FMT_RGB565 = Inr v \<and>
       ltdcFromARGB8888 v LTDC_FMT_RGB565 = Inr (c AND 0xFFFF)"
proof -
  let ?v = "push_bit 24 (mask 8) OR widen 3 (c AND mask 5) OR
          push_bit 8 (widen 2 (drop_bit 5 c AND mask 6)) OR
          push_bit 16 (widen 3 (drop_bit 11 c AND mask 5)) :: uint32_t"
  have t: "ltdcToARGB8888 c LTDC_FMT_RGB565 = Inr ?v"
    using to565 [of c] unfolding masks .
  have "ltdcFromARGB8888 ?v LTDC_FMT_RGB565 =
     Inr (push_bit 11 (drop_bit 19 ?v AND mask 5) OR push_bit 5 (drop_bit 10 ?v AND mask 6) OR
          (drop_bit 3 ?v AND mask 5))"
    using from565 [of ?v] unfolding masks .
  also have "\<dots> = Inr (c AND mask 16)"
    by (simp only: back_blue back_green back_red reassemble)
  finally have "ltdcFromARGB8888 ?v LTDC_FMT_RGB565 = Inr (c AND 0xFFFF)"
    unfolding masks .
  with t show ?thesis by blast
qed

text \<open>
  C8 (as amended). Converting the ARGB-8888 colour 0xFF00FF00 to RGB-565 gives 0x07E0,
  and converting 0x07E0 back gives 0xFF00FF00 exactly. For every colour, the conversion
  to RGB-565 keeps the high bits of each lane, and the expansion sets alpha to 0xFF and
  widens each channel: a channel that is zero stays zero, any other channel is shifted
  up and its missing low bits are set to ones. So a fully saturated channel maps back to
  0xFF, and expanding an RGB-565 colour and converting it back returns the colour.
\<close>

theorem ltdc_rgb565_conversion:
  "ltdcFromARGB8888 0xFF00FF00 LTDC_FMT_RGB565 = Inr 0x07E0 \<and>
   ltdcToARGB8888 0x07E0 LTDC_FMT_RGB565 = Inr 0xFF00FF00 \<and>
   ltdcFromARGB8888 c LTDC_FMT_RGB565 =
     Inr (push_bit 11 (drop_bit 19 c AND 0x1F) OR push_bit 5 (drop_bit 10 c AND 0x3F) OR
          (drop_bit 3 c AND 0x1F)) \<and>
   ltdcToARGB8888 c LTDC_FMT_RGB565 =
     Inr (0xFF000000 OR widen 3 (c AND 0x1F) OR
          push_bit 8 (widen 2 (drop_bit 5 c AND 0x3F)) OR
          push_bit 16 (widen 3 (drop_bit 11 c AND 0x1F))) \<and>
   widen 3 0x1F = 0xFF \<and> widen 2 0x3F = 0xFF \<and> widen 3 0 = 0 \<and> widen 2 0 = 0 \<and>
   (\<exists>v. ltdcToARGB8888 c LTDC_FMT_RGB565 = Inr v \<and>
        ltdcFromARGB8888 v LTDC_FMT_RGB565 = Inr (c AND 0xFFFF))"
proof (intro conjI)
  show "ltdcFromARGB8888 0xFF00FF00 LTDC_FMT_RGB565 = Inr 0x07E0"
    by (simp add: ltdcFromARGB8888_def LTDC_FMT_defs)
  show "ltdcToARGB8888 0x07E0 LTDC_FMT_RGB565 = Inr 0xFF00FF00"
    by (simp add: ltdcToARGB8888_def expand_def LTDC_FMT_defs)
  show "ltdcFromARGB8888 c LTDC_FMT_RGB565 =
     Inr (push_bit 11 (drop_bit 19 c AND 0x1F) OR push_bit 5 (drop_bit 10 c AND 0x3F) OR
          (drop_bit 3 c AND 0x1F))"
    by (rule from565)
  show "ltdcToARGB8888 c LTDC_FMT_RGB565 =
     Inr (0xFF000000 OR widen 3 (c AND 0x1F) OR
          push_bit 8 (widen 2 (drop_bit 5 c AND 0x3F)) OR
          push_bit 16 (widen 3 (drop_bit 11 c AND 0x1F)))"
    by (rule to565)
  show "\<exists>v. ltdcToARGB8888 c LTDC_FMT_RGB565 = Inr v \<and>
        ltdcFromARGB8888 v LTDC_FMT_RGB565 = Inr (c AND 0xFFFF)"
    by (rule roundtrip565)
qed (simp_all add: widen_sat)

text \<open>
  C8 as it was stated fails: the expansion does not copy the high bits of a channel into
  its missing low bits. The RGB-565 colour 0x0001 (blue 00001) expands to 0xFF00000F,
  where copying the high bits gives 0xFF000008.
\<close>

theorem ltdc_rgb565_replication_counterexample:
  "ltdcToARGB8888 0x0001 LTDC_FMT_RGB565 = Inr 0xFF00000F \<and>
   rgb565_replicated 0x0001 = 0xFF000008 \<and>
   ltdcToARGB8888 0x0001 LTDC_FMT_RGB565 \<noteq> Inr (rgb565_replicated 0x0001)"
  by (simp add: ltdcToARGB8888_def LTDC_FMT_defs expand_def rgb565_replicated_def
      replicated_def)

section \<open>Layer enable predicates and palette writes\<close>

lemma wide_test:
  fixes w :: uint32_t
  assumes "k < 32"
  shows "(w AND NOT (2 ^ k) \<noteq> 0) \<longleftrightarrow> (\<exists>n. n \<noteq> k \<and> bit w n)"
proof
  assume "w AND NOT (2 ^ k) \<noteq> 0"
  then obtain n where "bit (w AND NOT (2 ^ k)) n"
    by (auto simp: bit_eq_iff)
  then have "bit w n" and "n \<noteq> k"
    using assms by (auto simp: bit_simps)
  then show "\<exists>n. n \<noteq> k \<and> bit w n" by blast
next
  assume "\<exists>n. n \<noteq> k \<and> bit w n"
  then obtain n where n: "n \<noteq> k" "bit w n" by blast
  then have "n < 32" using bit_imp_le_length [of w n] by simp
  then have b: "bit (w AND NOT (2 ^ k)) n" using n by (simp add: bit_simps)
  show "w AND NOT (2 ^ k) \<noteq> 0"
  proof
    assume "w AND NOT (2 ^ k) = 0"
    with b show False by simp
  qed
qed

lemma cr_bits:
  "LTDC_LxCR_LEN = 2 ^ 0" "LTDC_LxCR_COLKEN = 2 ^ 1" "LTDC_LxCR_CLUTEN = 2 ^ 4"
  by (simp_all add: LTDC_mask_defs)

text \<open>
  C3. For each layer, the is-enabled, is-palette-enabled and is-keying-enabled
  predicates test the layer control register masked with the complement of the queried
  bit: each is true exactly when some bit of the control register other than the queried
  one (bit 0 for the layer, bit 4 for the palette, bit 1 for colour keying) is set.
\<close>

theorem ltdc_is_enabled_wide_test:
  "(ltdcBgIsEnabledI s \<longleftrightarrow> CR (LTDC_Layer1 s) AND NOT LTDC_LxCR_LEN \<noteq> 0) \<and>
   (ltdcBgIsPaletteEnabledI s \<longleftrightarrow> CR (LTDC_Layer1 s) AND NOT LTDC_LxCR_CLUTEN \<noteq> 0) \<and>
   (ltdcBgIsKeyingEnabledI s \<longleftrightarrow> CR (LTDC_Layer1 s) AND NOT LTDC_LxCR_COLKEN \<noteq> 0) \<and>
   (ltdcFgIsEnabledI s \<longleftrightarrow> CR (LTDC_Layer2 s) AND NOT LTDC_LxCR_LEN \<noteq> 0) \<and>
   (ltdcFgIsPaletteEnabledI s \<longleftrightarrow> CR (LTDC_Layer2 s) AND NOT LTDC_LxCR_CLUTEN \<noteq> 0) \<and>
   (ltdcFgIsKeyingEnabledI s \<longleftrightarrow> CR (LTDC_Layer2 s) AND NOT LTDC_LxCR_COLKEN \<noteq> 0) \<and>
   (ltdcBgIsEnabledI s \<longleftrightarrow> (\<exists>n. n \<noteq> 0 \<and> bit (CR (LTDC_Layer1 s)) n)) \<and>
   (ltdcBgIsPaletteEnabledI s \<longleftrightarrow> (\<exists>n. n \<noteq> 4 \<and> bit (CR (LTDC_Layer1 s)) n)) \<and>
   (ltdcBgIsKeyingEnabledI s \<longleftrightarrow> (\<exists>n. n \<noteq> 1 \<and> bit (CR (LTDC_Layer1 s)) n)) \<and>
   (ltdcFgIsEnabledI s \<longleftrightarrow> (\<exists>n. n \<noteq> 0 \<and> bit (CR (LTDC_Layer2 s)) n)) \<and>
   (ltdcFgIsPaletteEnabledI s \<longleftrightarrow> (\<exists>n. n \<noteq> 4 \<and> bit (CR (LTDC_Layer2 s)) n)) \<and>
   (ltdcFgIsKeyingEnabledI s \<longleftrightarrow> (\<exists>n. n \<noteq> 1 \<and> bit (CR (LTDC_Layer2 s)) n))"
  unfolding ltdcBgIsEnabledI_def ltdcBgIsPaletteEnabledI_def ltdcBgIsKeyingEnabledI_def
    ltdcFgIsEnabledI_def ltdcFgIsPaletteEnabledI_def ltdcFgIsKeyingEnabledI_def cr_bits
  using wide_test [of 0] wide_test [of 4] wide_test [of 1] by simp

lemma unat_succ16:
  fixes i len :: uint16_t
  assumes "i < len"
  shows "unat (i + 1) = Suc (unat i)"
proof -
  have "unat i < unat len" using assms by (simp add: word_less_nat_alt)
  moreover have "unat len < 2 ^ LENGTH(16)" by (rule unsigned_less)
  ultimately have "unat i + unat (1 :: uint16_t) < 2 ^ LENGTH(16)" by simp
  then have "unat (i + 1) = unat i + unat (1 :: uint16_t)" by (simp only: unat_add_lem)
  then show ?thesis by simp
qed

text \<open>
  The palette loop, entered at \<open>i\<close>, appends the words of the entries \<open>i\<close> to
  \<open>length - 1\<close> to the look-up table port, in this order, and returns.
\<close>

lemma ltdcBgSetPaletteI_loop_writes:
  "unat len \<le> length colors \<Longrightarrow> i \<le> len \<Longrightarrow>
   ltdcBgSetPaletteI_loop colors len i s =
     Done (s\<lparr>LTDC_Layer1 := (LTDC_Layer1 s)\<lparr>CLUTWR := CLUTWR (LTDC_Layer1 s) @
       map (clut_word colors) [unat i ..< unat len]\<rparr>\<rparr>)"
proof (induction colors len i s rule: ltdcBgSetPaletteI_loop.induct)
  case (1 colors len i s)
  show ?case
  proof (cases "i < len")
    case True
    then have lt: "unat i < unat len" by (simp add: word_less_nat_alt)
    have suc: "unat (i + 1) = Suc (unat i)" using True by (rule unat_succ16)
    have le: "i + 1 \<le> len" using lt suc by (simp add: word_le_nat_alt)
    have inb: "unat i < length colors" using lt "1.prems"(1) by simp
    have "[unat i ..< unat len] = unat i # [Suc (unat i) ..< unat len]"
      using lt by (simp add: upt_conv_Cons)
    then show ?thesis
      using True inb "1.IH" [OF True inb "1.prems"(1) le] suc
      by (subst ltdcBgSetPaletteI_loop.simps) (simp add: clut_word_def)
  next
    case False
    then have "i = len" using "1.prems"(2) by simp
    then show ?thesis
      by (subst ltdcBgSetPaletteI_loop.simps) simp
  qed
qed

lemma ltdcFgSetPaletteI_loop_writes:
  "unat len \<le> length colors \<Longrightarrow> i \<le> len \<Longrightarrow>
   ltdcFgSetPaletteI_loop colors len i s =
     Done (s\<lparr>LTDC_Layer2 := (LTDC_Layer2 s)\<lparr>CLUTWR := CLUTWR (LTDC_Layer2 s) @
       map (clut_word colors) [unat i ..< unat len]\<rparr>\<rparr>)"
proof (induction colors len i s rule: ltdcFgSetPaletteI_loop.induct)
  case (1 colors len i s)
  show ?case
  proof (cases "i < len")
    case True
    then have lt: "unat i < unat len" by (simp add: word_less_nat_alt)
    have suc: "unat (i + 1) = Suc (unat i)" using True by (rule unat_succ16)
    have le: "i + 1 \<le> len" using lt suc by (simp add: word_le_nat_alt)
    have inb: "unat i < length colors" using lt "1.prems"(1) by simp
    have "[unat i ..< unat len] = unat i # [Suc (unat i) ..< unat len]"
      using lt by (simp add: upt_conv_Cons)
    then show ?thesis
      using True inb "1.IH" [OF True inb "1.prems"(1) le] suc
      by (subst ltdcFgSetPaletteI_loop.simps) (simp add: clut_word_def)
  next
    case False
    then have "i = len" using "1.prems"(2) by simp
    then show ?thesis
      by (subst ltdcFgSetPaletteI_loop.simps) simp
  qed
qed

text \<open>
  What the palette setters do, stated with the enable predicate the code calls: when
  that predicate is false, a palette of \<open>length\<close> colours (at most 256, at least one) is
  written as the words of the entries 0 to \<open>length - 1\<close>, and when it is true the call
  halts at the assertion before any write.
\<close>

lemma ltdcSetPaletteI_writes:
  assumes "0 < len" and "len \<le> LTDC_MAX_PALETTE_LENGTH" and "unat len \<le> length colors"
  shows "ltdcBgSetPaletteI (Some colors) len s =
           (if ltdcBgIsEnabledI s then Halted (AssertFailed ''ltdcBgSetPaletteI(), #2'') s
            else Done (s\<lparr>LTDC_Layer1 := (LTDC_Layer1 s)\<lparr>CLUTWR := CLUTWR (LTDC_Layer1 s) @
                   map (clut_word colors) [0 ..< unat len]\<rparr>\<rparr>))"
    and "ltdcFgSetPaletteI (Some colors) len s =
           (if ltdcFgIsEnabledI s then Halted (AssertFailed ''ltdcFgSetPaletteI(), #2'') s
            else Done (s\<lparr>LTDC_Layer2 := (LTDC_Layer2 s)\<lparr>CLUTWR := CLUTWR (LTDC_Layer2 s) @
                   map (clut_word colors) [0 ..< unat len]\<rparr>\<rparr>))"
  using assms ltdcBgSetPaletteI_loop_writes [of len colors 0 s]
    ltdcFgSetPaletteI_loop_writes [of len colors 0 s]
  by (auto simp add: ltdcBgSetPaletteI_def ltdcFgSetPaletteI_def stmt_defs)

text \<open>
  C4 (what the code does at the failing input). With the foreground layer enabled and
  no other bit of its control register set, both palette setters pass the "must be
  disabled" assertion and write the look-up table: sixteen colours go to the entries 0
  to 15, each word with the slot in its high byte and the colour in its low 24 bits.
  With the layer disabled and the look-up table enable bit set, both setters halt at
  that assertion.
\<close>

theorem ltdcFgSetPalette_enable_check:
  "ltdcFgEnableI started = Done fg_enabled \<and>
   ltdcFgSetPaletteI (Some grey16) 16 fg_enabled =
     Done (fg_enabled\<lparr>LTDC_Layer2 := (LTDC_Layer2 fg_enabled)\<lparr>CLUTWR :=
       [0x00000000, 0x01111111, 0x02222222, 0x03333333, 0x04444444, 0x05555555, 0x06666666,
        0x07777777, 0x08888888, 0x09999999, 0x0AAAAAAA, 0x0BBBBBBB, 0x0CCCCCCC, 0x0DDDDDDD,
        0x0EEEEEEE, 0x0FFFFFFF]\<rparr>\<rparr>) \<and>
   ltdcFgSetPaletteColorI 3 0x123456 fg_enabled =
     Done (fg_enabled\<lparr>LTDC_Layer2 := (LTDC_Layer2 fg_enabled)\<lparr>CLUTWR := [0x03123456]\<rparr>\<rparr>) \<and>
   CR (LTDC_Layer2 fg_clut_only) AND LTDC_LxCR_LEN = 0 \<and>
   ltdcFgSetPaletteI (Some grey16) 16 fg_clut_only =
     Halted (AssertFailed ''ltdcFgSetPaletteI(), #2'') fg_clut_only \<and>
   ltdcFgSetPaletteColorI 3 0x123456 fg_clut_only =
     Halted (AssertFailed ''ltdcFgSetPaletteColorI(), #1'') fg_clut_only"
proof (intro conjI)
  show "ltdcFgEnableI started = Done fg_enabled"
    by (simp add: ltdcFgEnableI_def fg_enabled_def started_def stmt_defs LTDC_mask_defs)
  show "ltdcFgSetPaletteI (Some grey16) 16 fg_enabled =
     Done (fg_enabled\<lparr>LTDC_Layer2 := (LTDC_Layer2 fg_enabled)\<lparr>CLUTWR :=
       [0x00000000, 0x01111111, 0x02222222, 0x03333333, 0x04444444, 0x05555555, 0x06666666,
        0x07777777, 0x08888888, 0x09999999, 0x0AAAAAAA, 0x0BBBBBBB, 0x0CCCCCCC, 0x0DDDDDDD,
        0x0EEEEEEE, 0x0FFFFFFF]\<rparr>\<rparr>)"
    by (simp add: ltdcFgSetPaletteI_def ltdcFgIsEnabledI_def fg_enabled_def started_def
        stmt_defs LTDC_mask_defs grey16_def ltdcFgSetPaletteI_loop.simps)
  show "ltdcFgSetPaletteColorI 3 0x123456 fg_enabled =
     Done (fg_enabled\<lparr>LTDC_Layer2 := (LTDC_Layer2 fg_enabled)\<lparr>CLUTWR := [0x03123456]\<rparr>\<rparr>)"
    by (simp add: ltdcFgSetPaletteColorI_def ltdcFgIsEnabledI_def fg_enabled_def started_def
        stmt_defs LTDC_mask_defs)
  show "CR (LTDC_Layer2 fg_clut_only) AND LTDC_LxCR_LEN = 0"
    by (simp add: fg_clut_only_def LTDC_mask_defs)
  show "ltdcFgSetPaletteI (Some grey16) 16 fg_clut_only =
     Halted (AssertFailed ''ltdcFgSetPaletteI(), #2'') fg_clut_only"
    by (simp add: ltdcFgSetPaletteI_def ltdcFgIsEnabledI_def fg_clut_only_def started_def
        stmt_defs LTDC_mask_defs grey16_def)
  show "ltdcFgSetPaletteColorI 3 0x123456 fg_clut_only =
     Halted (AssertFailed ''ltdcFgSetPaletteColorI(), #1'') fg_clut_only"
    by (simp add: ltdcFgSetPaletteColorI_def ltdcFgIsEnabledI_def fg_clut_only_def started_def
        stmt_defs LTDC_mask_defs)
qed

section \<open>Start and the window setter\<close>

text \<open>The layer setters and the forced reload leave the driver object alone.\<close>

lemma keepsD: "keeps g c \<Longrightarrow> c s = Done s' \<Longrightarrow> g s' = g s"
  by (simp add: keeps_def)

lemma keeps_block: "list_all (keeps g) cs \<Longrightarrow> keeps g (block cs)"
proof (induction cs)
  case Nil
  then show ?case by (simp add: keeps_def)
next
  case (Cons c cs)
  then have c: "keeps g c" and cs: "keeps g (block cs)" by simp_all
  show ?case
    unfolding keeps_def
  proof (intro allI impI)
    fix s s'
    assume "block (c # cs) s = Done s'"
    then obtain sm where "c s = Done sm" "block cs sm = Done s'"
      by (auto split: outcome.splits)
    then show "g s' = g s" using keepsD [OF c] keepsD [OF cs] by simp
  qed
qed

lemma keeps_exec: "(\<And>s. g (f s) = g s) \<Longrightarrow> keeps g (exec f)"
  by (simp add: keeps_def exec_def)

lemma keeps_assert: "keeps g (chDbgAssert c m)"
  by (auto simp: keeps_def chDbgAssert_def split: if_splits)

lemma keeps_check: "keeps g (chDbgCheck c m)"
  by (auto simp: keeps_def chDbgCheck_def split: if_splits)

lemma keeps_wait: "keeps LTDCD1 (ltdc_wait_reload fuel bits)"
  unfolding keeps_def
proof (induction fuel)
  case 0
  then show ?case by (auto split: if_splits)
next
  case (Suc n)
  show ?case
  proof (intro allI impI)
    fix s s'
    assume a: "ltdc_wait_reload (Suc n) bits s = Done s'"
    show "LTDCD1 s' = LTDCD1 s"
    proof (cases "SRCR (LTDC s) AND bits \<noteq> 0")
      case True
      then have "ltdc_wait_reload n bits (chSchDoYieldS s) = Done s'" using a by simp
      then have "LTDCD1 s' = LTDCD1 (chSchDoYieldS s)" using Suc by blast
      then show ?thesis by (simp add: chSchDoYieldS_def split: nat.splits)
    next
      case False
      then show ?thesis using a by simp
    qed
  qed
qed

lemma keeps_force_reload: "keeps LTDCD1 (ltdc_force_reload_s fuel)"
  unfolding ltdc_force_reload_s_def
  by (rule keeps_block) (simp add: keeps_exec keeps_wait)

lemma keeps_bg_loop:
  "ltdcBgSetPaletteI_loop colors len i s = Done s' \<Longrightarrow> LTDCD1 s' = LTDCD1 s"
proof (induction colors len i s rule: ltdcBgSetPaletteI_loop.induct)
  case (1 colors len i s)
  from "1.prems" show ?case
    by (subst (asm) ltdcBgSetPaletteI_loop.simps) (auto split: if_splits dest: "1.IH")
qed

lemma keeps_fg_loop:
  "ltdcFgSetPaletteI_loop colors len i s = Done s' \<Longrightarrow> LTDCD1 s' = LTDCD1 s"
proof (induction colors len i s rule: ltdcFgSetPaletteI_loop.induct)
  case (1 colors len i s)
  from "1.prems" show ?case
    by (subst (asm) ltdcFgSetPaletteI_loop.simps) (auto split: if_splits dest: "1.IH")
qed

lemma keeps_bg_palette: "keeps LTDCD1 (ltdcBgSetPaletteI colors len)"
  unfolding keeps_def
  by (auto simp: ltdcBgSetPaletteI_def stmt_defs dest: keeps_bg_loop
      split: option.splits if_splits outcome.splits)

lemma keeps_fg_palette: "keeps LTDCD1 (ltdcFgSetPaletteI colors len)"
  unfolding keeps_def
  by (auto simp: ltdcFgSetPaletteI_def stmt_defs dest: keeps_fg_loop
      split: option.splits if_splits outcome.splits)

lemma keeps_bg_pixfmt: "keeps LTDCD1 (ltdcBgSetPixelFormatI fm)"
  unfolding ltdcBgSetPixelFormatI_def
  by (rule keeps_block) (simp add: keeps_assert keeps_exec)

lemma keeps_fg_pixfmt: "keeps LTDCD1 (ltdcFgSetPixelFormatI fm)"
  unfolding ltdcFgSetPixelFormatI_def
  by (rule keeps_block) (simp add: keeps_assert keeps_exec)

lemma keeps_bg_window: "keeps LTDCD1 (ltdcBgSetWindowI windowp)"
  unfolding keeps_def
  by (auto simp: ltdcBgSetWindowI_def Let_def stmt_defs split: option.splits if_splits)

lemma keeps_fg_window: "keeps LTDCD1 (ltdcFgSetWindowI windowp)"
  unfolding keeps_def
  by (auto simp: ltdcFgSetWindowI_def Let_def stmt_defs split: option.splits if_splits)

lemma keeps_bg_frame: "keeps LTDCD1 (ltdcBgSetFrameI H framep)"
  unfolding keeps_def
  by (auto simp: ltdcBgSetFrameI_def ltdcBgSetPixelFormatI_def Let_def stmt_defs
      split: option.splits if_splits sum.splits)

lemma keeps_fg_frame: "keeps LTDCD1 (ltdcFgSetFrameI H framep)"
  unfolding keeps_def
  by (auto simp: ltdcFgSetFrameI_def ltdcFgSetPixelFormatI_def Let_def stmt_defs
      split: option.splits if_splits sum.splits)

lemma keeps_bg_config: "keeps LTDCD1 (ltdcBgSetConfigI H cfgp)"
  unfolding ltdcBgSetConfigI_def Let_def
  apply (rule keeps_block)
  apply (simp add: keeps_check keeps_bg_frame keeps_bg_window)
  apply (simp add: ltdcBgSetDefaultColorI_def ltdcBgSetKeyingColorI_def
      ltdcBgSetConstantAlphaI_def ltdcBgSetBlendingFactorsI_def ltdcBgSetEnableFlagsI_def
      keeps_exec)
  using keeps_bg_palette
  apply (auto simp: keeps_def)
  done

lemma keeps_fg_config: "keeps LTDCD1 (ltdcFgSetConfigI H cfgp)"
  unfolding ltdcFgSetConfigI_def Let_def
  apply (rule keeps_block)
  apply (simp add: keeps_check keeps_fg_frame keeps_fg_window)
  apply (simp add: ltdcFgSetDefaultColorI_def ltdcFgSetKeyingColorI_def
      ltdcFgSetConstantAlphaI_def ltdcFgSetBlendingFactorsI_def ltdcFgSetEnableFlagsI_def
      keeps_exec)
  using keeps_fg_palette
  apply (auto simp: keeps_def)
  done

lemma block_Cons_Done:
  "block (c # cs) s = Done s' \<longleftrightarrow> (\<exists>sm. c s = Done sm \<and> block cs sm = Done s')"
  by (auto split: outcome.splits)

lemma assert_Done: "chDbgAssert c m s = Done s' \<longleftrightarrow> c s \<and> s' = s"
  by (auto simp: chDbgAssert_def)

lemma check_Done: "chDbgCheck c m s = Done s' \<longleftrightarrow> c s \<and> s' = s"
  by (auto simp: chDbgCheck_def)

lemma exec_Done: "exec f s = Done s' \<longleftrightarrow> s' = f s"
  by (auto simp: exec_def)

lemmas Done_iffs = block_Cons_Done assert_Done check_Done exec_Done

text \<open>
  The driver object after a start that returns: ready, holding the configuration, with
  the active window computed from the sync widths, the back porches and the screen size.
\<close>

lemma ltdcStart_driver:
  assumes "ltdcStart fuel H (Some cfg) s = Done s1"
  shows "LTDCD1 s1 =
    \<lparr>ltdc_state = LTDC_READY, config = Some cfg,
     active_window =
       \<lparr>hstart = ucast ((ucast (hsync_width cfg) :: uint32_t) - 1 + ucast (hbp_width cfg) + 1),
        hstop = ucast ((ucast (hsync_width cfg) :: uint32_t) - 1 + ucast (hbp_width cfg)
                  + ucast (screen_width cfg)),
        vstart = ucast ((ucast (vsync_height cfg) :: uint32_t) - 1 + ucast (vbp_height cfg) + 1),
        vstop = ucast ((ucast (vsync_height cfg) :: uint32_t) - 1 + ucast (vbp_height cfg)
                  + ucast (screen_height cfg))\<rparr>,
     thread = thread (LTDCD1 s)\<rparr>"
  using assms
  by (auto simp add: ltdcStart_def Let_def Done_iffs ltdcSetEnableFlagsI_def
      ltdcSetClearColorI_def set_state_def simp del: block.simps(2)
      dest!: keepsD [OF keeps_force_reload] keepsD [OF keeps_bg_config]
        keepsD [OF keeps_fg_config])

text \<open>
  The window setter returns exactly when its six assertions hold, and then it has
  written the two window position registers and nothing else.
\<close>

lemma ltdcBgSetWindowI_Done:
  assumes "config (LTDCD1 s) = Some cfg"
  shows "ltdcBgSetWindowI (Some w) s = Done s' \<longleftrightarrow>
     (let aw = active_window (LTDCD1 s);
          hstart32 = (ucast (hstart w) :: uint32_t) + ucast (hstart aw);
          hstop32 = (ucast (hstop w) :: uint32_t) + ucast (hstart aw);
          vstart32 = (ucast (vstart w) :: uint32_t) + ucast (vstart aw);
          vstop32 = (ucast (vstop w) :: uint32_t) + ucast (vstart aw)
      in hstop w < screen_width cfg \<and> vstop w < screen_height cfg \<and>
         ucast (hstart aw) \<le> hstart32 \<and> hstop32 \<le> ucast (hstop aw) \<and>
         ucast (vstart aw) \<le> vstart32 \<and> vstop32 \<le> ucast (vstop aw) \<and>
         s' = s\<lparr>LTDC_Layer1 := (LTDC_Layer1 s)
                \<lparr>WHPCR := (hstart32 AND LTDC_LxWHPCR_WHSTPOS) OR
                          (push_bit 16 hstop32 AND LTDC_LxWHPCR_WHSPPOS),
                 WVPCR := (vstart32 AND LTDC_LxWVPCR_WVSTPOS) OR
                          (push_bit 16 vstop32 AND LTDC_LxWVPCR_WVSPPOS)\<rparr>\<rparr>)"
  using assms
  by (auto simp add: ltdcBgSetWindowI_def Let_def Done_iffs simp del: block.simps(2))

lemma ltdcFgSetWindowI_Done:
  assumes "config (LTDCD1 s) = Some cfg"
  shows "ltdcFgSetWindowI (Some w) s = Done s' \<longleftrightarrow>
     (let aw = active_window (LTDCD1 s);
          hstart32 = (ucast (hstart w) :: uint32_t) + ucast (hstart aw);
          hstop32 = (ucast (hstop w) :: uint32_t) + ucast (hstart aw);
          vstart32 = (ucast (vstart w) :: uint32_t) + ucast (vstart aw);
          vstop32 = (ucast (vstop w) :: uint32_t) + ucast (vstart aw)
      in hstop w < screen_width cfg \<and> vstop w < screen_height cfg \<and>
         ucast (hstart aw) \<le> hstart32 \<and> hstop32 \<le> ucast (hstop aw) \<and>
         ucast (vstart aw) \<le> vstart32 \<and> vstop32 \<le> ucast (vstop aw) \<and>
         s' = s\<lparr>LTDC_Layer2 := (LTDC_Layer2 s)
                \<lparr>WHPCR := (hstart32 AND LTDC_LxWHPCR_WHSTPOS) OR
                          (push_bit 16 hstop32 AND LTDC_LxWHPCR_WHSPPOS),
                 WVPCR := (vstart32 AND LTDC_LxWVPCR_WVSTPOS) OR
                          (push_bit 16 vstop32 AND LTDC_LxWVPCR_WVSPPOS)\<rparr>\<rparr>)"
  using assms
  by (auto simp add: ltdcFgSetWindowI_def Let_def Done_iffs simp del: block.simps(2))

lemma ltdcStart_scenario_window:
  assumes st: "ltdcStart fuel H (Some c) s0 = Done s1"
    and c: "hsync_width c = 41" "vsync_height c = 10" "hbp_width c = 2" "vbp_height c = 2"
      "screen_width c = 480" "screen_height c = 272"
  shows "LTDCD1 s1 = \<lparr>ltdc_state = LTDC_READY, config = Some c,
     active_window = \<lparr>hstart = 43, hstop = 522, vstart = 12, vstop = 283\<rparr>,
     thread = thread (LTDCD1 s0)\<rparr>"
  using ltdcStart_driver [OF st] c by simp

text \<open>
  C1. For each layer, with a configured driver, the window setter returns exactly when
  the stops lie within the screen and the absolute coordinates, the window's plus the
  cached active-window start, satisfy start >= active start and stop <= active stop on
  both axes; it then has written the absolute start and stop, masked to their fields,
  to WHPCR and WVPCR. After a start that returns with HSW 41, VSW 10, HBP 2, VBP 2 and a
  480 by 272 screen, the cached active window is (43, 522, 12, 283), and set-window of
  the background layer with (0, 479, 0, 271) writes 43..522 to WHPCR and 12..283 to
  WVPCR.
\<close>

theorem ltdc_set_window_translation:
  "(config (LTDCD1 s) = Some cfg \<longrightarrow>
     (let aw = active_window (LTDCD1 s);
          hstart32 = (ucast (hstart w) :: uint32_t) + ucast (hstart aw);
          hstop32 = (ucast (hstop w) :: uint32_t) + ucast (hstart aw);
          vstart32 = (ucast (vstart w) :: uint32_t) + ucast (vstart aw);
          vstop32 = (ucast (vstop w) :: uint32_t) + ucast (vstart aw);
          passes = (hstop w < screen_width cfg \<and> vstop w < screen_height cfg \<and>
             ucast (hstart aw) \<le> hstart32 \<and> hstop32 \<le> ucast (hstop aw) \<and>
             ucast (vstart aw) \<le> vstart32 \<and> vstop32 \<le> ucast (vstop aw));
          whpcr = (hstart32 AND LTDC_LxWHPCR_WHSTPOS) OR
                  (push_bit 16 hstop32 AND LTDC_LxWHPCR_WHSPPOS);
          wvpcr = (vstart32 AND LTDC_LxWVPCR_WVSTPOS) OR
                  (push_bit 16 vstop32 AND LTDC_LxWVPCR_WVSPPOS)
      in (ltdcBgSetWindowI (Some w) s = Done s' \<longleftrightarrow>
            passes \<and> s' = s\<lparr>LTDC_Layer1 := (LTDC_Layer1 s)\<lparr>WHPCR := whpcr, WVPCR := wvpcr\<rparr>\<rparr>) \<and>
         (ltdcFgSetWindowI (Some w) s = Done s' \<longleftrightarrow>
            passes \<and> s' = s\<lparr>LTDC_Layer2 := (LTDC_Layer2 s)\<lparr>WHPCR := whpcr, WVPCR := wvpcr\<rparr>\<rparr>))) \<and>
   (ltdcStart fuel H (Some c) s0 = Done s1 \<and>
    hsync_width c = 41 \<and> vsync_height c = 10 \<and> hbp_width c = 2 \<and> vbp_height c = 2 \<and>
    screen_width c = 480 \<and> screen_height c = 272 \<longrightarrow>
      active_window (LTDCD1 s1) = \<lparr>hstart = 43, hstop = 522, vstart = 12, vstop = 283\<rparr> \<and>
      ltdcBgSetWindowI (Some \<lparr>hstart = 0, hstop = 479, vstart = 0, vstop = 271\<rparr>) s1 =
        Done (s1\<lparr>LTDC_Layer1 := (LTDC_Layer1 s1)\<lparr>WHPCR := 0x020A002B, WVPCR := 0x011B000C\<rparr>\<rparr>) \<and>
      0x020A002B AND LTDC_LxWHPCR_WHSTPOS = 43 \<and>
      drop_bit 16 (0x020A002B AND LTDC_LxWHPCR_WHSPPOS) = 522 \<and>
      0x011B000C AND LTDC_LxWVPCR_WVSTPOS = 12 \<and>
      drop_bit 16 (0x011B000C AND LTDC_LxWVPCR_WVSPPOS) = 283)"
proof (intro conjI impI)
  assume cf: "config (LTDCD1 s) = Some cfg"
  show "let aw = active_window (LTDCD1 s);
          hstart32 = (ucast (hstart w) :: uint32_t) + ucast (hstart aw);
          hstop32 = (ucast (hstop w) :: uint32_t) + ucast (hstart aw);
          vstart32 = (ucast (vstart w) :: uint32_t) + ucast (vstart aw);
          vstop32 = (ucast (vstop w) :: uint32_t) + ucast (vstart aw);
          passes = (hstop w < screen_width cfg \<and> vstop w < screen_height cfg \<and>
             ucast (hstart aw) \<le> hstart32 \<and> hstop32 \<le> ucast (hstop aw) \<and>
             ucast (vstart aw) \<le> vstart32 \<and> vstop32 \<le> ucast (vstop aw));
          whpcr = (hstart32 AND LTDC_LxWHPCR_WHSTPOS) OR
                  (push_bit 16 hstop32 AND LTDC_LxWHPCR_WHSPPOS);
          wvpcr = (vstart32 AND LTDC_LxWVPCR_WVSTPOS) OR
                  (push_bit 16 vstop32 AND LTDC_LxWVPCR_WVSPPOS)
      in (ltdcBgSetWindowI (Some w) s = Done s' \<longleftrightarrow>
            passes \<and> s' = s\<lparr>LTDC_Layer1 := (LTDC_Layer1 s)\<lparr>WHPCR := whpcr, WVPCR := wvpcr\<rparr>\<rparr>) \<and>
         (ltdcFgSetWindowI (Some w) s = Done s' \<longleftrightarrow>
            passes \<and> s' = s\<lparr>LTDC_Layer2 := (LTDC_Layer2 s)\<lparr>WHPCR := whpcr, WVPCR := wvpcr\<rparr>\<rparr>)"
    unfolding ltdcBgSetWindowI_Done [OF cf] ltdcFgSetWindowI_Done [OF cf]
    by (simp add: Let_def conj_assoc)
next
  assume a: "ltdcStart fuel H (Some c) s0 = Done s1 \<and>
    hsync_width c = 41 \<and> vsync_height c = 10 \<and> hbp_width c = 2 \<and> vbp_height c = 2 \<and>
    screen_width c = 480 \<and> screen_height c = 272"
  then have d: "LTDCD1 s1 = \<lparr>ltdc_state = LTDC_READY, config = Some c,
     active_window = \<lparr>hstart = 43, hstop = 522, vstart = 12, vstop = 283\<rparr>,
     thread = thread (LTDCD1 s0)\<rparr>"
    using ltdcStart_scenario_window [of fuel H c s0 s1] by simp
  show "active_window (LTDCD1 s1) = \<lparr>hstart = 43, hstop = 522, vstart = 12, vstop = 283\<rparr>"
    using d by simp
  have cf: "config (LTDCD1 s1) = Some c" using d by simp
  show "ltdcBgSetWindowI (Some \<lparr>hstart = 0, hstop = 479, vstart = 0, vstop = 271\<rparr>) s1 =
      Done (s1\<lparr>LTDC_Layer1 := (LTDC_Layer1 s1)\<lparr>WHPCR := 0x020A002B, WVPCR := 0x011B000C\<rparr>\<rparr>)"
    unfolding ltdcBgSetWindowI_Done [OF cf] using d a by (simp add: LTDC_mask_defs)
qed (simp_all add: LTDC_mask_defs)

text \<open>The start of the scenario returns, with fuel for three yields per reload.\<close>

lemma start_scenario:
  "ltdcStart 3 stm32_ltdc_h (Some panel_480x272) (ltdcInit power_on) = Done started"
  by (simp add: ltdcStart_def ltdcInit_def ltdcObjectInit_def set_state_def power_on_def
       stm32_ltdc_h_def panel_480x272_def stmt_defs ltdc_force_reload_s_def chSchDoYieldS_def
       LTDC_mask_defs LTDC_FMT_defs ltdcSetEnableFlagsI_def ltdcSetClearColorI_def
       ltdcBgSetConfigI_def ltdcFgSetConfigI_def ltdc_default_laycfg_def ltdc_invalid_frame_def
       ltdc_invalid_window_def ltdcBgSetFrameI_def ltdcFgSetFrameI_def
       ltdcBgSetPixelFormatI_def ltdcFgSetPixelFormatI_def ltdcBytesPerPixel_def ltdcBitsPerPixel_def
       ltdc_bpp_def ltdcBgSetWindowI_def ltdcFgSetWindowI_def
       ltdcBgSetDefaultColorI_def ltdcFgSetDefaultColorI_def
       ltdcBgSetKeyingColorI_def ltdcFgSetKeyingColorI_def
       ltdcBgSetConstantAlphaI_def ltdcFgSetConstantAlphaI_def
       ltdcBgSetBlendingFactorsI_def ltdcFgSetBlendingFactorsI_def
       ltdcBgSetEnableFlagsI_def ltdcFgSetEnableFlagsI_def layer_reset_def started_def
       numeral_3_eq_3)

theorem ltdc_set_window_translation_witness:
  "ltdcStart 3 stm32_ltdc_h (Some panel_480x272) (ltdcInit power_on) = Done started \<and>
   active_window (LTDCD1 started) = \<lparr>hstart = 43, hstop = 522, vstart = 12, vstop = 283\<rparr> \<and>
   ltdcBgSetWindowI (Some \<lparr>hstart = 0, hstop = 479, vstart = 0, vstop = 271\<rparr>) started =
     Done (started\<lparr>LTDC_Layer1 := (LTDC_Layer1 started)\<lparr>WHPCR := 0x020A002B, WVPCR := 0x011B000C\<rparr>\<rparr>) \<and>
   ltdcFgSetWindowI (Some \<lparr>hstart = 0, hstop = 479, vstart = 0, vstop = 271\<rparr>) started =
     Done (started\<lparr>LTDC_Layer2 := (LTDC_Layer2 started)\<lparr>WHPCR := 0x020A002B, WVPCR := 0x011B000C\<rparr>\<rparr>) \<and>
   ltdcBgGetWindowI (Some ltdc_invalid_window)
     (started\<lparr>LTDC_Layer1 := (LTDC_Layer1 started)\<lparr>WHPCR := 0x020A002B, WVPCR := 0x011B000C\<rparr>\<rparr>) =
     Done \<lparr>hstart = 43, hstop = 522, vstart = 12, vstop = 283\<rparr>"
proof -
  have cf: "config (LTDCD1 started) = Some panel_480x272" by (simp add: started_def)
  note T = ltdc_set_window_translation [of started panel_480x272
      "\<lparr>hstart = 0, hstop = 479, vstart = 0, vstop = 271\<rparr>"
      "started\<lparr>LTDC_Layer2 := (LTDC_Layer2 started)\<lparr>WHPCR := 0x020A002B, WVPCR := 0x011B000C\<rparr>\<rparr>"
      3 stm32_ltdc_h panel_480x272 "ltdcInit power_on" started]
  have fg: "ltdcFgSetWindowI (Some \<lparr>hstart = 0, hstop = 479, vstart = 0, vstop = 271\<rparr>) started =
     Done (started\<lparr>LTDC_Layer2 := (LTDC_Layer2 started)\<lparr>WHPCR := 0x020A002B, WVPCR := 0x011B000C\<rparr>\<rparr>)"
    using T cf by (simp add: Let_def started_def panel_480x272_def LTDC_mask_defs)
  have rd: "ltdcBgGetWindowI (Some ltdc_invalid_window)
     (started\<lparr>LTDC_Layer1 := (LTDC_Layer1 started)\<lparr>WHPCR := 0x020A002B, WVPCR := 0x011B000C\<rparr>\<rparr>) =
     Done \<lparr>hstart = 43, hstop = 522, vstart = 12, vstop = 283\<rparr>"
    by (simp add: ltdcBgGetWindowI_def ltdc_invalid_window_def LTDC_mask_defs)
  have c: "hsync_width panel_480x272 = 41 \<and> vsync_height panel_480x272 = 10 \<and>
    hbp_width panel_480x272 = 2 \<and> vbp_height panel_480x272 = 2 \<and>
    screen_width panel_480x272 = 480 \<and> screen_height panel_480x272 = 272"
    by (simp add: panel_480x272_def)
  show ?thesis using T start_scenario c fg rd by simp
qed

section \<open>Frame setter and getter\<close>

text \<open>The format ids below the maximum, and their bytes per pixel.\<close>

lemma fmt_cases:
  fixes fm :: ltdc_pixfmt_t
  assumes "fm < LTDC_MAX_PIXFMT_ID"
  shows "fm = LTDC_FMT_ARGB8888 \<or> fm = LTDC_FMT_RGB888 \<or> fm = LTDC_FMT_RGB565 \<or>
         fm = LTDC_FMT_ARGB1555 \<or> fm = LTDC_FMT_ARGB4444 \<or> fm = LTDC_FMT_L8 \<or>
         fm = LTDC_FMT_AL44"
proof -
  have "unat fm < 7" using assms by (simp add: LTDC_FMT_defs word_less_nat_alt)
  then have "unat fm = 0 \<or> unat fm = 1 \<or> unat fm = 2 \<or> unat fm = 3 \<or> unat fm = 4 \<or>
    unat fm = 5 \<or> unat fm = 6" by linarith
  then show ?thesis
    unfolding LTDC_FMT_defs word_unat_eq_iff by simp
qed

lemma ltdcBytesPerPixel_values:
  "ltdcBytesPerPixel LTDC_FMT_ARGB8888 = Inr 4"
  "ltdcBytesPerPixel LTDC_FMT_RGB888 = Inr 3"
  "ltdcBytesPerPixel LTDC_FMT_RGB565 = Inr 2"
  "ltdcBytesPerPixel LTDC_FMT_ARGB1555 = Inr 2"
  "ltdcBytesPerPixel LTDC_FMT_ARGB4444 = Inr 2"
  "ltdcBytesPerPixel LTDC_FMT_L8 = Inr 1"
  "ltdcBytesPerPixel LTDC_FMT_AL44 = Inr 1"
  "ltdcBytesPerPixel LTDC_FMT_AL88 = Inl (AssertFailed ''ltdcBitsPerPixel(), #1'')"
  by (simp_all add: ltdcBytesPerPixel_def ltdcBitsPerPixel_def ltdc_bpp_def LTDC_FMT_defs)

lemma ltdcBytesPerPixel_range:
  assumes "fm < LTDC_MAX_PIXFMT_ID"
  shows "\<exists>bytes. ltdcBytesPerPixel fm = Inr bytes \<and> 1 \<le> bytes \<and> bytes \<le> 4"
  using fmt_cases [OF assms] ltdcBytesPerPixel_values by auto

lemma pixfmt_ok:
  assumes "fm < LTDC_MAX_PIXFMT_ID"
  shows "LTDC_MIN_PIXFMT_ID \<le> fm \<and> fm \<le> LTDC_MAX_PIXFMT_ID"
  using assms by (simp add: LTDC_FMT_defs)

text \<open>
  For a format below the maximum id and a configured driver, the frame setter returns
  exactly when its seven assertions hold, and then it has written the pixel format, the
  address, the packed pitch and line length plus 3, and the line count.
\<close>

lemma ltdcBgSetFrameI_Done:
  assumes "config (LTDCD1 s) = Some cfg" and "ltdcBytesPerPixel (fmt f) = Inr bytes"
    and "fmt f < LTDC_MAX_PIXFMT_ID"
  shows "ltdcBgSetFrameI H (Some f) s = Done s' \<longleftrightarrow>
     width f \<le> screen_width cfg \<and> height f \<le> screen_height cfg \<and>
     LTDC_MIN_FRAME_WIDTH_BYTES H \<le> bytes * ucast (width f) \<and>
     bytes * ucast (width f) \<le> LTDC_MAX_FRAME_WIDTH_BYTES H \<and>
     LTDC_MIN_FRAME_HEIGHT_LINES H \<le> ucast (height f) \<and>
     ucast (height f) \<le> LTDC_MAX_FRAME_HEIGHT_LINES H \<and>
     bytes * ucast (width f) \<le> pitch f \<and>
     s' = s\<lparr>LTDC_Layer1 := (LTDC_Layer1 s)
            \<lparr>PFCR := (PFCR (LTDC_Layer1 s) AND NOT LTDC_LxPFCR_PF) OR
                      (ucast (fmt f) AND LTDC_LxPFCR_PF),
             CFBAR := bufferp f AND LTDC_LxCFBAR_CFBADD,
             CFBLR := (push_bit 16 (pitch f) AND LTDC_LxCFBLR_CFBP) OR
                      ((bytes * ucast (width f) + 3) AND LTDC_LxCFBLR_CFBLL),
             CFBLNR := ucast (height f) AND LTDC_LxCFBLNR_CFBLNBR\<rparr>\<rparr>"
  using assms pixfmt_ok [OF assms(3)]
  by (auto simp add: ltdcBgSetFrameI_def ltdcBgSetPixelFormatI_def Let_def Done_iffs
      simp del: block.simps(2))

lemma ltdcFgSetFrameI_Done:
  assumes "config (LTDCD1 s) = Some cfg" and "ltdcBytesPerPixel (fmt f) = Inr bytes"
    and "fmt f < LTDC_MAX_PIXFMT_ID"
  shows "ltdcFgSetFrameI H (Some f) s = Done s' \<longleftrightarrow>
     width f \<le> screen_width cfg \<and> height f \<le> screen_height cfg \<and>
     LTDC_MIN_FRAME_WIDTH_BYTES H \<le> bytes * ucast (width f) \<and>
     bytes * ucast (width f) \<le> LTDC_MAX_FRAME_WIDTH_BYTES H \<and>
     LTDC_MIN_FRAME_HEIGHT_LINES H \<le> ucast (height f) \<and>
     ucast (height f) \<le> LTDC_MAX_FRAME_HEIGHT_LINES H \<and>
     bytes * ucast (width f) \<le> pitch f \<and>
     s' = s\<lparr>LTDC_Layer2 := (LTDC_Layer2 s)
            \<lparr>PFCR := (PFCR (LTDC_Layer2 s) AND NOT LTDC_LxPFCR_PF) OR
                      (ucast (fmt f) AND LTDC_LxPFCR_PF),
             CFBAR := bufferp f AND LTDC_LxCFBAR_CFBADD,
             CFBLR := (push_bit 16 (pitch f) AND LTDC_LxCFBLR_CFBP) OR
                      ((bytes * ucast (width f) + 3) AND LTDC_LxCFBLR_CFBLL),
             CFBLNR := ucast (height f) AND LTDC_LxCFBLNR_CFBLNBR\<rparr>\<rparr>"
  using assms pixfmt_ok [OF assms(3)]
  by (auto simp add: ltdcFgSetFrameI_def ltdcFgSetPixelFormatI_def Let_def Done_iffs
      simp del: block.simps(2))

text \<open>Reading the frame registers back: each field returns what the setter packed into it.\<close>

lemma ucast_16_32_16: "(ucast (ucast (w :: uint16_t) :: uint32_t) :: uint16_t) = w"
  by (rule bit_word_eqI) (auto simp: bit_simps dest: bit_imp_le_length)

lemma unat_ucast_16_32: "unat (ucast (w :: uint16_t) :: uint32_t) = unat w"
proof -
  have "unat w < 2 ^ 16" using unsigned_less [of w] by simp
  then have "unat w < 2 ^ 32" by simp
  then show ?thesis by (simp add: unsigned_ucast_eq take_bit_nat_eq_self)
qed

lemma cfb_masks:
  "LTDC_LxCFBLR_CFBP = push_bit 16 (mask 13)" "LTDC_LxCFBLR_CFBLL = mask 13"
  "LTDC_LxCFBLNR_CFBLNBR = mask 11" "LTDC_LxPFCR_PF = mask 3"
  by (simp_all add: LTDC_mask_defs mask_eq_exp_minus_1)

lemma cfblr_pitch:
  fixes p x :: uint32_t
  assumes "p < 0x2000"
  shows "drop_bit 16 (((push_bit 16 p AND LTDC_LxCFBLR_CFBP) OR (x AND LTDC_LxCFBLR_CFBLL))
           AND LTDC_LxCFBLR_CFBP) = p"
proof -
  have "p < 2 ^ 13" using assms by simp
  then have p: "p AND mask 13 = p" by (rule less_mask_eq)
  have "drop_bit 16 (((push_bit 16 p AND push_bit 16 (mask 13)) OR (x AND mask 13))
           AND push_bit 16 (mask 13)) = p AND mask 13"
    by (rule bit_word_eqI) (auto simp: bit_simps)
  then show ?thesis unfolding cfb_masks p .
qed

lemma cfblr_length:
  fixes p x :: uint32_t
  assumes "x \<le> 0x1FFF"
  shows "((push_bit 16 p AND LTDC_LxCFBLR_CFBP) OR (x AND LTDC_LxCFBLR_CFBLL))
           AND LTDC_LxCFBLR_CFBLL = x"
proof -
  have "x < 2 ^ 13" using assms by (simp add: word_le_nat_alt word_less_nat_alt)
  then have x: "x AND mask 13 = x" by (rule less_mask_eq)
  have "((push_bit 16 p AND push_bit 16 (mask 13)) OR (x AND mask 13)) AND mask 13 = x AND mask 13"
    by (rule bit_word_eqI) (auto simp: bit_simps)
  then show ?thesis unfolding cfb_masks x .
qed

lemma cfblnr_height:
  fixes h :: uint16_t
  assumes "(ucast h :: uint32_t) \<le> 0x7FF"
  shows "(ucast ((ucast h :: uint32_t) AND LTDC_LxCFBLNR_CFBLNBR) :: uint16_t) = h"
proof -
  have "(ucast h :: uint32_t) < 2 ^ 11" using assms by (simp add: word_le_nat_alt word_less_nat_alt)
  then have "(ucast h :: uint32_t) AND mask 11 = ucast h" by (rule less_mask_eq)
  then show ?thesis unfolding cfb_masks by (simp add: ucast_16_32_16)
qed

lemma pfcr_format:
  fixes fm :: ltdc_pixfmt_t and r :: uint32_t
  assumes "fm \<le> LTDC_MAX_PIXFMT_ID"
  shows "(ucast (((r AND NOT LTDC_LxPFCR_PF) OR (ucast fm AND LTDC_LxPFCR_PF))
            AND LTDC_LxPFCR_PF) :: ltdc_pixfmt_t) = fm"
proof -
  have "fm < 2 ^ 3" using assms by (simp add: LTDC_FMT_defs word_le_nat_alt word_less_nat_alt)
  then have f: "fm AND mask 3 = fm" by (rule less_mask_eq)
  have "(ucast (((r AND NOT (mask 3)) OR (ucast fm AND mask 3)) AND mask 3) :: ltdc_pixfmt_t)
      = fm AND mask 3"
    by (rule bit_word_eqI) (auto simp: bit_simps)
  then show ?thesis unfolding cfb_masks f .
qed

lemma width_back:
  fixes bytes :: uint32_t and w :: uint16_t
  assumes "1 \<le> bytes" "bytes \<le> 4"
  shows "(ucast ((bytes * ucast w + 3 - 3) div bytes) :: uint16_t) = w"
proof -
  have b: "1 \<le> unat bytes" "unat bytes \<le> 4"
    using assms by (simp_all add: word_le_nat_alt)
  have w: "unat (ucast w :: uint32_t) = unat w" by (rule unat_ucast_16_32)
  have "unat w < 2 ^ 16" using unsigned_less [of w] by simp
  then have "unat w < 65536" by simp
  moreover have "unat bytes * unat w \<le> 4 * unat w"
    using b(2) by (rule mult_le_mono1)
  ultimately have "unat bytes * unat w < 4294967296" by linarith
  then have "unat bytes * unat w < 2 ^ LENGTH(32)" by simp
  then have "unat bytes * unat (ucast w :: uint32_t) < 2 ^ LENGTH(32)" using w by simp
  then have "unat (bytes * (ucast w :: uint32_t)) = unat bytes * unat (ucast w :: uint32_t)"
    by (simp only: unat_mult_lem)
  then have m: "unat (bytes * ucast w) = unat bytes * unat w"
    using w by simp
  have "unat ((bytes * ucast w) div bytes) = unat w"
    using b m by (simp add: unat_div)
  then have "(bytes * ucast w) div bytes = (ucast w :: uint32_t)"
    using w by (simp add: word_unat_eq_iff)
  then show ?thesis by (simp add: ucast_16_32_16)
qed

lemma plus3:
  fixes x :: uint32_t
  assumes "x \<le> 0x1FFC"
  shows "x + 3 \<le> 0x1FFF"
proof -
  have a: "unat x \<le> 8188" using assms by (simp add: word_le_nat_alt)
  then have "unat x + unat (3 :: uint32_t) < 2 ^ LENGTH(32)" by simp
  then have "unat (x + 3) = unat x + unat (3 :: uint32_t)" by (simp only: unat_add_lem)
  then show ?thesis using a by (simp add: word_le_nat_alt)
qed

lemma and_all_ones: "(x :: uint32_t) AND 0xFFFFFFFF = x"
proof -
  have "(0xFFFFFFFF :: uint32_t) = - 1" by simp
  then show ?thesis by (simp only: and.right_neutral)
qed

text \<open>
  After a frame setter that returns, with a pitch below 8192 and header bounds that fit
  the register fields, the getter returns the address, pitch, width and height that
  were set, and the pixel format register reads back the format.
\<close>

lemma ltdcBgFrame_roundtrip:
  assumes cfg: "config (LTDCD1 s) = Some cfg"
    and fm: "fmt f < LTDC_MAX_PIXFMT_ID"
    and hw: "LTDC_MAX_FRAME_WIDTH_BYTES H \<le> 0x1FFC" "LTDC_MAX_FRAME_HEIGHT_LINES H \<le> 0x7FF"
    and st: "ltdcBgSetFrameI H (Some f) s = Done s'"
    and p: "pitch f < 0x2000"
  shows "ltdcBgGetPixelFormatI s' = fmt f \<and>
     (\<exists>g'. ltdcBgGetFrameI (Some g) s' = Done g' \<and>
        bufferp g' = bufferp f \<and> pitch g' = pitch f \<and> width g' = width f \<and>
        height g' = height f)"
proof -
  obtain bytes where b: "ltdcBytesPerPixel (fmt f) = Inr bytes" "1 \<le> bytes" "bytes \<le> 4"
    using ltdcBytesPerPixel_range [OF fm] by blast
  note D = ltdcBgSetFrameI_Done [OF cfg b(1) fm, of H s', THEN iffD1, OF st]
  from D have "bytes * ucast (width f) \<le> LTDC_MAX_FRAME_WIDTH_BYTES H" by blast
  then have ls: "bytes * ucast (width f) \<le> 0x1FFC" using hw(1) by (rule order_trans)
  from D have "(ucast (height f) :: uint32_t) \<le> LTDC_MAX_FRAME_HEIGHT_LINES H" by blast
  then have hh: "(ucast (height f) :: uint32_t) \<le> 0x7FF" using hw(2) by (rule order_trans)
  from D have s': "s' = s\<lparr>LTDC_Layer1 := (LTDC_Layer1 s)
            \<lparr>PFCR := (PFCR (LTDC_Layer1 s) AND NOT LTDC_LxPFCR_PF) OR
                      (ucast (fmt f) AND LTDC_LxPFCR_PF),
             CFBAR := bufferp f AND LTDC_LxCFBAR_CFBADD,
             CFBLR := (push_bit 16 (pitch f) AND LTDC_LxCFBLR_CFBP) OR
                      ((bytes * ucast (width f) + 3) AND LTDC_LxCFBLR_CFBLL),
             CFBLNR := ucast (height f) AND LTDC_LxCFBLNR_CFBLNBR\<rparr>\<rparr>" by blast
  have pf: "ltdcBgGetPixelFormatI s' = fmt f"
    unfolding ltdcBgGetPixelFormatI_def s' using pfcr_format [of "fmt f"] fm by simp
  have len: "CFBLR (LTDC_Layer1 s') AND LTDC_LxCFBLR_CFBLL = bytes * ucast (width f) + 3"
    unfolding s' using cfblr_length [OF plus3 [OF ls]] by simp
  have pit: "drop_bit 16 (CFBLR (LTDC_Layer1 s') AND LTDC_LxCFBLR_CFBP) = pitch f"
    unfolding s' using cfblr_pitch [OF p] by simp
  have adr: "CFBAR (LTDC_Layer1 s') AND LTDC_LxCFBAR_CFBADD = bufferp f"
    unfolding s' by (simp add: LTDC_LxCFBAR_CFBADD_def and_all_ones)
  have hgt: "(ucast (CFBLNR (LTDC_Layer1 s') AND LTDC_LxCFBLNR_CFBLNBR) :: uint16_t) = height f"
  proof -
    have "(ucast h :: uint32_t) AND LTDC_LxCFBLNR_CFBLNBR AND LTDC_LxCFBLNR_CFBLNBR
        = ucast h AND LTDC_LxCFBLNR_CFBLNBR" for h :: uint16_t
      by (simp add: and.assoc)
    then show ?thesis unfolding s' using cfblnr_height [OF hh] by simp
  qed
  have "ltdcBgGetFrameI (Some g) s' =
      Done (g\<lparr>bufferp := bufferp f, pitch := pitch f, width := width f, height := height f\<rparr>)"
    by (simp only: ltdcBgGetFrameI_def Let_def option.case sum.case pf b(1) len pit adr hgt
        width_back [OF b(2,3)])
  then show ?thesis using pf by simp
qed

lemma ltdcFgFrame_roundtrip:
  assumes cfg: "config (LTDCD1 s) = Some cfg"
    and fm: "fmt f < LTDC_MAX_PIXFMT_ID"
    and hw: "LTDC_MAX_FRAME_WIDTH_BYTES H \<le> 0x1FFC" "LTDC_MAX_FRAME_HEIGHT_LINES H \<le> 0x7FF"
    and st: "ltdcFgSetFrameI H (Some f) s = Done s'"
    and p: "pitch f < 0x2000"
  shows "ltdcFgGetPixelFormatI s' = fmt f \<and>
     (\<exists>g'. ltdcFgGetFrameI (Some g) s' = Done g' \<and>
        bufferp g' = bufferp f \<and> pitch g' = pitch f \<and> width g' = width f \<and>
        height g' = height f)"
proof -
  obtain bytes where b: "ltdcBytesPerPixel (fmt f) = Inr bytes" "1 \<le> bytes" "bytes \<le> 4"
    using ltdcBytesPerPixel_range [OF fm] by blast
  note D = ltdcFgSetFrameI_Done [OF cfg b(1) fm, of H s', THEN iffD1, OF st]
  from D have "bytes * ucast (width f) \<le> LTDC_MAX_FRAME_WIDTH_BYTES H" by blast
  then have ls: "bytes * ucast (width f) \<le> 0x1FFC" using hw(1) by (rule order_trans)
  from D have "(ucast (height f) :: uint32_t) \<le> LTDC_MAX_FRAME_HEIGHT_LINES H" by blast
  then have hh: "(ucast (height f) :: uint32_t) \<le> 0x7FF" using hw(2) by (rule order_trans)
  from D have s': "s' = s\<lparr>LTDC_Layer2 := (LTDC_Layer2 s)
            \<lparr>PFCR := (PFCR (LTDC_Layer2 s) AND NOT LTDC_LxPFCR_PF) OR
                      (ucast (fmt f) AND LTDC_LxPFCR_PF),
             CFBAR := bufferp f AND LTDC_LxCFBAR_CFBADD,
             CFBLR := (push_bit 16 (pitch f) AND LTDC_LxCFBLR_CFBP) OR
                      ((bytes * ucast (width f) + 3) AND LTDC_LxCFBLR_CFBLL),
             CFBLNR := ucast (height f) AND LTDC_LxCFBLNR_CFBLNBR\<rparr>\<rparr>" by blast
  have pf: "ltdcFgGetPixelFormatI s' = fmt f"
    unfolding ltdcFgGetPixelFormatI_def s' using pfcr_format [of "fmt f"] fm by simp
  have len: "CFBLR (LTDC_Layer2 s') AND LTDC_LxCFBLR_CFBLL = bytes * ucast (width f) + 3"
    unfolding s' using cfblr_length [OF plus3 [OF ls]] by simp
  have pit: "drop_bit 16 (CFBLR (LTDC_Layer2 s') AND LTDC_LxCFBLR_CFBP) = pitch f"
    unfolding s' using cfblr_pitch [OF p] by simp
  have adr: "CFBAR (LTDC_Layer2 s') AND LTDC_LxCFBAR_CFBADD = bufferp f"
    unfolding s' by (simp add: LTDC_LxCFBAR_CFBADD_def and_all_ones)
  have hgt: "(ucast (CFBLNR (LTDC_Layer2 s') AND LTDC_LxCFBLNR_CFBLNBR) :: uint16_t) = height f"
  proof -
    have "(ucast h :: uint32_t) AND LTDC_LxCFBLNR_CFBLNBR AND LTDC_LxCFBLNR_CFBLNBR
        = ucast h AND LTDC_LxCFBLNR_CFBLNBR" for h :: uint16_t
      by (simp add: and.assoc)
    then show ?thesis unfolding s' using cfblnr_height [OF hh] by simp
  qed
  have "ltdcFgGetFrameI (Some g) s' =
      Done (g\<lparr>bufferp := bufferp f, pitch := pitch f, width := width f, height := height f\<rparr>)"
    by (simp only: ltdcFgGetFrameI_def Let_def option.case sum.case pf b(1) len pit adr hgt
        width_back [OF b(2,3)])
  then show ?thesis using pf by simp
qed

lemma block_Cons_Halted:
  "block (c # cs) s = Halted h s' \<longleftrightarrow>
     c s = Halted h s' \<or> (\<exists>sm. c s = Done sm \<and> block cs sm = Halted h s')"
  by (auto split: outcome.splits)

lemma assert_Halted: "chDbgAssert c m s = Halted h s' \<longleftrightarrow> \<not> c s \<and> h = AssertFailed m \<and> s' = s"
  by (auto simp: chDbgAssert_def)

lemma check_Halted: "chDbgCheck c m s = Halted h s' \<longleftrightarrow> \<not> c s \<and> h = CheckFailed m \<and> s' = s"
  by (auto simp: chDbgCheck_def)

lemma exec_Halted: "exec f s = Halted h s' \<longleftrightarrow> False"
  by (auto simp: exec_def)

lemmas Halted_iffs = block_Cons_Halted assert_Halted check_Halted exec_Halted

text \<open>
  A frame setter that halts has not written the address, length or line count
  registers.
\<close>

lemma ltdcBgSetFrameI_Halted:
  assumes "ltdcBgSetFrameI H framep s = Halted h s'"
  shows "CFBAR (LTDC_Layer1 s') = CFBAR (LTDC_Layer1 s) \<and>
         CFBLR (LTDC_Layer1 s') = CFBLR (LTDC_Layer1 s) \<and>
         CFBLNR (LTDC_Layer1 s') = CFBLNR (LTDC_Layer1 s)"
  using assms
  by (auto simp add: ltdcBgSetFrameI_def ltdcBgSetPixelFormatI_def Let_def Done_iffs Halted_iffs
      simp del: block.simps(2) split: option.splits sum.splits)

lemma ltdcFgSetFrameI_Halted:
  assumes "ltdcFgSetFrameI H framep s = Halted h s'"
  shows "CFBAR (LTDC_Layer2 s') = CFBAR (LTDC_Layer2 s) \<and>
         CFBLR (LTDC_Layer2 s') = CFBLR (LTDC_Layer2 s) \<and>
         CFBLNR (LTDC_Layer2 s') = CFBLNR (LTDC_Layer2 s)"
  using assms
  by (auto simp add: ltdcFgSetFrameI_def ltdcFgSetPixelFormatI_def Let_def Done_iffs Halted_iffs
      simp del: block.simps(2) split: option.splits sum.splits)

text \<open>The bytes per pixel are an eighth of the bits per pixel of the table.\<close>

lemma bits_of_bytes:
  assumes "ltdcBytesPerPixel fm = Inr bytes"
  shows "ltdcBitsPerPixel fm = Inr (8 * bytes)"
proof -
  have "fm < LTDC_MAX_PIXFMT_ID" using assms
    by (auto simp: ltdcBytesPerPixel_def ltdcBitsPerPixel_def split: if_splits)
  from fmt_cases [OF this] assms show ?thesis
    by (auto simp: ltdcBytesPerPixel_def ltdcBitsPerPixel_def ltdc_bpp_def LTDC_FMT_defs)
qed


lemma bytes_below_max:
  assumes "ltdcBytesPerPixel fm = Inr bytes"
  shows "fm < LTDC_MAX_PIXFMT_ID"
  using assms by (auto simp: ltdcBytesPerPixel_def ltdcBitsPerPixel_def split: if_splits)

text \<open>
  C6 (as amended). For each layer, with a configured driver and a format id 0..6, the
  frame setter computes line-size = bytes-per-pixel(format) * width, the bytes per pixel
  being an eighth of the table's bits per pixel, and returns exactly when width <=
  screen width, height <= screen height, line-size within the header's line-byte
  bounds, height within the header's line-count bounds and pitch >= line-size; it then
  has written the pixel format, the address, the packed pitch and line-size + 3, and the
  height. A setter that halts has written none of the address, length and line-count
  registers. On a 480 pixels wide screen the frame (width 500, height 100, pitch 1000,
  RGB-565) halts at the width assertion.
\<close>

theorem ltdc_set_frame_validation:
  "(config (LTDCD1 s) = Some cfg \<and> ltdcBytesPerPixel (fmt f) = Inr bytes \<longrightarrow>
      fmt f < LTDC_MAX_PIXFMT_ID \<and> ltdcBitsPerPixel (fmt f) = Inr (8 * bytes) \<and>
      (let linesize = bytes * ucast (width f);
           passes = (width f \<le> screen_width cfg \<and> height f \<le> screen_height cfg \<and>
             LTDC_MIN_FRAME_WIDTH_BYTES H \<le> linesize \<and>
             linesize \<le> LTDC_MAX_FRAME_WIDTH_BYTES H \<and>
             LTDC_MIN_FRAME_HEIGHT_LINES H \<le> ucast (height f) \<and>
             ucast (height f) \<le> LTDC_MAX_FRAME_HEIGHT_LINES H \<and>
             linesize \<le> pitch f);
           cfbar = bufferp f AND LTDC_LxCFBAR_CFBADD;
           cfblr = (push_bit 16 (pitch f) AND LTDC_LxCFBLR_CFBP) OR
                   ((linesize + 3) AND LTDC_LxCFBLR_CFBLL);
           cfblnr = ucast (height f) AND LTDC_LxCFBLNR_CFBLNBR
       in (ltdcBgSetFrameI H (Some f) s = Done s' \<longleftrightarrow>
             passes \<and> s' = s\<lparr>LTDC_Layer1 := (LTDC_Layer1 s)
               \<lparr>PFCR := (PFCR (LTDC_Layer1 s) AND NOT LTDC_LxPFCR_PF) OR
                         (ucast (fmt f) AND LTDC_LxPFCR_PF),
                CFBAR := cfbar, CFBLR := cfblr, CFBLNR := cfblnr\<rparr>\<rparr>) \<and>
          (ltdcFgSetFrameI H (Some f) s = Done s' \<longleftrightarrow>
             passes \<and> s' = s\<lparr>LTDC_Layer2 := (LTDC_Layer2 s)
               \<lparr>PFCR := (PFCR (LTDC_Layer2 s) AND NOT LTDC_LxPFCR_PF) OR
                         (ucast (fmt f) AND LTDC_LxPFCR_PF),
                CFBAR := cfbar, CFBLR := cfblr, CFBLNR := cfblnr\<rparr>\<rparr>))) \<and>
   (fmt f < LTDC_MAX_PIXFMT_ID \<longrightarrow>
      (\<exists>n. ltdcBytesPerPixel (fmt f) = Inr n \<and> 1 \<le> n \<and> n \<le> 4)) \<and>
   (ltdcBgSetFrameI H framep s = Halted h t \<longrightarrow>
      CFBAR (LTDC_Layer1 t) = CFBAR (LTDC_Layer1 s) \<and>
      CFBLR (LTDC_Layer1 t) = CFBLR (LTDC_Layer1 s) \<and>
      CFBLNR (LTDC_Layer1 t) = CFBLNR (LTDC_Layer1 s)) \<and>
   (ltdcFgSetFrameI H framep s = Halted h t \<longrightarrow>
      CFBAR (LTDC_Layer2 t) = CFBAR (LTDC_Layer2 s) \<and>
      CFBLR (LTDC_Layer2 t) = CFBLR (LTDC_Layer2 s) \<and>
      CFBLNR (LTDC_Layer2 t) = CFBLNR (LTDC_Layer2 s)) \<and>
   (config (LTDCD1 s) = Some cfg \<and> screen_width cfg = 480 \<longrightarrow>
      ltdcFgSetFrameI H (Some frame_500x100) s =
        Halted (AssertFailed ''ltdcFgSetFrameI(), #1'')
          (s\<lparr>LTDC_Layer2 := (LTDC_Layer2 s)
             \<lparr>PFCR := (PFCR (LTDC_Layer2 s) AND NOT LTDC_LxPFCR_PF) OR 2\<rparr>\<rparr>))"
proof (intro conjI impI)
  assume a: "config (LTDCD1 s) = Some cfg \<and> ltdcBytesPerPixel (fmt f) = Inr bytes"
  then have cf: "config (LTDCD1 s) = Some cfg" and b: "ltdcBytesPerPixel (fmt f) = Inr bytes"
    by simp_all
  show fm: "fmt f < LTDC_MAX_PIXFMT_ID" using b by (rule bytes_below_max)
  show "ltdcBitsPerPixel (fmt f) = Inr (8 * bytes)" using b by (rule bits_of_bytes)
  show "let linesize = bytes * ucast (width f);
           passes = (width f \<le> screen_width cfg \<and> height f \<le> screen_height cfg \<and>
             LTDC_MIN_FRAME_WIDTH_BYTES H \<le> linesize \<and>
             linesize \<le> LTDC_MAX_FRAME_WIDTH_BYTES H \<and>
             LTDC_MIN_FRAME_HEIGHT_LINES H \<le> ucast (height f) \<and>
             ucast (height f) \<le> LTDC_MAX_FRAME_HEIGHT_LINES H \<and>
             linesize \<le> pitch f);
           cfbar = bufferp f AND LTDC_LxCFBAR_CFBADD;
           cfblr = (push_bit 16 (pitch f) AND LTDC_LxCFBLR_CFBP) OR
                   ((linesize + 3) AND LTDC_LxCFBLR_CFBLL);
           cfblnr = ucast (height f) AND LTDC_LxCFBLNR_CFBLNBR
       in (ltdcBgSetFrameI H (Some f) s = Done s' \<longleftrightarrow>
             passes \<and> s' = s\<lparr>LTDC_Layer1 := (LTDC_Layer1 s)
               \<lparr>PFCR := (PFCR (LTDC_Layer1 s) AND NOT LTDC_LxPFCR_PF) OR
                         (ucast (fmt f) AND LTDC_LxPFCR_PF),
                CFBAR := cfbar, CFBLR := cfblr, CFBLNR := cfblnr\<rparr>\<rparr>) \<and>
          (ltdcFgSetFrameI H (Some f) s = Done s' \<longleftrightarrow>
             passes \<and> s' = s\<lparr>LTDC_Layer2 := (LTDC_Layer2 s)
               \<lparr>PFCR := (PFCR (LTDC_Layer2 s) AND NOT LTDC_LxPFCR_PF) OR
                         (ucast (fmt f) AND LTDC_LxPFCR_PF),
                CFBAR := cfbar, CFBLR := cfblr, CFBLNR := cfblnr\<rparr>\<rparr>)"
    unfolding ltdcBgSetFrameI_Done [OF cf b fm] ltdcFgSetFrameI_Done [OF cf b fm]
    by (simp add: Let_def conj_assoc)
next
  assume "fmt f < LTDC_MAX_PIXFMT_ID"
  then show "\<exists>n. ltdcBytesPerPixel (fmt f) = Inr n \<and> 1 \<le> n \<and> n \<le> 4"
    by (rule ltdcBytesPerPixel_range)
next
  assume "ltdcBgSetFrameI H framep s = Halted h t"
  then have "CFBAR (LTDC_Layer1 t) = CFBAR (LTDC_Layer1 s) \<and>
      CFBLR (LTDC_Layer1 t) = CFBLR (LTDC_Layer1 s) \<and>
      CFBLNR (LTDC_Layer1 t) = CFBLNR (LTDC_Layer1 s)"
    by (rule ltdcBgSetFrameI_Halted)
  then show "CFBAR (LTDC_Layer1 t) = CFBAR (LTDC_Layer1 s)"
    and "CFBLR (LTDC_Layer1 t) = CFBLR (LTDC_Layer1 s)"
    and "CFBLNR (LTDC_Layer1 t) = CFBLNR (LTDC_Layer1 s)" by simp_all
next
  assume "ltdcFgSetFrameI H framep s = Halted h t"
  then have "CFBAR (LTDC_Layer2 t) = CFBAR (LTDC_Layer2 s) \<and>
      CFBLR (LTDC_Layer2 t) = CFBLR (LTDC_Layer2 s) \<and>
      CFBLNR (LTDC_Layer2 t) = CFBLNR (LTDC_Layer2 s)"
    by (rule ltdcFgSetFrameI_Halted)
  then show "CFBAR (LTDC_Layer2 t) = CFBAR (LTDC_Layer2 s)"
    and "CFBLR (LTDC_Layer2 t) = CFBLR (LTDC_Layer2 s)"
    and "CFBLNR (LTDC_Layer2 t) = CFBLNR (LTDC_Layer2 s)" by simp_all
next
  assume "config (LTDCD1 s) = Some cfg \<and> screen_width cfg = 480"
  then show "ltdcFgSetFrameI H (Some frame_500x100) s =
        Halted (AssertFailed ''ltdcFgSetFrameI(), #1'')
          (s\<lparr>LTDC_Layer2 := (LTDC_Layer2 s)
             \<lparr>PFCR := (PFCR (LTDC_Layer2 s) AND NOT LTDC_LxPFCR_PF) OR 2\<rparr>\<rparr>)"
    by (simp add: ltdcFgSetFrameI_def ltdcFgSetPixelFormatI_def stmt_defs frame_500x100_def
        LTDC_mask_defs LTDC_FMT_defs ltdcBytesPerPixel_def ltdcBitsPerPixel_def ltdc_bpp_def)
qed

theorem ltdc_set_frame_validation_witness:
  "config (LTDCD1 started) = Some panel_480x272 \<and>
   ltdcBytesPerPixel (fmt frame_480x272) = Inr 2 \<and>
   screen_width panel_480x272 = 480 \<and>
   ltdcBitsPerPixel (fmt frame_480x272) = Inr 16 \<and>
   ltdcBgSetFrameI stm32_ltdc_h (Some frame_480x272) started =
     Done (started\<lparr>LTDC_Layer1 := (LTDC_Layer1 started)
       \<lparr>PFCR := 2, CFBAR := 0xD0000000, CFBLR := 0x03C003C3, CFBLNR := 272\<rparr>\<rparr>) \<and>
   ltdcFgSetFrameI stm32_ltdc_h (Some frame_500x100) started =
     Halted (AssertFailed ''ltdcFgSetFrameI(), #1'')
       (started\<lparr>LTDC_Layer2 := (LTDC_Layer2 started)\<lparr>PFCR := 2\<rparr>\<rparr>)"
proof -
  have cf: "config (LTDCD1 started) = Some panel_480x272" by (simp add: started_def)
  have b: "ltdcBytesPerPixel (fmt frame_480x272) = Inr 2"
    by (simp add: frame_480x272_def ltdcBytesPerPixel_values)
  have w: "screen_width panel_480x272 = 480" by (simp add: panel_480x272_def)
  note T = ltdc_set_frame_validation [of started panel_480x272 frame_480x272 2 stm32_ltdc_h
      "started\<lparr>LTDC_Layer1 := (LTDC_Layer1 started)
       \<lparr>PFCR := 2, CFBAR := 0xD0000000, CFBLR := 0x03C003C3, CFBLNR := 272\<rparr>\<rparr>"]
  have bits: "ltdcBitsPerPixel (fmt frame_480x272) = Inr 16"
    using T cf b by simp
  have bg: "ltdcBgSetFrameI stm32_ltdc_h (Some frame_480x272) started =
     Done (started\<lparr>LTDC_Layer1 := (LTDC_Layer1 started)
       \<lparr>PFCR := 2, CFBAR := 0xD0000000, CFBLR := 0x03C003C3, CFBLNR := 272\<rparr>\<rparr>)"
    using T cf b
    by (simp add: Let_def frame_480x272_def started_def panel_480x272_def stm32_ltdc_h_def
        LTDC_mask_defs LTDC_FMT_defs)
  have fg: "ltdcFgSetFrameI stm32_ltdc_h (Some frame_500x100) started =
     Halted (AssertFailed ''ltdcFgSetFrameI(), #1'')
       (started\<lparr>LTDC_Layer2 := (LTDC_Layer2 started)\<lparr>PFCR := 2\<rparr>\<rparr>)"
    using T cf w by (simp add: started_def LTDC_mask_defs)
  show ?thesis using cf b w bits bg fg by simp
qed

text \<open>
  C6 as it was stated fails at two frames on the started 480 by 272 system. The
  full-screen RGB-565 frame with a pitch of 960 bytes is accepted and 960 + 3 goes to
  the length field, although its pitch is below bits-per-pixel * width = 16 * 480. The
  one-pixel AL-88 frame satisfies every listed bound and still halts, at the assertion
  of the bits-per-pixel lookup.
\<close>

theorem ltdc_set_frame_validation_counterexample:
  "ltdcBitsPerPixel LTDC_FMT_RGB565 = Inr 16 \<and>
   \<not> ((16 :: uint32_t) * 480 \<le> pitch frame_480x272) \<and>
   ltdcFgSetFrameI stm32_ltdc_h (Some frame_480x272) started =
     Done (started\<lparr>LTDC_Layer2 := (LTDC_Layer2 started)
       \<lparr>PFCR := 2, CFBAR := 0xD0000000, CFBLR := 0x03C003C3, CFBLNR := 272\<rparr>\<rparr>) \<and>
   (0x03C003C3 :: uint32_t) AND LTDC_LxCFBLR_CFBLL = 960 + 3 \<and>
   width frame_al88 \<le> screen_width panel_480x272 \<and>
   height frame_al88 \<le> screen_height panel_480x272 \<and>
   ltdc_bpp ! unat (fmt frame_al88) = 16 \<and>
   (16 :: uint32_t) * ucast (width frame_al88) \<le> pitch frame_al88 \<and>
   ltdcFgSetFrameI stm32_ltdc_h (Some frame_al88) started =
     Halted (AssertFailed ''ltdcBitsPerPixel(), #1'')
       (started\<lparr>LTDC_Layer2 := (LTDC_Layer2 started)\<lparr>PFCR := 7\<rparr>\<rparr>)"
  by (simp add: ltdcFgSetFrameI_def ltdcFgSetPixelFormatI_def stmt_defs frame_480x272_def
      frame_al88_def started_def panel_480x272_def stm32_ltdc_h_def LTDC_mask_defs
      LTDC_FMT_defs ltdcBytesPerPixel_def ltdcBitsPerPixel_def ltdc_bpp_def)

text \<open>
  C2 (as amended). For each layer, with a configured driver, a header whose maximum line
  bytes and line count fit the register fields, and a frame descriptor F with a format
  id 0..6, geometry within the bounds, pitch >= bytes-per-pixel * width and pitch below
  8192 (the 13-bit pitch field): set-frame returns, the pixel format register then reads
  back F's format, and get-frame returns a descriptor whose address, pitch, width and
  height equal those of F, the width being recovered from the stored line length + 3.
\<close>

theorem ltdc_frame_roundtrip:
  assumes cfg: "config (LTDCD1 s) = Some cfg"
    and b: "ltdcBytesPerPixel (fmt f) = Inr bytes"
    and valid: "width f \<le> screen_width cfg" "height f \<le> screen_height cfg"
      "LTDC_MIN_FRAME_WIDTH_BYTES H \<le> bytes * ucast (width f)"
      "bytes * ucast (width f) \<le> LTDC_MAX_FRAME_WIDTH_BYTES H"
      "LTDC_MIN_FRAME_HEIGHT_LINES H \<le> ucast (height f)"
      "ucast (height f) \<le> LTDC_MAX_FRAME_HEIGHT_LINES H"
      "bytes * ucast (width f) \<le> pitch f"
    and hw: "LTDC_MAX_FRAME_WIDTH_BYTES H \<le> 0x1FFC" "LTDC_MAX_FRAME_HEIGHT_LINES H \<le> 0x7FF"
    and p: "pitch f < 0x2000"
  shows "(\<exists>s'. ltdcBgSetFrameI H (Some f) s = Done s' \<and>
            ltdcBgGetPixelFormatI s' = fmt f \<and>
            (\<exists>g'. ltdcBgGetFrameI (Some g) s' = Done g' \<and>
               bufferp g' = bufferp f \<and> pitch g' = pitch f \<and> width g' = width f \<and>
               height g' = height f)) \<and>
         (\<exists>s'. ltdcFgSetFrameI H (Some f) s = Done s' \<and>
            ltdcFgGetPixelFormatI s' = fmt f \<and>
            (\<exists>g'. ltdcFgGetFrameI (Some g) s' = Done g' \<and>
               bufferp g' = bufferp f \<and> pitch g' = pitch f \<and> width g' = width f \<and>
               height g' = height f))"
proof -
  have fm: "fmt f < LTDC_MAX_PIXFMT_ID" using b by (rule bytes_below_max)
  obtain s1 where s1: "ltdcBgSetFrameI H (Some f) s = Done s1"
    using ltdcBgSetFrameI_Done [OF cfg b fm, of H] valid by blast
  obtain s2 where s2: "ltdcFgSetFrameI H (Some f) s = Done s2"
    using ltdcFgSetFrameI_Done [OF cfg b fm, of H] valid by blast
  show ?thesis
    using s1 s2 ltdcBgFrame_roundtrip [OF cfg fm hw s1 p, of g]
      ltdcFgFrame_roundtrip [OF cfg fm hw s2 p, of g]
    by blast
qed

theorem ltdc_frame_roundtrip_witness:
  "(\<exists>s'. ltdcBgSetFrameI stm32_ltdc_h (Some frame_480x272) started = Done s' \<and>
      ltdcBgGetPixelFormatI s' = LTDC_FMT_RGB565 \<and>
      (\<exists>g'. ltdcBgGetFrameI (Some ltdc_invalid_frame) s' = Done g' \<and>
         bufferp g' = 0xD0000000 \<and> pitch g' = 960 \<and> width g' = 480 \<and> height g' = 272)) \<and>
   (\<exists>s'. ltdcFgSetFrameI stm32_ltdc_h (Some frame_480x272) started = Done s' \<and>
      ltdcFgGetPixelFormatI s' = LTDC_FMT_RGB565 \<and>
      (\<exists>g'. ltdcFgGetFrameI (Some ltdc_invalid_frame) s' = Done g' \<and>
         bufferp g' = 0xD0000000 \<and> pitch g' = 960 \<and> width g' = 480 \<and> height g' = 272))"
proof -
  have cf: "config (LTDCD1 started) = Some panel_480x272" by (simp add: started_def)
  have b: "ltdcBytesPerPixel (fmt frame_480x272) = Inr 2"
    by (simp add: frame_480x272_def ltdcBytesPerPixel_values)
  have T: "(\<exists>s'. ltdcBgSetFrameI stm32_ltdc_h (Some frame_480x272) started = Done s' \<and>
            ltdcBgGetPixelFormatI s' = fmt frame_480x272 \<and>
            (\<exists>g'. ltdcBgGetFrameI (Some ltdc_invalid_frame) s' = Done g' \<and>
               bufferp g' = bufferp frame_480x272 \<and> pitch g' = pitch frame_480x272 \<and>
               width g' = width frame_480x272 \<and> height g' = height frame_480x272)) \<and>
         (\<exists>s'. ltdcFgSetFrameI stm32_ltdc_h (Some frame_480x272) started = Done s' \<and>
            ltdcFgGetPixelFormatI s' = fmt frame_480x272 \<and>
            (\<exists>g'. ltdcFgGetFrameI (Some ltdc_invalid_frame) s' = Done g' \<and>
               bufferp g' = bufferp frame_480x272 \<and> pitch g' = pitch frame_480x272 \<and>
               width g' = width frame_480x272 \<and> height g' = height frame_480x272))"
    by (rule ltdc_frame_roundtrip [OF cf b])
      (simp_all add: frame_480x272_def panel_480x272_def stm32_ltdc_h_def)
  then show ?thesis by (simp add: frame_480x272_def)
qed

text \<open>
  C2 as it was stated fails at the full-screen RGB-565 frame with a pitch of 65536
  bytes, which passes every check of set-frame: get-frame then returns the pitch 0, and
  it leaves the format field of the descriptor it fills as it found it (here L-8).
\<close>

theorem ltdc_frame_roundtrip_counterexample:
  "ltdcBgSetFrameI stm32_ltdc_h (Some frame_pitch_65536) started =
      Done (started\<lparr>LTDC_Layer1 := (LTDC_Layer1 started)
        \<lparr>PFCR := 2, CFBAR := 0xD0000000, CFBLR := 0x000003C3, CFBLNR := 272\<rparr>\<rparr>) \<and>
   ltdcBgGetFrameI (Some ltdc_invalid_frame) (started\<lparr>LTDC_Layer1 := (LTDC_Layer1 started)
        \<lparr>PFCR := 2, CFBAR := 0xD0000000, CFBLR := 0x000003C3, CFBLNR := 272\<rparr>\<rparr>) =
      Done \<lparr>bufferp = 0xD0000000, pitch = 0, width = 480, height = 272, fmt = LTDC_FMT_L8\<rparr> \<and>
   pitch frame_pitch_65536 = 65536 \<and> fmt frame_pitch_65536 = LTDC_FMT_RGB565 \<and>
   LTDC_FMT_L8 \<noteq> LTDC_FMT_RGB565"
  by (simp add: ltdcBgSetFrameI_def ltdcBgSetPixelFormatI_def stmt_defs frame_pitch_65536_def
      started_def panel_480x272_def stm32_ltdc_h_def LTDC_mask_defs LTDC_FMT_defs
      ltdcBytesPerPixel_def ltdcBitsPerPixel_def ltdc_bpp_def ltdcBgGetFrameI_def
      ltdcBgGetPixelFormatI_def ltdc_invalid_frame_def)

section \<open>The register-reload interrupt\<close>

text \<open>
  C5 (as amended). In the register-reload branch of the event interrupt handler (no
  line interrupt pending), the reload callback, if one is configured, is invoked first,
  on the system as the handler found it. With the driver active when the callback has
  returned, the parked thread, if any, is then made ready with the message \<open>RDY_OK\<close>
  and the wait slot is emptied, and after that the driver state is set to ready; the
  handler ends by clearing the reload flag.
\<close>

theorem ltdc_reload_irq_order:
  assumes pend: "ISR (LTDC s) AND LTDC_ISR_RRIF \<noteq> 0" "IER (LTDC s) AND LTDC_IER_RRIE \<noteq> 0"
    and noline: "ISR (LTDC s) AND LTDC_ISR_LIF = 0"
    and cfg: "config (LTDCD1 s) = Some cfg"
    and cb: "(case rr_isr cfg of None \<Rightarrow> Done s
              | Some f \<Rightarrow> call f (s\<lparr>trace := trace s @ [Invoke f]\<rparr>)) = Done s1"
    and act: "ltdc_state (LTDCD1 s1) = LTDC_ACTIVE"
  shows "LTDC_EV_IRQHandler call s =
    Done (s1\<lparr>LTDC := (LTDC s1)\<lparr>ISR := ISR (LTDC s1) AND NOT LTDC_ICR_CRRIF\<rparr>,
             LTDCD1 := (LTDCD1 s1)\<lparr>ltdc_state := LTDC_READY, thread := None\<rparr>,
             trace := trace s1 @
               (case thread (LTDCD1 s1) of None \<Rightarrow> [] | Some tp \<Rightarrow> [Ready tp RDY_OK]) @
               [StateSet LTDC_READY]\<rparr>)"
  using assms
  by (auto simp add: LTDC_EV_IRQHandler_def stmt_defs invoke_def chSchReadyI_def
      set_state_def write_ICR_def split: option.splits)

theorem ltdc_reload_irq_order_witness:
  "ISR (LTDC reload_pending) AND LTDC_ISR_RRIF \<noteq> 0 \<and>
   IER (LTDC reload_pending) AND LTDC_IER_RRIE \<noteq> 0 \<and>
   ISR (LTDC reload_pending) AND LTDC_ISR_LIF = 0 \<and>
   ltdc_state (LTDCD1 reload_pending) = LTDC_ACTIVE \<and>
   thread (LTDCD1 reload_pending) = Some 7 \<and>
   LTDC_EV_IRQHandler quiet_callback reload_pending =
     Done (reload_pending\<lparr>LTDC := (LTDC reload_pending)\<lparr>ISR := 0\<rparr>,
        LTDCD1 := (LTDCD1 reload_pending)\<lparr>ltdc_state := LTDC_READY, thread := None\<rparr>,
        trace := [StateSet LTDC_UNINIT, StateSet LTDC_STOP, StateSet LTDC_READY,
                  StateSet LTDC_ACTIVE, Invoke 1, Ready 7 RDY_OK, StateSet LTDC_READY]\<rparr>)"
proof -
  let ?s1 = "reload_pending\<lparr>trace := trace reload_pending @ [Invoke 1]\<rparr>"
  have pend: "ISR (LTDC reload_pending) AND LTDC_ISR_RRIF \<noteq> 0"
    "IER (LTDC reload_pending) AND LTDC_IER_RRIE \<noteq> 0"
    by (simp_all add: reload_pending_def started_def LTDC_mask_defs)
  have noline: "ISR (LTDC reload_pending) AND LTDC_ISR_LIF = 0"
    by (simp add: reload_pending_def started_def LTDC_mask_defs)
  have cfg: "config (LTDCD1 reload_pending) = Some (panel_480x272\<lparr>rr_isr := Some 1\<rparr>)"
    by (simp add: reload_pending_def)
  have cb: "(case rr_isr (panel_480x272\<lparr>rr_isr := Some 1\<rparr>) of None \<Rightarrow> Done reload_pending
      | Some f \<Rightarrow> quiet_callback f (reload_pending\<lparr>trace := trace reload_pending @ [Invoke f]\<rparr>))
      = Done ?s1"
    by (simp add: quiet_callback_def)
  have act: "ltdc_state (LTDCD1 ?s1) = LTDC_ACTIVE" by (simp add: reload_pending_def)
  have st: "ltdc_state (LTDCD1 reload_pending) = LTDC_ACTIVE"
    and th: "thread (LTDCD1 reload_pending) = Some 7"
    by (simp_all add: reload_pending_def)
  show ?thesis
    using pend noline st th ltdc_reload_irq_order [where call = quiet_callback, OF pend noline cfg cb act]
    by (simp add: reload_pending_def started_def LTDC_mask_defs)
qed

text \<open>
  C5 as it was stated fails: with a callback configured and thread 7 parked, the handler
  makes the thread ready before it sets the driver state to ready, not after.
\<close>

theorem ltdc_reload_irq_order_counterexample:
  "LTDC_EV_IRQHandler quiet_callback reload_pending =
     Done (reload_pending\<lparr>LTDC := (LTDC reload_pending)\<lparr>ISR := 0\<rparr>,
        LTDCD1 := (LTDCD1 reload_pending)\<lparr>ltdc_state := LTDC_READY, thread := None\<rparr>,
        trace := trace reload_pending @ [Invoke 1, Ready 7 RDY_OK, StateSet LTDC_READY]\<rparr>) \<and>
   trace reload_pending @ [Invoke 1, Ready 7 RDY_OK, StateSet LTDC_READY] \<noteq>
   trace reload_pending @ [Invoke 1, StateSet LTDC_READY, Ready 7 RDY_OK]"
  by (simp add: LTDC_EV_IRQHandler_def stmt_defs invoke_def chSchReadyI_def
      set_state_def write_ICR_def reload_pending_def quiet_callback_def started_def
      panel_480x272_def LTDC_mask_defs)

section \<open>ILI9341 transfers\<close>

text \<open>
  What a transfer does in a session: with the driver active and configured, a command
  byte goes out with D/CX low and a data byte with D/CX high.
\<close>

lemma ili9341_write_active:
  assumes "ili9341_state (ILI9341D1 s) = ILI9341_ACTIVE"
    and "ili9341_config (ILI9341D1 s) = Some cfg" and "spi cfg = Some sp"
  shows "ili9341WriteCommand cmd s =
           Done (s\<lparr>ILI9341D1 := (ILI9341D1 s)\<lparr>value := cmd\<rparr>,
                   bus := bus s @ [PadClear (dcx_port cfg) (dcx_pad cfg), SpiSend sp [cmd]]\<rparr>)"
    and "ili9341WriteByte v s =
           Done (s\<lparr>ILI9341D1 := (ILI9341D1 s)\<lparr>value := v\<rparr>,
                   bus := bus s @ [PadSet (dcx_port cfg) (dcx_pad cfg), SpiSend sp [v]]\<rparr>)"
  using assms
  by (simp_all add: ili9341WriteCommand_def ili9341WriteByte_def stmt_defs with_config_def
      log_bus_def)

text \<open>
  C9. Every transfer operation requires the panel driver to be active: called in any
  other state, write-command, write-byte, read-byte, write-chunk and read-chunk each halt
  at an assertion with the system exactly as it was, so neither the D/CX pad nor the SPI
  endpoint has been touched. For the four operations other than read-byte the assertion
  is the one on the state; read-byte halts at its leading "should not be used" assertion
  in every state.
\<close>

theorem ili9341_transfer_requires_active:
  assumes "ili9341_state (ILI9341D1 s) \<noteq> ILI9341_ACTIVE"
  shows "ili9341WriteCommand cmd s = Halted (AssertFailed ''ili9341WriteCommand(), #1'') s \<and>
         ili9341WriteByte v s = Halted (AssertFailed ''ili9341WriteByte(), #1'') s \<and>
         ili9341ReadByte s = Halted (AssertFailed ''ili9341ReadByte()'') s \<and>
         ili9341WriteChunk (Some bytes) len s =
           Halted (AssertFailed ''ili9341WriteChunk(), #1'') s \<and>
         ili9341ReadChunk len (s, Some bytes) =
           Halted (AssertFailed ''ili9341ReadChunk(), #1'') (s, Some bytes)"
  using assms
  by (simp add: ili9341WriteCommand_def ili9341WriteByte_def ili9341ReadByte_def
      ili9341WriteChunk_def ili9341ReadChunk_def stmt_defs)

theorem ili9341_transfer_requires_active_witness:
  "ili9341_state (ILI9341D1 panel_ready) \<noteq> ILI9341_ACTIVE \<and>
   ili9341WriteCommand 0x2A panel_ready =
     Halted (AssertFailed ''ili9341WriteCommand(), #1'') panel_ready \<and>
   ili9341WriteByte 0x55 panel_ready =
     Halted (AssertFailed ''ili9341WriteByte(), #1'') panel_ready \<and>
   ili9341ReadByte panel_ready = Halted (AssertFailed ''ili9341ReadByte()'') panel_ready \<and>
   ili9341WriteChunk (Some [1, 2, 3]) 3 panel_ready =
     Halted (AssertFailed ''ili9341WriteChunk(), #1'') panel_ready \<and>
   ili9341ReadChunk 3 (panel_ready, Some [0, 0, 0]) =
     Halted (AssertFailed ''ili9341ReadChunk(), #1'') (panel_ready, Some [0, 0, 0])"
proof -
  have h: "ili9341_state (ILI9341D1 panel_ready) \<noteq> ILI9341_ACTIVE"
    by (simp add: panel_ready_def)
  show ?thesis
    using h ili9341_transfer_requires_active [OF h, of "0x2A" "0x55" "[1, 2, 3]" 3]
      ili9341_transfer_requires_active [OF h, of "0x2A" "0x55" "[0, 0, 0]" 3]
    by simp
qed

text \<open>
  C10. With the driver active and a chunk that is not null, write-chunk and read-chunk
  of length 0 return at once: the system is as it was (no SPI transfer, no pad
  operation, the same driver state) and the chunk is unchanged.
\<close>

theorem ili9341_chunk_length_zero:
  assumes "ili9341_state (ILI9341D1 s) = ILI9341_ACTIVE"
  shows "ili9341WriteChunk (Some bytes) 0 s = Done s \<and>
         ili9341ReadChunk 0 (s, Some bytes) = Done (s, Some bytes)"
  using assms
  by (simp add: ili9341WriteChunk_def ili9341ReadChunk_def stmt_defs)

theorem ili9341_chunk_length_zero_witness:
  "ili9341SelectI panel_ready = Done panel_active \<and>
   ili9341_state (ILI9341D1 panel_active) = ILI9341_ACTIVE \<and>
   ili9341WriteChunk (Some [1, 2, 3]) 0 panel_active = Done panel_active \<and>
   ili9341ReadChunk 0 (panel_active, Some [1, 2, 3]) = Done (panel_active, Some [1, 2, 3])"
proof -
  have h: "ili9341_state (ILI9341D1 panel_active) = ILI9341_ACTIVE"
    by (simp add: panel_active_def)
  have sel: "ili9341SelectI panel_ready = Done panel_active"
    by (simp add: ili9341SelectI_def panel_cfg_def panel_ready_def panel_active_def stmt_defs
        log_bus_def with_config_def)
  show ?thesis
    using h sel ili9341_chunk_length_zero [OF h, of "[1, 2, 3]"] by simp
qed

end
